theory Spec2Isabelle
  imports Complex_Main "HOL-Library.Log_Nat"
begin

chapter \<open>BountyHound Local: the orchestration core\<close>

text \<open>
  A shallow embedding of the hunt orchestrator's core: the target lock kept in Redis
  (\<^verbatim>\<open>src/database/redis_manager.py\<close>), the validation pipeline
  (\<^verbatim>\<open>src/workers/validator.py\<close>), the JSON recovery of the model client
  (\<^verbatim>\<open>src/models/vllm_client.py\<close>), the hunt itself
  (\<^verbatim>\<open>src/orchestrator/brain.py\<close>), the priority score
  (\<^verbatim>\<open>src/orchestrator/scheduler.py\<close>) and the cross-target pattern store
  (\<^verbatim>\<open>src/orchestrator/cross_target.py\<close>).

  Python exceptions are values of the type \<open>error\<close>; a function that can raise returns
  \<open>error + 'a\<close> with \<open>Inl\<close> for the exception. State (the SQLite tables, the Redis
  keyspace) is passed explicitly and returned updated.
\<close>

section \<open>Exceptions\<close>

datatype error =
    ResponseError        \<comment> \<open>redis: the server refused the command\<close>
  | JSONDecodeError
  | AttributeError
  | TypeError
  | KeyError
  | IntegrityError       \<comment> \<open>sqlite3: a NOT NULL constraint failed\<close>
  | InterfaceError       \<comment> \<open>sqlite3: a value of a type that cannot be bound\<close>
  | TimeoutError         \<comment> \<open>celery: the awaited result did not arrive in time\<close>
  | OtherError string    \<comment> \<open>anything else a collaborator raises\<close>

section \<open>The Redis keyspace and the target lock\<close>

text \<open>
  A Redis key holds a string, a counter or a list, and may carry an expiry time (seconds
  on the server's clock). A key whose expiry time has been reached does not exist for
  any command. Redis runs one command at a time, so concurrent calls of different
  workers take effect one after the other in some order: each command is a function from
  the keyspace and the current time to a reply and the next keyspace.
\<close>

datatype rvalue = RStr string | RInt int | RList "string list"

record entry =
  stored :: rvalue
  expires_at :: "nat option"

type_synonym redis = "string \<Rightarrow> entry option"

definition exists_key :: "redis \<Rightarrow> nat \<Rightarrow> string \<Rightarrow> bool" where
  "exists_key r now k =
     (case r k of
        None \<Rightarrow> False
      | Some e \<Rightarrow> (case expires_at e of None \<Rightarrow> True | Some t \<Rightarrow> now < t))"

text \<open>
  \<^verbatim>\<open>r.set(key, value, nx=True, ex=ttl)\<close>: the server rejects a lease that is not
  positive; otherwise the key is written only if it does not exist. redis-py answers
  \<^verbatim>\<open>True\<close> when the key was written and \<^verbatim>\<open>None\<close> when it was not; the boolean
  of the model is the truth value the caller tests.
\<close>

definition redis_set_nx_ex ::
  "redis \<Rightarrow> nat \<Rightarrow> string \<Rightarrow> string \<Rightarrow> int \<Rightarrow> error + (bool \<times> redis)" where
  "redis_set_nx_ex r now k v ttl =
     (if ttl \<le> 0 then Inl ResponseError
      else if exists_key r now k then Inr (False, r)
      else Inr (True, r(k \<mapsto> \<lparr>stored = RStr v, expires_at = Some (now + nat ttl)\<rparr>)))"

definition redis_delete :: "redis \<Rightarrow> string \<Rightarrow> redis" where
  "redis_delete r k = r(k := None)"

definition PREFIX :: string where
  "PREFIX = ''bhl:''"

definition lock_key :: "string \<Rightarrow> string" where
  "lock_key domain = PREFIX @ ''lock:'' @ domain"

definition set_target_lock :: "redis \<Rightarrow> nat \<Rightarrow> string \<Rightarrow> int \<Rightarrow> error + (bool \<times> redis)" where
  "set_target_lock r now domain ttl = redis_set_nx_ex r now (lock_key domain) ''1'' ttl"

definition release_target_lock :: "redis \<Rightarrow> string \<Rightarrow> redis" where
  "release_target_lock r domain = redis_delete r (lock_key domain)"

definition is_target_locked :: "redis \<Rightarrow> nat \<Rightarrow> string \<Rightarrow> bool" where
  "is_target_locked r now domain = exists_key r now (lock_key domain)"

section \<open>Python strings\<close>

text \<open>
  A Python \<^verbatim>\<open>str\<close> is a \<open>string\<close> (a list of characters); the model covers ASCII
  text. Each function below is the Python operation its comment names.
\<close>

fun startswith :: "string \<Rightarrow> string \<Rightarrow> bool" where
  \<comment> \<open>\<^verbatim>\<open>s.startswith(p)\<close>\<close>
  "startswith s [] = True"
| "startswith [] (p # ps) = False"
| "startswith (c # s) (p # ps) = (c = p \<and> startswith s ps)"

fun contains :: "string \<Rightarrow> string \<Rightarrow> bool" where
  \<comment> \<open>\<^verbatim>\<open>sub in s\<close>\<close>
  "contains [] sub = (sub = [])"
| "contains (c # s) sub = (startswith (c # s) sub \<or> contains s sub)"

definition lower_char :: "char \<Rightarrow> char" where
  "lower_char c =
     (case map_of (zip ''ABCDEFGHIJKLMNOPQRSTUVWXYZ'' ''abcdefghijklmnopqrstuvwxyz'') c of
        None \<Rightarrow> c
      | Some l \<Rightarrow> l)"

definition lower :: "string \<Rightarrow> string" where
  \<comment> \<open>\<^verbatim>\<open>s.lower()\<close>\<close>
  "lower s = map lower_char s"

definition is_space :: "char \<Rightarrow> bool" where
  \<comment> \<open>\<^verbatim>\<open>c.isspace()\<close> on ASCII: tab, line feed, vertical tab, form feed, carriage
      return, the four separators 0x1C to 0x1F, and the space\<close>
  "is_space c \<longleftrightarrow>
     c \<in> set [CHR 0x09, CHR 0x0A, CHR 0x0B, CHR 0x0C, CHR 0x0D,
               CHR 0x1C, CHR 0x1D, CHR 0x1E, CHR 0x1F, CHR '' '']"

definition strip :: "string \<Rightarrow> string" where
  \<comment> \<open>\<^verbatim>\<open>s.strip()\<close>\<close>
  "strip s = rev (dropWhile is_space (rev (dropWhile is_space s)))"

definition py_find :: "string \<Rightarrow> char \<Rightarrow> int" where
  \<comment> \<open>\<^verbatim>\<open>s.find(c)\<close> for a single character: the first index, or -1\<close>
  "py_find s c = (if c \<in> set s then int (length (takeWhile (\<lambda>x. x \<noteq> c) s)) else - 1)"

definition py_rfind :: "string \<Rightarrow> char \<Rightarrow> int" where
  \<comment> \<open>\<^verbatim>\<open>s.rfind(c)\<close> for a single character: the last index, or -1\<close>
  "py_rfind s c =
     (if c \<in> set s then int (length s) - 1 - int (length (takeWhile (\<lambda>x. x \<noteq> c) (rev s)))
      else - 1)"

definition slice :: "string \<Rightarrow> int \<Rightarrow> int \<Rightarrow> string" where
  \<comment> \<open>\<^verbatim>\<open>s[start:end]\<close> for \<open>0 \<le> start\<close> and \<open>0 \<le> end\<close>\<close>
  "slice s start end' = take (nat end' - nat start) (drop (nat start) s)"

definition digit_char :: "nat \<Rightarrow> char" where
  "digit_char d = ''0123456789'' ! d"

function show_nat :: "nat \<Rightarrow> string" where
  \<comment> \<open>\<^verbatim>\<open>str(n)\<close> for \<open>n \<ge> 0\<close>\<close>
  "show_nat n =
     (if n < 10 then [digit_char n] else show_nat (n div 10) @ [digit_char (n mod 10)])"
  by pat_completeness auto
termination
  by (relation "measure id") auto

declare show_nat.simps [simp del]

definition show_int :: "int \<Rightarrow> string" where
  \<comment> \<open>\<^verbatim>\<open>str(i)\<close>\<close>
  "show_int i = (if i < 0 then CHR ''-'' # show_nat (nat (- i)) else show_nat (nat i))"

definition pad3 :: "nat \<Rightarrow> string" where
  \<comment> \<open>the format \<^verbatim>\<open>{n:03d}\<close>\<close>
  "pad3 n = (let s = show_nat n in replicate (3 - length s) CHR ''0'' @ s)"

definition str_opt :: "string option \<Rightarrow> string" where
  \<comment> \<open>\<^verbatim>\<open>str(x)\<close> for a value that is a string or \<^verbatim>\<open>None\<close>, as an f-string prints it\<close>
  "str_opt x = (case x of None \<Rightarrow> ''None'' | Some s \<Rightarrow> s)"

section \<open>JSON values and the model client\<close>

text \<open>
  What \<^verbatim>\<open>json.loads\<close> returns: \<^verbatim>\<open>None\<close>, a boolean, an integer, a string, a list or
  a dictionary (numbers with a fraction or an exponent are outside the model). A
  dictionary keeps its members in the order of the text; a key written twice has the
  value written last, which is what \<open>jget\<close> looks up.
\<close>

datatype json =
    JNull
  | JBool bool
  | JInt int
  | JStr string
  | JArr "json list"
  | JObj "(string \<times> json) list"

definition jget :: "(string \<times> json) list \<Rightarrow> string \<Rightarrow> json option" where
  \<comment> \<open>\<^verbatim>\<open>d.get(key)\<close>, with \<open>None\<close> for an absent key\<close>
  "jget members k = map_of (rev members) k"

subsection \<open>A decoder for a fragment of JSON\<close>

text \<open>
  \<^verbatim>\<open>json.loads\<close> belongs to Python's standard library, so the functions that call it
  take the decoder as a parameter. To run them on concrete texts, \<open>json_loads\<close> decodes
  the fragment of JSON without string escapes and without fractions or exponents; on any
  other text it answers \<open>None\<close>. The first argument of the three parsing functions bounds
  the depth of the recursion.
\<close>

definition is_json_ws :: "char \<Rightarrow> bool" where
  "is_json_ws c \<longleftrightarrow> c \<in> set [CHR '' '', CHR 0x09, CHR 0x0A, CHR 0x0D]"

definition skip_ws :: "string \<Rightarrow> string" where
  "skip_ws s = dropWhile is_json_ws s"

definition is_digit :: "char \<Rightarrow> bool" where
  "is_digit c \<longleftrightarrow> c \<in> set ''0123456789''"

definition digit_val :: "char \<Rightarrow> nat" where
  "digit_val c = length (takeWhile (\<lambda>d. d \<noteq> c) ''0123456789'')"

fun scan_string :: "string \<Rightarrow> (string \<times> string) option" where
  \<comment> \<open>after the opening quote: the characters up to the closing quote, and the rest\<close>
  "scan_string [] = None"
| "scan_string (c # cs) =
     (if c = CHR 0x22 then Some ([], cs)
      else if c = CHR 0x5C \<or> (of_char c :: nat) < 32 then None
      else (case scan_string cs of None \<Rightarrow> None | Some (s, r) \<Rightarrow> Some (c # s, r)))"

definition parse_number :: "string \<Rightarrow> (json \<times> string) option" where
  "parse_number s =
     (let neg = (s \<noteq> [] \<and> hd s = CHR ''-'');
          r = (if neg then tl s else s);
          ds = takeWhile is_digit r;
          rest = dropWhile is_digit r
      in if ds = [] \<or> (1 < length ds \<and> hd ds = CHR ''0'') then None
         else if rest \<noteq> [] \<and> hd rest \<in> set ''.eE'' then None
         else Some (JInt ((if neg then - 1 else 1) * int (foldl (\<lambda>a d. 10 * a + digit_val d) 0 ds)),
                    rest))"

fun parse_value :: "nat \<Rightarrow> string \<Rightarrow> (json \<times> string) option"
  and parse_elements :: "nat \<Rightarrow> string \<Rightarrow> (json list \<times> string) option"
  and parse_members :: "nat \<Rightarrow> string \<Rightarrow> ((string \<times> json) list \<times> string) option" where
  "parse_value 0 s = None"
| "parse_value (Suc n) [] = None"
| "parse_value (Suc n) (c # cs) =
     (if c = CHR ''{'' then
        (case skip_ws cs of
           [] \<Rightarrow> None
         | d # r \<Rightarrow>
             if d = CHR ''}'' then Some (JObj [], r)
             else (case parse_members n (d # r) of
                     None \<Rightarrow> None
                   | Some (kvs, r') \<Rightarrow> Some (JObj kvs, r')))
      else if c = CHR ''['' then
        (case skip_ws cs of
           [] \<Rightarrow> None
         | d # r \<Rightarrow>
             if d = CHR '']'' then Some (JArr [], r)
             else (case parse_elements n (d # r) of
                     None \<Rightarrow> None
                   | Some (vs, r') \<Rightarrow> Some (JArr vs, r')))
      else if c = CHR 0x22 then
        (case scan_string cs of None \<Rightarrow> None | Some (s, r) \<Rightarrow> Some (JStr s, r))
      else if startswith (c # cs) ''null'' then Some (JNull, drop 4 (c # cs))
      else if startswith (c # cs) ''true'' then Some (JBool True, drop 4 (c # cs))
      else if startswith (c # cs) ''false'' then Some (JBool False, drop 5 (c # cs))
      else parse_number (c # cs))"
| "parse_elements 0 s = None"
| "parse_elements (Suc n) s =
     (case parse_value n s of
        None \<Rightarrow> None
      | Some (v, r) \<Rightarrow>
          (case skip_ws r of
             [] \<Rightarrow> None
           | d # r' \<Rightarrow>
               if d = CHR '','' then
                 (case parse_elements n (skip_ws r') of
                    None \<Rightarrow> None
                  | Some (vs, r'') \<Rightarrow> Some (v # vs, r''))
               else if d = CHR '']'' then Some ([v], r')
               else None))"
| "parse_members 0 s = None"
| "parse_members (Suc n) [] = None"
| "parse_members (Suc n) (c # cs) =
     (if c \<noteq> CHR 0x22 then None
      else (case scan_string cs of
              None \<Rightarrow> None
            | Some (k, r) \<Rightarrow>
                (case skip_ws r of
                   [] \<Rightarrow> None
                 | d # r1 \<Rightarrow>
                     if d \<noteq> CHR '':'' then None
                     else (case parse_value n (skip_ws r1) of
                             None \<Rightarrow> None
                           | Some (v, r2) \<Rightarrow>
                               (case skip_ws r2 of
                                  [] \<Rightarrow> None
                                | e # r3 \<Rightarrow>
                                    if e = CHR '','' then
                                      (case parse_members n (skip_ws r3) of
                                         None \<Rightarrow> None
                                       | Some (kvs, r4) \<Rightarrow> Some ((k, v) # kvs, r4))
                                    else if e = CHR ''}'' then Some ([(k, v)], r3)
                                    else None)))))"

definition json_loads :: "string \<Rightarrow> json option" where
  "json_loads s =
     (case parse_value (2 * length s + 2) (skip_ws s) of
        None \<Rightarrow> None
      | Some (v, r) \<Rightarrow> if skip_ws r = [] then Some v else None)"

subsection \<open>\<^verbatim>\<open>VLLMClient.chat_json\<close>\<close>

text \<open>
  The model server is a collaborator: \<open>llm_chat\<close> is \<^verbatim>\<open>VLLMClient.chat\<close>, which
  answers the content of the completion (a string, or \<^verbatim>\<open>None\<close>) or raises. A prompt is
  the list of the values the caller interpolates into its f-string, in order; the fixed
  text between them is left out. \<open>llm_loads\<close> is \<^verbatim>\<open>json.loads\<close>, with \<open>None\<close> for
  \<^verbatim>\<open>JSONDecodeError\<close>.
\<close>

type_synonym prompt = "string list"

record llm =
  llm_chat :: "string \<Rightarrow> prompt \<Rightarrow> error + string option"
  llm_loads :: "string \<Rightarrow> json option"

text \<open>
  The \<^verbatim>\<open>except json.JSONDecodeError\<close> branch: the text from the first opening brace to
  the last closing brace, else the text from the first opening bracket to the last closing
  bracket, else the exception again. \<^verbatim>\<open>json.loads\<close> inside the handler is not guarded.
\<close>

definition recover_json :: "(string \<Rightarrow> json option) \<Rightarrow> string \<Rightarrow> error + json" where
  "recover_json loads raw =
     (let start = py_find raw CHR ''{''; end' = py_rfind raw CHR ''}'' + 1
      in if 0 \<le> start \<and> start < end' then
           (case loads (slice raw start end') of None \<Rightarrow> Inl JSONDecodeError | Some v \<Rightarrow> Inr v)
         else
           (let start = py_find raw CHR ''[''; end' = py_rfind raw CHR '']'' + 1
            in if 0 \<le> start \<and> start < end' then
                 (case loads (slice raw start end') of
                    None \<Rightarrow> Inl JSONDecodeError
                  | Some v \<Rightarrow> Inr v)
               else Inl JSONDecodeError))"

definition chat_json :: "llm \<Rightarrow> string \<Rightarrow> prompt \<Rightarrow> error + json" where
  "chat_json client model_key messages =
     (case llm_chat client model_key messages of
        Inl e \<Rightarrow> Inl e
      | Inr None \<Rightarrow> Inl TypeError
      | Inr (Some raw) \<Rightarrow>
          (case llm_loads client raw of
             Some v \<Rightarrow> Inr v
           | None \<Rightarrow> recover_json (llm_loads client) raw))"

text \<open>
  The text between the first \<open>opening\<close> character and the last \<open>closing\<close> character
  after it, both included, when there is one.
\<close>

definition has_span :: "char \<Rightarrow> char \<Rightarrow> string \<Rightarrow> bool" where
  "has_span opening closing raw \<longleftrightarrow> closing \<in> set (dropWhile (\<lambda>x. x \<noteq> opening) raw)"

text \<open>A client whose server answers \<open>raw\<close> to every request, decoded by \<open>json_loads\<close>.\<close>

definition canned_llm :: "string \<Rightarrow> llm" where
  "canned_llm raw = \<lparr>llm_chat = (\<lambda>model_key messages. Inr (Some raw)), llm_loads = json_loads\<rparr>"

section \<open>The SQLite tables\<close>

text \<open>
  The tables of \<^verbatim>\<open>src/database/models.py\<close> that the orchestrator and the validator read
  and write; a row is a record, a table the list of its rows in insertion order, and a
  nullable column an option. Of each table the columns these functions use are kept
  (timestamps that SQLite fills by itself, the scope and the notes of a target are left
  out). A \<open>**kwargs\<close> update is the function it applies to the row.
\<close>

record target =
  t_id :: int
  t_domain :: string
  t_platform :: string
  t_bounty_min :: int
  t_bounty_max :: int
  t_priority :: int
  t_status :: string
  t_last_recon_at :: "string option"
  t_last_scan_at :: "string option"
  t_last_full_hunt_at :: "string option"
  t_total_findings :: int

record hunt =
  hunt_id :: int
  hunt_target_id :: int
  hunt_type :: string
  hunt_status :: string
  hunt_phase :: string
  hunt_completed_at :: "string option"
  hunt_findings_count :: int
  hunt_error :: "string option"
  hunt_checkpoint_json :: "string option"

record finding =
  f_id :: int
  f_hunt_id :: int
  f_target_id :: int
  f_finding_type :: string
  f_severity :: string
  f_title :: string
  f_description :: "string option"
  f_url :: "string option"
  f_payload :: "string option"
  f_curl_command :: "string option"
  f_status :: string
  f_discovered_by :: "string option"
  f_verified_by :: "string option"
  f_verified_at :: "string option"

record card =
  card_id :: int
  card_hunt_id :: int
  card_target_id :: int
  card_hypothesis_id :: string
  card_hypothesis :: string
  card_category :: "string option"
  card_confidence :: "string option"
  card_reasoning :: "string option"
  card_test_method :: "string option"
  card_payload :: "string option"
  card_success_indicator :: "string option"
  card_status :: string
  card_result :: "string option"

record worker_log =
  wl_hunt_id :: "int option"
  wl_worker_type :: string
  wl_model_used :: string
  wl_task_type :: string
  wl_output_summary :: string
  wl_status :: string

record db =
  targets :: "target list"
  hunts :: "hunt list"
  findings :: "finding list"
  hypothesis_cards :: "card list"
  worker_logs :: "worker_log list"

text \<open>
  How \<^verbatim>\<open>sqlite3\<close> binds a decoded JSON value to a text column: \<^verbatim>\<open>None\<close> is NULL, a
  string is itself, an integer or a boolean is stored as its decimal text, and a list or a
  dictionary cannot be bound.
\<close>

definition sql_text :: "json \<Rightarrow> error + string option" where
  "sql_text v =
     (case v of
        JNull \<Rightarrow> Inr None
      | JBool b \<Rightarrow> Inr (Some (if b then ''1'' else ''0''))
      | JInt i \<Rightarrow> Inr (Some (show_int i))
      | JStr s \<Rightarrow> Inr (Some s)
      | JArr xs \<Rightarrow> Inl InterfaceError
      | JObj kvs \<Rightarrow> Inl InterfaceError)"

definition sql_text_not_null :: "json \<Rightarrow> error + string" where
  "sql_text_not_null v =
     (case sql_text v of
        Inl e \<Rightarrow> Inl e
      | Inr None \<Rightarrow> Inl IntegrityError
      | Inr (Some s) \<Rightarrow> Inr s)"

definition next_id :: "int list \<Rightarrow> int" where
  \<comment> \<open>\<^verbatim>\<open>INTEGER PRIMARY KEY AUTOINCREMENT\<close>; no row is ever deleted\<close>
  "next_id ids = (if ids = [] then 1 else Max (set ids) + 1)"

subsection \<open>\<^verbatim>\<open>TargetDB\<close>\<close>

definition TargetDB_get_by_id :: "db \<Rightarrow> int \<Rightarrow> target option" where
  "TargetDB_get_by_id d target_id = List.find (\<lambda>t. t_id t = target_id) (targets d)"

definition TargetDB_update :: "db \<Rightarrow> string \<Rightarrow> (target \<Rightarrow> target) \<Rightarrow> db" where
  \<comment> \<open>\<^verbatim>\<open>UPDATE targets SET ... WHERE domain=?\<close>\<close>
  "TargetDB_update d domain kwargs =
     d\<lparr>targets := map (\<lambda>t. if t_domain t = domain then kwargs t else t) (targets d)\<rparr>"

subsection \<open>\<^verbatim>\<open>HuntDB\<close>\<close>

definition HuntDB_create :: "db \<Rightarrow> int \<Rightarrow> string \<Rightarrow> int \<times> db" where
  \<comment> \<open>\<^verbatim>\<open>INSERT INTO hunts (target_id, hunt_type)\<close>; the other columns take their defaults\<close>
  "HuntDB_create d target_id htype =
     (let new_id = next_id (map hunt_id (hunts d))
      in (new_id,
          d\<lparr>hunts := hunts d @
               [\<lparr>hunt_id = new_id, hunt_target_id = target_id, hunt_type = htype,
                 hunt_status = ''running'', hunt_phase = ''recon'', hunt_completed_at = None,
                 hunt_findings_count = 0, hunt_error = None, hunt_checkpoint_json = None\<rparr>]\<rparr>))"

definition HuntDB_get :: "db \<Rightarrow> int \<Rightarrow> hunt option" where
  "HuntDB_get d hid = List.find (\<lambda>h. hunt_id h = hid) (hunts d)"

definition HuntDB_update :: "db \<Rightarrow> int \<Rightarrow> (hunt \<Rightarrow> hunt) \<Rightarrow> db" where
  "HuntDB_update d hid kwargs =
     d\<lparr>hunts := map (\<lambda>h. if hunt_id h = hid then kwargs h else h) (hunts d)\<rparr>"

definition HuntDB_get_active :: "db \<Rightarrow> hunt list" where
  "HuntDB_get_active d = filter (\<lambda>h. hunt_status h = ''running'') (hunts d)"

subsection \<open>\<^verbatim>\<open>FindingDB\<close>\<close>

definition FindingDB_get :: "db \<Rightarrow> int \<Rightarrow> finding option" where
  \<comment> \<open>\<^verbatim>\<open>SELECT * FROM findings WHERE id=?\<close>, \<^verbatim>\<open>fetchone()\<close>\<close>
  "FindingDB_get d finding_id = List.find (\<lambda>f. f_id f = finding_id) (findings d)"

definition FindingDB_get_by_hunt :: "db \<Rightarrow> int \<Rightarrow> finding list" where
  \<comment> \<open>\<^verbatim>\<open>ORDER BY severity, id\<close>: the claims use only which rows are returned, so the rows
      are given in table order\<close>
  "FindingDB_get_by_hunt d hid = filter (\<lambda>f. f_hunt_id f = hid) (findings d)"

definition FindingDB_get_unverified :: "db \<Rightarrow> int \<Rightarrow> finding list" where
  "FindingDB_get_unverified d hid =
     filter (\<lambda>f. f_hunt_id f = hid \<and> f_status f = ''unverified'') (findings d)"

definition FindingDB_update :: "db \<Rightarrow> int \<Rightarrow> (finding \<Rightarrow> finding) \<Rightarrow> db" where
  "FindingDB_update d finding_id kwargs =
     d\<lparr>findings := map (\<lambda>f. if f_id f = finding_id then kwargs f else f) (findings d)\<rparr>"

subsection \<open>\<^verbatim>\<open>HypothesisDB\<close>\<close>

definition confidence_rank :: "string option \<Rightarrow> nat" where
  \<comment> \<open>\<^verbatim>\<open>CASE confidence WHEN 'high' THEN 1 WHEN 'medium' THEN 2 ELSE 3 END\<close>\<close>
  "confidence_rank c = (if c = Some ''high'' then 1 else if c = Some ''medium'' then 2 else 3)"

definition HypothesisDB_get_pending :: "db \<Rightarrow> int \<Rightarrow> card list" where
  \<comment> \<open>rows of equal rank stay in table order\<close>
  "HypothesisDB_get_pending d hid =
     sort_key (\<lambda>c. confidence_rank (card_confidence c))
       (filter (\<lambda>c. card_hunt_id c = hid \<and> card_status c = ''pending'') (hypothesis_cards d))"

text \<open>
  One row of \<^verbatim>\<open>create_batch\<close>: \<^verbatim>\<open>card.get\<close> needs a dictionary, \<^verbatim>\<open>card["hypothesis"]\<close>
  needs the key, every value must be one that can be bound, and the columns
  \<^verbatim>\<open>hypothesis_id\<close> and \<^verbatim>\<open>hypothesis\<close> are NOT NULL.
\<close>

definition column :: "(string \<times> json) list \<Rightarrow> string \<Rightarrow> string \<Rightarrow> error + string option" where
  \<comment> \<open>\<^verbatim>\<open>card.get(key, default)\<close>, bound to a nullable text column\<close>
  "column members k dflt = (case jget members k of None \<Rightarrow> Inr (Some dflt) | Some v \<Rightarrow> sql_text v)"

definition card_row :: "int \<Rightarrow> int \<Rightarrow> int \<Rightarrow> json \<Rightarrow> error + card" where
  "card_row new_id hid target_id c =
     (case c of
        JObj members \<Rightarrow>
          (case jget members ''hypothesis'' of
             None \<Rightarrow> Inl KeyError
           | Some hyp \<Rightarrow>
               (case (sql_text (case jget members ''id'' of None \<Rightarrow> JStr [] | Some v \<Rightarrow> v),
                      sql_text hyp,
                      column members ''category'' [],
                      column members ''confidence'' ''medium'',
                      column members ''reasoning'' [],
                      column members ''test_method'' [],
                      column members ''payload'' [],
                      column members ''success_indicator'' []) of
                  (Inr (Some hypothesis_id), Inr (Some hypothesis), Inr category, Inr confidence,
                   Inr reasoning, Inr test_method, Inr payload, Inr success_indicator) \<Rightarrow>
                    Inr \<lparr>card_id = new_id, card_hunt_id = hid, card_target_id = target_id,
                         card_hypothesis_id = hypothesis_id, card_hypothesis = hypothesis,
                         card_category = category, card_confidence = confidence,
                         card_reasoning = reasoning, card_test_method = test_method,
                         card_payload = payload, card_success_indicator = success_indicator,
                         card_status = ''pending'', card_result = None\<rparr>
                | (Inr hypothesis_id, Inr hypothesis, Inr category, Inr confidence,
                   Inr reasoning, Inr test_method, Inr payload, Inr success_indicator) \<Rightarrow>
                    Inl IntegrityError
                | _ \<Rightarrow> Inl InterfaceError))
      | _ \<Rightarrow> Inl AttributeError)"

fun card_rows :: "int \<Rightarrow> int \<Rightarrow> int \<Rightarrow> json list \<Rightarrow> error + card list" where
  "card_rows new_id hid target_id [] = Inr []"
| "card_rows new_id hid target_id (c # cs) =
     (case card_row new_id hid target_id c of
        Inl e \<Rightarrow> Inl e
      | Inr row \<Rightarrow>
          (case card_rows (new_id + 1) hid target_id cs of
             Inl e \<Rightarrow> Inl e
           | Inr rows \<Rightarrow> Inr (row # rows)))"

definition HypothesisDB_create_batch :: "db \<Rightarrow> int \<Rightarrow> int \<Rightarrow> json list \<Rightarrow> error + db" where
  \<comment> \<open>the rows are committed together after the loop: an exception inside it inserts none\<close>
  "HypothesisDB_create_batch d hid target_id cards =
     (case card_rows (next_id (map card_id (hypothesis_cards d))) hid target_id cards of
        Inl e \<Rightarrow> Inl e
      | Inr rows \<Rightarrow> Inr (d\<lparr>hypothesis_cards := hypothesis_cards d @ rows\<rparr>))"

subsection \<open>\<^verbatim>\<open>WorkerLogDB\<close>\<close>

definition WorkerLogDB_log :: "db \<Rightarrow> worker_log \<Rightarrow> db" where
  "WorkerLogDB_log d row = d\<lparr>worker_logs := worker_logs d @ [row]\<rparr>"

section \<open>The validation pipeline\<close>

text \<open>
  \<^verbatim>\<open>validate_finding\<close> talks to four collaborators: the shell that
  \<^verbatim>\<open>run_curl\<close> starts, \<^verbatim>\<open>urlparse\<close>, the model client and the clock. They are the
  fields of the environment. The function returns what Python returns or raises, the
  tables as it leaves them, and the list of the collaborator calls it made, in order.
  Durations and the worker status it publishes to Redis are left out.
\<close>

datatype shell_outcome =
    Completed string string int   \<comment> \<open>stdout, stderr, return code\<close>
  | TimeoutExpired
  | Failed string                 \<comment> \<open>any other exception, with its message\<close>

record curl_result =
  stdout :: string
  stderr :: string
  returncode :: int

record validator_env =
  v_shell :: "string \<Rightarrow> shell_outcome"
  v_hostname :: "string \<Rightarrow> error + string option"   \<comment> \<open>\<^verbatim>\<open>urlparse(url).hostname\<close>\<close>
  v_client :: llm
  v_strftime :: string                                 \<comment> \<open>\<^verbatim>\<open>time.strftime("%Y-%m-%dT%H:%M:%SZ")\<close>\<close>
  v_repr :: "json \<Rightarrow> string"                         \<comment> \<open>how an f-string prints a value that is not a string\<close>

datatype call = Shell string | Chat string prompt

record step =
  step_name :: string
  step_result :: string
  step_evidence :: json

datatype vresult =
    VError string                     \<comment> \<open>\<^verbatim>\<open>{"status": "error", "error": ...}\<close>\<close>
  | VFalsePositive int "step list" json  \<comment> \<open>finding id, steps, reason\<close>
  | VConfirmed int "step list" json      \<comment> \<open>finding id, steps, verdict\<close>

definition status_of :: "vresult \<Rightarrow> string" where
  "status_of r =
     (case r of
        VError e \<Rightarrow> ''error''
      | VFalsePositive i s reason \<Rightarrow> ''FALSE_POSITIVE''
      | VConfirmed i s verdict \<Rightarrow> ''CONFIRMED'')"

definition run_curl :: "validator_env \<Rightarrow> string \<Rightarrow> curl_result" where
  "run_curl env command =
     (case v_shell env command of
        Completed out err rc \<Rightarrow> \<lparr>stdout = take 10000 out, stderr = take 2000 err, returncode = rc\<rparr>
      | TimeoutExpired \<Rightarrow> \<lparr>stdout = [], stderr = ''TIMEOUT'', returncode = - 1\<rparr>
      | Failed msg \<Rightarrow> \<lparr>stdout = [], stderr = msg, returncode = - 1\<rparr>)"

definition extract_domain :: "validator_env \<Rightarrow> string \<Rightarrow> error + string" where
  \<comment> \<open>\<^verbatim>\<open>_extract_domain\<close>\<close>
  "extract_domain env url =
     (if contains url ''://'' then
        (case v_hostname env url of
           Inl e \<Rightarrow> Inl e
         | Inr None \<Rightarrow> Inr url
         | Inr (Some h) \<Rightarrow> Inr (if h = [] then url else h))
      else Inr (takeWhile (\<lambda>c. c \<noteq> CHR '':'') (takeWhile (\<lambda>c. c \<noteq> CHR ''/'') url)))"

definition waf_indicators :: "string list" where
  "waf_indicators =
     [''cloudflare'', ''akamai'', ''incapsula'', ''imperva'',
      ''sucuri'', ''barracuda'', ''f5'', ''fortinet'',
      ''attention required'', ''access denied'', ''request blocked'']"

definition check_waf :: "string \<Rightarrow> bool" where
  \<comment> \<open>\<^verbatim>\<open>_check_waf\<close>\<close>
  "check_waf headers \<longleftrightarrow> (\<exists>indicator \<in> set waf_indicators. contains (lower headers) indicator)"

definition py_slice :: "nat \<Rightarrow> json \<Rightarrow> error + json" where
  \<comment> \<open>\<^verbatim>\<open>v[:n]\<close>: a string or a list can be sliced, anything else raises\<close>
  "py_slice n v =
     (case v of
        JStr s \<Rightarrow> Inr (JStr (take n s))
      | JArr xs \<Rightarrow> Inr (JArr (take n xs))
      | _ \<Rightarrow> Inl TypeError)"

definition fmt :: "validator_env \<Rightarrow> json \<Rightarrow> string" where
  \<comment> \<open>a value inside an f-string\<close>
  "fmt env v = (case v of JStr s \<Rightarrow> s | _ \<Rightarrow> v_repr env v)"

definition fail_finding ::
  "validator_env \<Rightarrow> db \<Rightarrow> int \<Rightarrow> step list \<Rightarrow> json \<Rightarrow> (error + vresult) \<times> db" where
  \<comment> \<open>\<^verbatim>\<open>_fail_finding\<close>: the row is updated before \<^verbatim>\<open>reason[:100]\<close> is evaluated\<close>
  "fail_finding env d finding_id steps reason =
     (let d1 = FindingDB_update d finding_id
                 (\<lambda>f. f\<lparr>f_status := ''false_positive'', f_verified_by := Some ''poc-validator'',
                         f_verified_at := Some (v_strftime env)\<rparr>)
      in case py_slice 100 reason of
           Inl e \<Rightarrow> (Inl e, d1)
         | Inr r \<Rightarrow>
             (Inr (VFalsePositive finding_id steps reason),
              WorkerLogDB_log d1
                \<lparr>wl_hunt_id = None, wl_worker_type = ''validator'', wl_model_used = ''mistral-7b'',
                 wl_task_type = ''validate'', wl_output_summary = ''FALSE_POSITIVE: '' @ fmt env r,
                 wl_status = ''success''\<rparr>))"

subsection \<open>The four commands and the conditions on their results\<close>

definition dns_command :: "string \<Rightarrow> string" where
  "dns_command domain = ''nslookup '' @ domain"

definition http_command :: "string \<Rightarrow> string" where
  \<open>http_command domain = ''curl -s -I -m 10 "https://'' @ domain @ ''"''\<close>

definition endpoint_command :: "string \<Rightarrow> string" where
  \<open>endpoint_command url = ''curl -s -o /dev/null -w "%{http_code}" -m 10 "'' @ url @ ''"''\<close>

definition body_command :: "string \<Rightarrow> string" where
  \<open>body_command url = ''curl -s -m 10 "'' @ url @ ''"''\<close>

definition dns_pass :: "curl_result \<Rightarrow> bool" where
  "dns_pass dns_result \<longleftrightarrow>
     contains (stdout dns_result) ''Address'' \<and> \<not> contains (stdout dns_result) ''NXDOMAIN''"

definition http_pass :: "curl_result \<Rightarrow> bool" where
  "http_pass http_result \<longleftrightarrow> returncode http_result = 0 \<and> strip (stdout http_result) \<noteq> []"

definition endpoint_pass :: "string \<Rightarrow> bool" where
  "endpoint_pass status_code \<longleftrightarrow>
     startswith status_code ''2'' \<or> status_code = ''301'' \<or> status_code = ''302''"

definition pass_fail :: "bool \<Rightarrow> string" where
  "pass_fail b = (if b then ''PASS'' else ''FAIL'')"

definition dns_step :: "curl_result \<Rightarrow> step" where
  "dns_step dns_result =
     \<lparr>step_name = ''dns'', step_result = pass_fail (dns_pass dns_result),
      step_evidence = JStr (take 200 (stdout dns_result))\<rparr>"

definition http_step :: "curl_result \<Rightarrow> step" where
  "http_step http_result =
     \<lparr>step_name = ''http'',
      step_result = pass_fail (http_pass http_result \<and> \<not> check_waf (stdout http_result)),
      step_evidence = JStr (take 300 (stdout http_result))\<rparr>"

definition endpoint_step :: "string \<Rightarrow> string \<Rightarrow> step" where
  "endpoint_step status_code body =
     \<lparr>step_name = ''endpoint'', step_result = pass_fail (endpoint_pass status_code),
      step_evidence = JStr (''HTTP '' @ status_code @ '', body length: '' @ show_nat (length body))\<rparr>"

definition proof_prompt :: "finding \<Rightarrow> string \<Rightarrow> string \<Rightarrow> string \<Rightarrow> prompt" where
  \<comment> \<open>the values the f-string interpolates, in order\<close>
  "proof_prompt finding url status_code body =
     [f_finding_type finding, url, str_opt (f_description finding), str_opt (f_payload finding),
      str_opt (f_curl_command finding), status_code, take 2000 body]"

subsection \<open>Step 4 and the verdict\<close>

definition confirm ::
  "validator_env \<Rightarrow> db \<Rightarrow> finding \<Rightarrow> int \<Rightarrow> step list \<Rightarrow> (string \<times> json) list
     \<Rightarrow> (error + vresult) \<times> db" where
  \<comment> \<open>the branch \<^verbatim>\<open>if verdict.get("verdict") == "CONFIRMED"\<close>; the severity column is
      NOT NULL\<close>
  "confirm env d finding hid steps verdict =
     (let d1 = FindingDB_update d (f_id finding)
                 (\<lambda>f. f\<lparr>f_status := ''verified'', f_verified_by := Some ''poc-validator'',
                         f_verified_at := Some (v_strftime env)\<rparr>);
          logged = (\<lambda>d'. WorkerLogDB_log d'
                     \<lparr>wl_hunt_id = Some hid, wl_worker_type = ''validator'',
                      wl_model_used = ''mistral-7b'', wl_task_type = ''validate'',
                      wl_output_summary = ''CONFIRMED: '' @ take 100 (f_title finding),
                      wl_status = ''success''\<rparr>)
      in if jget verdict ''severity_adjustment'' \<noteq> Some (JStr ''none'') then
           (case sql_text_not_null
                   (case jget verdict ''adjusted_severity'' of
                      None \<Rightarrow> JStr (f_severity finding)
                    | Some v \<Rightarrow> v) of
              Inl e \<Rightarrow> (Inl e, d1)
            | Inr severity \<Rightarrow>
                (Inr (VConfirmed (f_id finding) steps (JObj verdict)),
                 logged (FindingDB_update d1 (f_id finding) (\<lambda>f. f\<lparr>f_severity := severity\<rparr>))))
         else (Inr (VConfirmed (f_id finding) steps (JObj verdict)), logged d1))"

definition vuln_proof ::
  "validator_env \<Rightarrow> db \<Rightarrow> finding \<Rightarrow> int \<Rightarrow> step list \<Rightarrow> json \<Rightarrow> (error + vresult) \<times> db" where
  \<comment> \<open>from \<^verbatim>\<open>steps.append({"step": "vuln_proof", ...})\<close> to the end\<close>
  "vuln_proof env d finding hid steps verdict =
     (case verdict of
        JObj members \<Rightarrow>
          (case (case jget members ''evidence'' of None \<Rightarrow> Inr (JStr []) | Some v \<Rightarrow> py_slice 300 v) of
             Inl e \<Rightarrow> (Inl e, d)
           | Inr evidence \<Rightarrow>
               (let confirmed = (jget members ''verdict'' = Some (JStr ''CONFIRMED''));
                    steps = steps @ [\<lparr>step_name = ''vuln_proof'', step_result = pass_fail confirmed,
                                      step_evidence = evidence\<rparr>]
                in if confirmed then confirm env d finding hid steps members
                   else fail_finding env d (f_id finding) steps
                          (case jget members ''reasoning'' of
                             None \<Rightarrow> JStr ''Not confirmed''
                           | Some v \<Rightarrow> v)))
      | _ \<Rightarrow> (Inl AttributeError, d))"

subsection \<open>\<^verbatim>\<open>validate_finding\<close>\<close>

definition validate_finding ::
  "validator_env \<Rightarrow> db \<Rightarrow> int \<Rightarrow> int \<Rightarrow> (error + vresult) \<times> db \<times> call list" where
  "validate_finding env d finding_id hid =
     (case FindingDB_get d finding_id of
        None \<Rightarrow> (Inr (VError ''Finding not found''), d, [])
      | Some finding \<Rightarrow>
          (case f_url finding of
             None \<Rightarrow> (Inl TypeError, d, [])
           | Some url \<Rightarrow>
               (case extract_domain env url of
                  Inl e \<Rightarrow> (Inl e, d, [])
                | Inr domain \<Rightarrow>
                    (let dns_result = run_curl env (dns_command domain);
                         calls = [Shell (dns_command domain)];
                         steps = [dns_step dns_result]
                     in if \<not> dns_pass dns_result then
                          (case fail_finding env d finding_id steps (JStr ''Domain does not resolve'') of
                             (r, d') \<Rightarrow> (r, d', calls))
                        else
                          (let http_result = run_curl env (http_command domain);
                               calls = calls @ [Shell (http_command domain)];
                               steps = steps @ [http_step http_result]
                           in if \<not> http_pass http_result then
                                (case fail_finding env d finding_id steps
                                        (JStr (''Host unreachable (exit ''
                                               @ show_int (returncode http_result) @ '')'')) of
                                   (r, d') \<Rightarrow> (r, d', calls))
                              else
                                (let endpoint_result = run_curl env (endpoint_command url);
                                     status_code = strip (stdout endpoint_result);
                                     body_result = run_curl env (body_command url);
                                     body = take 3000 (stdout body_result);
                                     calls = calls @ [Shell (endpoint_command url),
                                                      Shell (body_command url)];
                                     steps = steps @ [endpoint_step status_code body]
                                 in if \<not> endpoint_pass status_code
                                       \<and> status_code \<in> {''404'', ''403'', ''401''} then
                                      (case fail_finding env d finding_id steps
                                              (JStr (''Endpoint returns HTTP '' @ status_code)) of
                                         (r, d') \<Rightarrow> (r, d', calls))
                                    else
                                      (let messages = proof_prompt finding url status_code body;
                                           calls = calls @ [Chat ''validator'' messages]
                                       in case chat_json (v_client env) ''validator'' messages of
                                            Inl e \<Rightarrow> (Inl e, d, calls)
                                          | Inr verdict \<Rightarrow>
                                              (case vuln_proof env d finding hid steps verdict of
                                                 (r, d') \<Rightarrow> (r, d', calls)))))))))"

text \<open>\<^verbatim>\<open>batch_validate\<close>: the first ten findings, one after the other; an exception of
  one of them ends the batch.\<close>

fun validate_all ::
  "validator_env \<Rightarrow> db \<Rightarrow> int \<Rightarrow> int list \<Rightarrow> (error + vresult list) \<times> db \<times> call list" where
  "validate_all env d hid [] = (Inr [], d, [])"
| "validate_all env d hid (fid # fids) =
     (case validate_finding env d fid hid of
        (Inl e, d', calls) \<Rightarrow> (Inl e, d', calls)
      | (Inr r, d', calls) \<Rightarrow>
          (case validate_all env d' hid fids of
             (Inl e, d'', calls') \<Rightarrow> (Inl e, d'', calls @ calls')
           | (Inr rs, d'', calls') \<Rightarrow> (Inr (r # rs), d'', calls @ calls')))"

definition batch_validate ::
  "validator_env \<Rightarrow> db \<Rightarrow> int \<Rightarrow> int list \<Rightarrow> (error + vresult list) \<times> db \<times> call list" where
  "batch_validate env d hid finding_ids = validate_all env d hid (take 10 finding_ids)"

text \<open>
  What a rejection leaves behind, for the statements below: the result is
  \<^verbatim>\<open>FALSE_POSITIVE\<close> with the given steps and reason, the row of the finding is marked
  \<^verbatim>\<open>false_positive\<close>, the last row of the worker log carries the reason, and the
  collaborator calls are the given ones.
\<close>

definition marked_false_positive :: "validator_env \<Rightarrow> finding \<Rightarrow> finding" where
  "marked_false_positive env finding =
     finding\<lparr>f_status := ''false_positive'', f_verified_by := Some ''poc-validator'',
             f_verified_at := Some (v_strftime env)\<rparr>"

definition rejected ::
  "validator_env \<Rightarrow> (error + vresult) \<times> db \<times> call list \<Rightarrow> finding \<Rightarrow> step list \<Rightarrow> string
     \<Rightarrow> call list \<Rightarrow> bool" where
  "rejected env out finding steps reason calls \<longleftrightarrow>
     fst out = Inr (VFalsePositive (f_id finding) steps (JStr reason))
     \<and> FindingDB_get (fst (snd out)) (f_id finding) = Some (marked_false_positive env finding)
     \<and> worker_logs (fst (snd out)) \<noteq> []
     \<and> wl_output_summary (last (worker_logs (fst (snd out)))) = ''FALSE_POSITIVE: '' @ take 100 reason
     \<and> snd (snd out) = calls"

section \<open>The cross-target pattern store\<close>

text \<open>
  The pattern log is the Redis list \<^verbatim>\<open>bhl:cross_patterns\<close>; its only writer is
  \<^verbatim>\<open>CrossTargetAnalyzer.analyze_findings\<close>, which appends dictionaries with the seven
  keys below. A value is a string or JSON \<^verbatim>\<open>null\<close> (\<open>None\<close>).
\<close>

record pattern =
  p_source_domain :: "string option"
  p_finding_type :: "string option"
  p_category :: "string option"
  p_technique :: "string option"
  p_payload :: "string option"
  p_severity :: "string option"
  p_discovered_at :: "string option"

text \<open>A hypothesis card as \<^verbatim>\<open>get_transfer_hypotheses\<close> builds it.\<close>

record hypothesis =
  h_id :: string
  h_hypothesis :: string
  h_category :: "string option"
  h_confidence :: string
  h_reasoning :: string
  h_test_method :: string
  h_payload :: "string option"
  h_success_indicator :: string

text \<open>\<^verbatim>\<open>TRANSFERABLE_PATTERNS\<close>, in the order the dictionary is written:
  name, indicator, test, payload.\<close>

definition TRANSFERABLE_PATTERNS :: "(string \<times> string \<times> string \<times> string) list" where
  \<open>TRANSFERABLE_PATTERNS =
     [(''graphql_introspection'', ''graphql'', ''GraphQL introspection may be enabled'',
         ''{"query":"{ __schema { types { name } } }"}''),
      (''graphql_aliasing'', ''graphql'', ''GraphQL aliasing for batch operations'',
         ''{"query":"{ a1: mutation1 { id } a2: mutation2 { id } }"}''),
      (''idor_sequential'', ''api'', ''Sequential ID IDOR on API endpoints'',
         ''Change numeric ID in URL path''),
      (''jwt_none_alg'', ''jwt'', ''JWT algorithm none bypass'',
         ''Modify JWT header to alg:none''),
      (''cors_reflection'', ''api'', ''CORS origin reflection with credentials'',
         ''Origin: https://evil.com''),
      (''admin_panel'', ''web'', ''Exposed admin panel at common paths'',
         ''/admin, /admin/login, /administrator, /wp-admin''),
      (''debug_endpoints'', ''web'', ''Debug/dev endpoints in production'',
         ''/debug, /trace, /actuator, /env, /.env'')]\<close>

definition direct_hypothesis :: "string \<Rightarrow> nat \<Rightarrow> string \<Rightarrow> pattern \<Rightarrow> hypothesis" where
  \<comment> \<open>the dictionary appended in the first loop; \<open>n\<close> is \<^verbatim>\<open>len(hypotheses)\<close>\<close>
  "direct_hypothesis target_domain n ftype pat =
     \<lparr>h_id = ''CT-'' @ pad3 (n + 1),
      h_hypothesis = ftype @ '' found on '' @ str_opt (p_source_domain pat)
                       @ '' - test on '' @ target_domain,
      h_category = p_category pat,
      h_confidence = ''medium'',
      h_reasoning = ''Successfully exploited on '' @ str_opt (p_source_domain pat),
      h_test_method = ''curl'',
      h_payload = p_payload pat,
      h_success_indicator = ''Same behavior as on '' @ str_opt (p_source_domain pat)\<rparr>"

definition tech_hypothesis :: "nat \<Rightarrow> (string \<times> string \<times> string \<times> string) \<Rightarrow> hypothesis" where
  \<comment> \<open>the dictionary appended in the second loop\<close>
  "tech_hypothesis n entry =
     (case entry of (name, indicator, test, payload) \<Rightarrow>
        \<lparr>h_id = ''CT-'' @ pad3 (n + 1),
         h_hypothesis = test,
         h_category = Some ''info_disclosure'',
         h_confidence = ''low'',
         h_reasoning = ''Tech stack includes '' @ indicator @ ''-related technology'',
         h_test_method = ''curl'',
         h_payload = Some payload,
         h_success_indicator = ''Endpoint returns meaningful data''\<rparr>)"

text \<open>
  The first loop, with its two accumulators: \<^verbatim>\<open>seen_types\<close> and \<^verbatim>\<open>hypotheses\<close>.
  \<^verbatim>\<open>if ftype and ftype not in seen_types\<close>: a \<^verbatim>\<open>null\<close> or empty type is skipped.
\<close>

fun direct_loop ::
  "string \<Rightarrow> pattern list \<Rightarrow> string set \<Rightarrow> hypothesis list \<Rightarrow> hypothesis list" where
  "direct_loop target_domain [] seen_types hypotheses = hypotheses"
| "direct_loop target_domain (pat # rest) seen_types hypotheses =
     (case p_finding_type pat of
        None \<Rightarrow> direct_loop target_domain rest seen_types hypotheses
      | Some ftype \<Rightarrow>
          if ftype \<noteq> [] \<and> ftype \<notin> seen_types
          then direct_loop target_domain rest (insert ftype seen_types)
                 (hypotheses @ [direct_hypothesis target_domain (length hypotheses) ftype pat])
          else direct_loop target_domain rest seen_types hypotheses)"

text \<open>The second loop: \<^verbatim>\<open>any(pattern["indicator"] in t for t in tech_lower)\<close>.\<close>

fun tech_loop ::
  "string list \<Rightarrow> (string \<times> string \<times> string \<times> string) list \<Rightarrow> hypothesis list \<Rightarrow> hypothesis list" where
  "tech_loop tech_lower [] hypotheses = hypotheses"
| "tech_loop tech_lower (entry # rest) hypotheses =
     (if (\<exists>t \<in> set tech_lower. contains t (fst (snd entry)))
      then tech_loop tech_lower rest (hypotheses @ [tech_hypothesis (length hypotheses) entry])
      else tech_loop tech_lower rest hypotheses)"

definition get_transfer_hypotheses :: "pattern list \<Rightarrow> string \<Rightarrow> string list \<Rightarrow> hypothesis list" where
  "get_transfer_hypotheses patterns target_domain tech_stack =
     (let target_patterns = filter (\<lambda>p. p_source_domain p \<noteq> Some target_domain) patterns;
          hypotheses = direct_loop target_domain target_patterns {} [];
          tech_lower = map lower tech_stack;
          hypotheses = tech_loop tech_lower TRANSFERABLE_PATTERNS hypotheses
      in take 15 hypotheses)"

text \<open>
  The patterns for which the first loop appends a hypothesis, in the order of the log: the
  loop with its list of hypotheses left out.
\<close>

definition typed :: "pattern \<Rightarrow> bool" where
  "typed p \<longleftrightarrow> (case p_finding_type p of None \<Rightarrow> False | Some ftype \<Rightarrow> ftype \<noteq> [])"

fun selected :: "string set \<Rightarrow> pattern list \<Rightarrow> pattern list" where
  "selected seen_types [] = []"
| "selected seen_types (pat # rest) =
     (case p_finding_type pat of
        None \<Rightarrow> selected seen_types rest
      | Some ftype \<Rightarrow>
          if ftype \<noteq> [] \<and> ftype \<notin> seen_types
          then pat # selected (insert ftype seen_types) rest
          else selected seen_types rest)"

definition other_targets :: "string \<Rightarrow> pattern list \<Rightarrow> pattern list" where
  "other_targets target_domain patterns =
     filter (\<lambda>p. p_source_domain p \<noteq> Some target_domain) patterns"

definition direct_part :: "string \<Rightarrow> pattern list \<Rightarrow> hypothesis list" where
  "direct_part target_domain sel =
     map (\<lambda>(n, p). direct_hypothesis target_domain n (the (p_finding_type p)) p)
       (zip [0..<length sel] sel)"

section \<open>The hunt\<close>

text \<open>
  The world of a hunt: the SQLite tables, the Redis keyspace, and the Redis list
  \<^verbatim>\<open>bhl:cross_patterns\<close> with its elements decoded.
\<close>

record world =
  w_db :: db
  w_redis :: redis
  w_patterns :: "pattern list"

text \<open>
  The workers \<^verbatim>\<open>run_hunt\<close> calls are collaborators: each takes the world and
  leaves a new one, and either returns or raises. \<open>e_run_scan\<close> is the scan task from
  \<^verbatim>\<open>run_scan.delay(...)\<close> to \<^verbatim>\<open>scan_task.get(timeout=900)\<close>: what the task has
  written when the orchestrator stops waiting, and \<open>TimeoutError\<close> when no result
  arrived within 900 seconds (what the task writes while the cards are tested is applied
  at the join). \<^verbatim>\<open>test_hypothesis_browser\<close> is not among the source files.
  \<^verbatim>\<open>gap_triggered_discovery\<close>, \<^verbatim>\<open>validate_finding\<close> and
  \<^verbatim>\<open>CrossTargetAnalyzer.analyze_findings\<close> are modelled from their source. What the
  orchestrator only logs, and the recon data it passes from \<^verbatim>\<open>ReconDB\<close> to
  \<^verbatim>\<open>generate_hypotheses\<close>, is left out.
\<close>

record recon_result =
  r_status :: "string option"   \<comment> \<open>\<^verbatim>\<open>recon_result.get("status")\<close>\<close>
  r_error :: "string option"    \<comment> \<open>\<^verbatim>\<open>recon_result.get("error")\<close>\<close>

record hunt_env =
  e_run_recon :: "int \<Rightarrow> int \<Rightarrow> string \<Rightarrow> world \<Rightarrow> (error + recon_result) \<times> world"
  e_generate_hypotheses :: "int \<Rightarrow> int \<Rightarrow> string \<Rightarrow> world \<Rightarrow> (error + unit) \<times> world"
  e_run_scan :: "int \<Rightarrow> int \<Rightarrow> string \<Rightarrow> world \<Rightarrow> (error + unit) \<times> world"
  e_test_hypothesis_browser :: "int \<Rightarrow> int \<Rightarrow> card \<Rightarrow> string \<Rightarrow> world \<Rightarrow> (error + unit) \<times> world"
  e_generate_report :: "int \<Rightarrow> int \<Rightarrow> string \<Rightarrow> world \<Rightarrow> (error + unit) \<times> world"
  e_generate_hunt_summary :: "int \<Rightarrow> int \<Rightarrow> string \<Rightarrow> world \<Rightarrow> (error + unit) \<times> world"
  e_validator :: validator_env
  e_utcnow :: string            \<comment> \<open>\<^verbatim>\<open>datetime.utcnow().isoformat()\<close>\<close>

text \<open>What a hunt does, in order, as far as the claims look at it.\<close>

datatype event =
    PhaseSet string          \<comment> \<open>\<^verbatim>\<open>HuntDB.update(hunt_id, phase=...)\<close>\<close>
  | Recon
  | Discovery
  | ScanDispatch
  | ScanJoin
  | TestCard int             \<comment> \<open>\<^verbatim>\<open>test_hypothesis_browser\<close> on the card with this id\<close>
  | ReadFindings "int list"  \<comment> \<open>\<^verbatim>\<open>all_findings = FindingDB.get_by_hunt(hunt_id)\<close>: the ids read\<close>
  | GapDiscovery
  | Validate int
  | Report int
  | Summary
  | CrossTarget

datatype hunt_result =
    HError string                        \<comment> \<open>\<^verbatim>\<open>{"status": "error", ...}\<close>\<close>
  | HSkipped string                      \<comment> \<open>\<^verbatim>\<open>{"status": "skipped", ...}\<close>\<close>
  | HFailed string "string option"       \<comment> \<open>phase, error\<close>
  | HComplete int string nat nat nat     \<comment> \<open>hunt id, domain, total findings, verified,
                                              reported\<close>

subsection \<open>Sequencing\<close>

text \<open>
  An action takes the world and gives what Python returns or raises, the new world and the
  events of the action. \<open>then_do\<close> runs a second action on the result of the first unless the
  first raised.
\<close>

type_synonym 'a action = "world \<Rightarrow> (error + 'a) \<times> world \<times> event list"

definition ret :: "'a \<Rightarrow> 'a action" where
  "ret a w = (Inr a, w, [])"

definition then_do :: "'a action \<Rightarrow> ('a \<Rightarrow> 'b action) \<Rightarrow> 'b action" where
  "then_do m f w =
     (case m w of
        (Inl e, w', evs) \<Rightarrow> (Inl e, w', evs)
      | (Inr a, w', evs) \<Rightarrow> (case f a w' of (r, w'', evs') \<Rightarrow> (r, w'', evs @ evs')))"

definition call :: "event \<Rightarrow> (world \<Rightarrow> (error + 'a) \<times> world) \<Rightarrow> 'a action" where
  "call ev collaborator w = (case collaborator w of (r, w') \<Rightarrow> (r, w', [ev]))"

definition write_db :: "(db \<Rightarrow> db) \<Rightarrow> unit action" where
  "write_db f w = (Inr (), w\<lparr>w_db := f (w_db w)\<rparr>, [])"

definition set_phase :: "int \<Rightarrow> string \<Rightarrow> unit action" where
  "set_phase hid p w =
     (Inr (), w\<lparr>w_db := HuntDB_update (w_db w) hid (\<lambda>h. h\<lparr>hunt_phase := p\<rparr>)\<rparr>, [PhaseSet p])"

subsection \<open>The steps of \<^verbatim>\<open>run_hunt\<close>\<close>

fun test_cards :: "hunt_env \<Rightarrow> int \<Rightarrow> int \<Rightarrow> string \<Rightarrow> card list \<Rightarrow> unit action" where
  \<comment> \<open>\<^verbatim>\<open>for card in cards: test_hypothesis_browser(hunt_id, target_id, card, domain)\<close>\<close>
  "test_cards env hid target_id domain [] = ret ()"
| "test_cards env hid target_id domain (c # cs) =
     then_do (call (TestCard (card_id c)) (e_test_hypothesis_browser env hid target_id c domain))
       (\<lambda>_. test_cards env hid target_id domain cs)"

definition cards_of_response :: "json \<Rightarrow> error + json list" where
  \<comment> \<open>\<^verbatim>\<open>response if isinstance(response, list) else response.get("hypotheses",
      response.get("cards", []))\<close>, as \<^verbatim>\<open>create_batch\<close> iterates it: the keys of a
      dictionary and the characters of a string have no \<^verbatim>\<open>get\<close>\<close>
  "cards_of_response response =
     (case response of
        JArr cards \<Rightarrow> Inr cards
      | JObj members \<Rightarrow>
          (case (case jget members ''hypotheses'' of
                   Some v \<Rightarrow> v
                 | None \<Rightarrow> (case jget members ''cards'' of Some v \<Rightarrow> v | None \<Rightarrow> JArr [])) of
             JArr cards \<Rightarrow> Inr cards
           | JObj kvs \<Rightarrow> if kvs = [] then Inr [] else Inl AttributeError
           | JStr s \<Rightarrow> if s = [] then Inr [] else Inl AttributeError
           | _ \<Rightarrow> Inl TypeError)
      | _ \<Rightarrow> Inl AttributeError)"

definition gap_prompt :: "string \<Rightarrow> card list \<Rightarrow> prompt" where
  \<comment> \<open>the domain and \<^verbatim>\<open>failed_tests[:20]\<close>, one hypothesis each; \<^verbatim>\<open>observed_defenses\<close>
      is the empty list\<close>
  "gap_prompt domain cards = domain # map card_hypothesis (take 20 cards)"

definition gap_triggered_discovery :: "llm \<Rightarrow> int \<Rightarrow> int \<Rightarrow> string \<Rightarrow> card list \<Rightarrow> unit action" where
  "gap_triggered_discovery client target_id hid domain failed w =
     (case chat_json client ''discovery'' (gap_prompt domain failed) of
        Inl e \<Rightarrow> (Inl e, w, [GapDiscovery])
      | Inr response \<Rightarrow>
          (case cards_of_response response of
             Inl e \<Rightarrow> (Inl e, w, [GapDiscovery])
           | Inr cards \<Rightarrow>
               (case HypothesisDB_create_batch (w_db w) hid target_id cards of
                  Inl e \<Rightarrow> (Inl e, w, [GapDiscovery])
                | Inr d' \<Rightarrow>
                    (Inr (),
                     w\<lparr>w_db := WorkerLogDB_log d'
                        \<lparr>wl_hunt_id = Some hid, wl_worker_type = ''discovery'',
                         wl_model_used = ''qwen-14b'', wl_task_type = ''gap_triggered'',
                         wl_output_summary = ''Second wave: '' @ show_nat (length cards) @ '' cards'',
                         wl_status = ''success''\<rparr>\<rparr>,
                     [GapDiscovery]))))"

definition read_findings :: "int \<Rightarrow> finding list action" where
  "read_findings hid w =
     (Inr (FindingDB_get_by_hunt (w_db w) hid), w,
      [ReadFindings (map f_id (FindingDB_get_by_hunt (w_db w) hid))])"

definition sync_phase :: "hunt_env \<Rightarrow> int \<Rightarrow> int \<Rightarrow> string \<Rightarrow> card list \<Rightarrow> finding list action" where
  \<comment> \<open>PHASE 3, with the gap-triggered second wave\<close>
  "sync_phase env target_id hid domain cards =
     then_do (set_phase hid ''sync'') (\<lambda>_.
     then_do (read_findings hid) (\<lambda>all_findings.
       if all_findings = [] then
         then_do (gap_triggered_discovery (v_client (e_validator env)) target_id hid domain cards) (\<lambda>_.
         then_do (\<lambda>w. test_cards env hid target_id domain
                        (HypothesisDB_get_pending (w_db w) hid) w) (\<lambda>_.
         read_findings hid))
       else ret all_findings))"

fun validate_each :: "hunt_env \<Rightarrow> int \<Rightarrow> finding list \<Rightarrow> nat \<Rightarrow> nat action" where
  \<comment> \<open>the loop of PHASE 4 with its counter \<^verbatim>\<open>verified_count\<close>\<close>
  "validate_each env hid [] verified_count = ret verified_count"
| "validate_each env hid (f # fs) verified_count =
     then_do
       (\<lambda>w. case validate_finding (e_validator env) (w_db w) (f_id f) hid of
               (r, d', calls) \<Rightarrow> (r, w\<lparr>w_db := d'\<rparr>, [Validate (f_id f)]))
       (\<lambda>val_result.
          validate_each env hid fs
            (if status_of val_result = ''CONFIRMED'' then verified_count + 1 else verified_count))"

fun report_each :: "hunt_env \<Rightarrow> int \<Rightarrow> string \<Rightarrow> finding list \<Rightarrow> unit action" where
  "report_each env hid platform [] = ret ()"
| "report_each env hid platform (f # fs) =
     then_do (call (Report (f_id f)) (e_generate_report env (f_id f) hid platform))
       (\<lambda>_. report_each env hid platform fs)"

definition analyze_findings :: "string \<Rightarrow> string \<Rightarrow> finding list \<Rightarrow> unit action" where
  \<comment> \<open>\<^verbatim>\<open>CrossTargetAnalyzer.analyze_findings\<close>: one pattern appended per finding\<close>
  "analyze_findings now source_domain fs w =
     (Inr (),
      w\<lparr>w_patterns := w_patterns w @
           map (\<lambda>f. \<lparr>p_source_domain = Some source_domain,
                      p_finding_type = Some (f_finding_type f),
                      p_category = Some (f_finding_type f),
                      p_technique = Some (f_title f),
                      p_payload = f_payload f,
                      p_severity = Some (f_severity f),
                      p_discovered_at = Some now\<rparr>) fs\<rparr>,
      [CrossTarget])"

definition redis_incrby :: "redis \<Rightarrow> string \<Rightarrow> int \<Rightarrow> error + redis" where
  \<comment> \<open>\<^verbatim>\<open>INCRBY\<close>: an absent key counts from 0; a key that holds no counter is refused\<close>
  "redis_incrby r k amount =
     (case r k of
        None \<Rightarrow> Inr (r(k \<mapsto> \<lparr>stored = RInt amount, expires_at = None\<rparr>))
      | Some e \<Rightarrow>
          (case stored e of
             RInt n \<Rightarrow> Inr (r(k \<mapsto> e\<lparr>stored := RInt (n + amount)\<rparr>))
           | _ \<Rightarrow> Inl ResponseError))"

definition increment_stat :: "string \<Rightarrow> int \<Rightarrow> unit action" where
  "increment_stat k amount w =
     (case redis_incrby (w_redis w) (PREFIX @ ''stats:'' @ k) amount of
        Inl e \<Rightarrow> (Inl e, w, [])
      | Inr r \<Rightarrow> (Inr (), w\<lparr>w_redis := r\<rparr>, []))"

definition complete_hunt ::
  "hunt_env \<Rightarrow> int \<Rightarrow> string \<Rightarrow> finding list \<Rightarrow> nat \<Rightarrow> finding list \<Rightarrow> hunt_result action" where
  \<comment> \<open>from \<^verbatim>\<open># Complete hunt\<close> to the \<^verbatim>\<open>return\<close>\<close>
  "complete_hunt env hid domain all_findings verified_count verified =
     then_do (write_db (\<lambda>d. HuntDB_update d hid
                (\<lambda>h. h\<lparr>hunt_status := ''complete'', hunt_completed_at := Some (e_utcnow env),
                        hunt_findings_count := int verified_count\<rparr>))) (\<lambda>_.
     then_do (write_db (\<lambda>d. TargetDB_update d domain
                (\<lambda>t. t\<lparr>t_last_full_hunt_at := Some (e_utcnow env),
                        t_total_findings := int (length verified)\<rparr>))) (\<lambda>_.
     then_do (increment_stat ''hunts_completed'' 1) (\<lambda>_.
     then_do (increment_stat ''findings_total'' (int verified_count)) (\<lambda>_.
     ret (HComplete hid domain (length all_findings) verified_count (length verified))))))"

definition finish_hunt :: "hunt_env \<Rightarrow> target \<Rightarrow> int \<Rightarrow> finding list \<Rightarrow> hunt_result action" where
  \<comment> \<open>PHASE 4, the reports, the cross-target analysis and the completion\<close>
  "finish_hunt env target hid all_findings =
     (let target_id = t_id target; domain = t_domain target in
      then_do (set_phase hid ''validation'') (\<lambda>_.
      then_do (\<lambda>w. validate_each env hid (FindingDB_get_unverified (w_db w) hid) 0 w)
        (\<lambda>verified_count.
      then_do (set_phase hid ''reporting'') (\<lambda>_.
      then_do (\<lambda>w. (Inr (filter (\<lambda>f. f_status f = ''verified'')
                            (FindingDB_get_by_hunt (w_db w) hid)), w, [])) (\<lambda>verified.
      then_do (report_each env hid (t_platform target) verified) (\<lambda>_.
      then_do (call Summary (e_generate_hunt_summary env hid target_id domain)) (\<lambda>_.
      then_do (analyze_findings (e_utcnow env) domain verified) (\<lambda>_.
      complete_hunt env hid domain all_findings verified_count verified))))))))"

definition discover_and_test :: "hunt_env \<Rightarrow> target \<Rightarrow> int \<Rightarrow> hunt_result action" where
  \<comment> \<open>PHASE 1.5, PHASE 2 and PHASE 3, then the rest\<close>
  "discover_and_test env target hid =
     (let target_id = t_id target; domain = t_domain target in
      then_do (set_phase hid ''discovery'') (\<lambda>_.
      then_do (call Discovery (e_generate_hypotheses env target_id hid domain)) (\<lambda>_.
      then_do (set_phase hid ''testing'') (\<lambda>_.
      then_do (\<lambda>w. (Inr (HypothesisDB_get_pending (w_db w) hid), w, [ScanDispatch])) (\<lambda>cards.
      then_do (test_cards env hid target_id domain cards) (\<lambda>_.
      then_do (call ScanJoin (e_run_scan env target_id hid domain)) (\<lambda>_.
      then_do (sync_phase env target_id hid domain cards) (\<lambda>all_findings.
      finish_hunt env target hid all_findings))))))))"

definition hunt_body :: "hunt_env \<Rightarrow> target \<Rightarrow> hunt_result action" where
  \<comment> \<open>the \<^verbatim>\<open>try\<close> block\<close>
  "hunt_body env target =
     (let target_id = t_id target; domain = t_domain target in
      then_do (\<lambda>w. case HuntDB_create (w_db w) target_id ''full'' of
                      (hid, d') \<Rightarrow> (Inr hid, w\<lparr>w_db := d'\<rparr>, [])) (\<lambda>hid.
      then_do (set_phase hid ''recon'') (\<lambda>_.
      then_do (call Recon (e_run_recon env target_id hid domain)) (\<lambda>recon_result.
        if r_status recon_result = Some ''error'' then
          then_do (write_db (\<lambda>d. HuntDB_update d hid
                     (\<lambda>h. h\<lparr>hunt_status := ''failed'', hunt_error := r_error recon_result\<rparr>)))
            (\<lambda>_. ret (HFailed ''recon'' (r_error recon_result)))
        else discover_and_test env target hid))))"

definition run_hunt :: "hunt_env \<Rightarrow> nat \<Rightarrow> int \<Rightarrow> hunt_result action" where
  \<comment> \<open>\<open>now\<close> is the time on the Redis server when the lock is requested; the
      \<^verbatim>\<open>finally\<close> clause releases the lock on every way out of the \<^verbatim>\<open>try\<close> block\<close>
  "run_hunt env now target_id w =
     (case TargetDB_get_by_id (w_db w) target_id of
        None \<Rightarrow> (Inr (HError (''Target '' @ show_int target_id @ '' not found'')), w, [])
      | Some target \<Rightarrow>
          (case set_target_lock (w_redis w) now (t_domain target) 7200 of
             Inl e \<Rightarrow> (Inl e, w, [])
           | Inr (False, r) \<Rightarrow>
               (Inr (HSkipped (t_domain target @ '' is already being hunted'')), w, [])
           | Inr (True, r) \<Rightarrow>
               (case hunt_body env target (w\<lparr>w_redis := r\<rparr>) of
                  (out, w', evs) \<Rightarrow>
                    (out, w'\<lparr>w_redis := release_target_lock (w_redis w') (t_domain target)\<rparr>,
                     evs))))"

text \<open>The first read of the findings among the events of a hunt.\<close>

definition is_read :: "event \<Rightarrow> bool" where
  "is_read ev = (case ev of ReadFindings ids \<Rightarrow> True | _ \<Rightarrow> False)"


definition quiet :: "event list \<Rightarrow> bool" where
  "quiet evs \<longleftrightarrow> GapDiscovery \<notin> set evs \<and> List.find is_read evs = None"


definition events_of :: "'a action \<Rightarrow> world \<Rightarrow> event list" where
  "events_of m w = snd (snd (m w))"

section \<open>The priority score\<close>

text \<open>
  \<^verbatim>\<open>PriorityScheduler.score_target(target)\<close> reads five keys of a dictionary with
  \<^verbatim>\<open>target.get(key, default)\<close>; a field is \<open>None\<close> when the key is absent. The
  integers are the values of \<^verbatim>\<open>INTEGER\<close> columns. \<^verbatim>\<open>last_full_hunt_at\<close> is the time
  of the last hunt, already parsed, in microseconds (\<open>None\<close> when the key is absent or its
  value is falsy), and \<open>now\<close> is \<^verbatim>\<open>datetime.utcnow()\<close> on the same scale: the
  difference of two \<^verbatim>\<open>datetime\<close> values is a whole number of microseconds.
\<close>

record score_input =
  bounty_min :: "int option"
  bounty_max :: "int option"
  last_full_hunt_at :: "int option"
  total_findings :: "int option"
  priority :: "int option"

definition dict_get :: "'a option \<Rightarrow> 'a \<Rightarrow> 'a" where
  "dict_get field dflt = (case field of None \<Rightarrow> dflt | Some v \<Rightarrow> v)"

subsection \<open>Python floats\<close>

text \<open>
  Python computes the score in binary floating point (IEEE 754 binary64). A float is
  modelled by the real number it denotes, and every operation on floats is the exact
  operation followed by \<open>fl\<close>, which rounds a real to the nearest float, a tie to the
  float whose significand is even. The conversion of an \<^verbatim>\<open>int\<close> to a float and the
  true division of two \<^verbatim>\<open>int\<close>s round the exact result in the same way.

  \<open>pow2 e\<close> is \<open>2\<^sup>e\<close>. \<open>expo x\<close> is the binary exponent of \<open>x\<close>, the \<open>e\<close> with
  \<open>2\<^sup>e \<le> |x| < 2\<^sup>e\<^sup>+\<^sup>1\<close>. \<open>quantum x\<close> is the exponent of the spacing of the
  floats around \<open>x\<close>: 53 significant bits, and no exponent below that of the subnormal
  floats. The model has no largest float: the values that \<^verbatim>\<open>score_target\<close> computes on
  a plausible target stay far below \<open>2\<^sup>1\<^sup>0\<^sup>2\<^sup>4\<close> (lemma \<open>score_target_no_overflow\<close>).
\<close>

definition round_half_even :: "real \<Rightarrow> int" where
  \<comment> \<open>to the nearest integer, a tie to the even one\<close>
  "round_half_even x =
     (let f = \<lfloor>x\<rfloor>; d = x - of_int f
      in if d < 1/2 then f else if 1/2 < d then f + 1 else if even f then f else f + 1)"

definition pow2 :: "int \<Rightarrow> real" where
  "pow2 e = (if 0 \<le> e then 2 ^ nat e else 1 / 2 ^ nat (- e))"

definition expo :: "real \<Rightarrow> int" where
  "expo x = (if 1 \<le> \<bar>x\<bar> then bitlen \<lfloor>\<bar>x\<bar>\<rfloor> - 1 else - bitlen (\<lceil>1 / \<bar>x\<bar>\<rceil> - 1))"

definition quantum :: "real \<Rightarrow> int" where
  "quantum x = max (expo x) (- 1022) - 52"

definition fl :: "real \<Rightarrow> real" where
  "fl x = of_int (round_half_even (x / pow2 (quantum x))) * pow2 (quantum x)"

text \<open>
  \<^verbatim>\<open>round(x, 2)\<close> on a float: the exact value of \<open>x\<close> is rounded to the nearest
  multiple of 0.01, a tie to the even one, and the result is the float nearest to that
  decimal.
\<close>

definition py_round2 :: "real \<Rightarrow> real" where
  "py_round2 x = fl (of_int (round_half_even (x * 100)) / 100)"

subsection \<open>\<^verbatim>\<open>score_target\<close>\<close>

definition bounty_avg :: "score_input \<Rightarrow> real" where
  \<comment> \<open>\<^verbatim>\<open>(target.get("bounty_min", 0) + target.get("bounty_max", 1000)) / 2\<close>: an exact
      sum of integers, then a true division\<close>
  "bounty_avg target =
     fl (of_int (dict_get (bounty_min target) 0 + dict_get (bounty_max target) 1000) / 2)"

definition bounty_factor :: "score_input \<Rightarrow> real" where
  \<comment> \<open>\<^verbatim>\<open>max(bounty_avg / 1000, 0.1)\<close>; the literal \<^verbatim>\<open>0.1\<close> is the float nearest to 0.1\<close>
  "bounty_factor target = max (fl (bounty_avg target / 1000)) (fl 0.1)"

definition staleness :: "int \<Rightarrow> score_input \<Rightarrow> real" where
  \<comment> \<open>\<^verbatim>\<open>total_seconds()\<close> divides the microseconds of the difference by \<open>10\<^sup>6\<close>\<close>
  "staleness now target =
     (case last_full_hunt_at target of
        None \<Rightarrow> 10
      | Some last_hunt \<Rightarrow>
          (let total_seconds = fl (of_int (now - last_hunt) / 1000000);
               hours_since = fl (total_seconds / 3600)
           in min (fl (hours_since / 24)) 10))"

definition findings_rate :: "score_input \<Rightarrow> real" where
  \<comment> \<open>\<^verbatim>\<open>1.0 + (total_findings * 0.2)\<close>: the integer is converted to a float first\<close>
  "findings_rate target = fl (1 + fl (fl (of_int (dict_get (total_findings target) 0)) * fl 0.2))"

definition manual :: "score_input \<Rightarrow> real" where
  \<comment> \<open>\<^verbatim>\<open>target.get("priority", 5) / 5.0\<close>\<close>
  "manual target = fl (fl (of_int (dict_get (priority target) 5)) / 5)"

text \<open>The local variable \<^verbatim>\<open>score\<close>, before it is rounded: a product taken from left to
  right.\<close>

definition raw_score :: "int \<Rightarrow> score_input \<Rightarrow> real" where
  "raw_score now target =
     fl (fl (fl (bounty_factor target * staleness now target) * findings_rate target)
         * manual target)"

definition score_target :: "int \<Rightarrow> score_input \<Rightarrow> real" where
  "score_target now target = py_round2 (raw_score now target)"

text \<open>
  The targets the scheduler meets: every integer is one that an \<^verbatim>\<open>INTEGER\<close> column
  holds (64 bits, signed), the last hunt does not lie in the future and lies less than
  \<open>2\<^sup>5\<^sup>9\<close> microseconds back (the years 1 to 9999 of \<^verbatim>\<open>datetime\<close> span less), the
  count of past findings is not negative and the manual priority is at least 1.
\<close>

definition sqlite_integer :: "int \<Rightarrow> bool" where
  "sqlite_integer n \<longleftrightarrow> - (2 ^ 63) \<le> n \<and> n < 2 ^ 63"

definition plausible :: "int \<Rightarrow> score_input \<Rightarrow> bool" where
  "plausible now target \<longleftrightarrow>
     sqlite_integer (dict_get (bounty_min target) 0)
     \<and> sqlite_integer (dict_get (bounty_max target) 1000)
     \<and> sqlite_integer (dict_get (total_findings target) 0)
     \<and> sqlite_integer (dict_get (priority target) 5)
     \<and> (case last_full_hunt_at target of
           None \<Rightarrow> True
         | Some last_hunt \<Rightarrow> last_hunt \<le> now \<and> now - last_hunt < 2 ^ 59)
     \<and> 0 \<le> dict_get (total_findings target) 0
     \<and> 1 \<le> dict_get (priority target) 5"

section \<open>Example inputs\<close>

text \<open>
  A finding on \<^verbatim>\<open>shop.example.com\<close>, a table that holds it, and an environment in
  which the name resolves, the host answers over HTTPS with the given headers, the
  finding's URL answers with the given status code, and the model server answers the given
  text.
\<close>

definition demo_finding :: finding where
  "demo_finding =
     \<lparr>f_id = 1, f_hunt_id = 1, f_target_id = 1, f_finding_type = ''idor'',
      f_severity = ''medium'', f_title = ''IDOR in /api/users'',
      f_description = Some ''other users are readable'',
      f_url = Some ''https://shop.example.com/api/users/2'', f_payload = Some ''id=2'',
      f_curl_command = Some ''curl https://shop.example.com/api/users/2'',
      f_status = ''unverified'', f_discovered_by = Some ''exploit'',
      f_verified_by = None, f_verified_at = None\<rparr>"

definition demo_db :: db where
  "demo_db =
     \<lparr>targets = [], hunts = [], findings = [demo_finding], hypothesis_cards = [],
      worker_logs = []\<rparr>"

definition demo_shell :: "string \<Rightarrow> string \<Rightarrow> string \<Rightarrow> shell_outcome" where
  "demo_shell headers code command =
     (if command = dns_command ''shop.example.com''
      then Completed ''Name: shop.example.com Address: 93.184.216.34'' [] 0
      else if command = http_command ''shop.example.com'' then Completed headers [] 0
      else if command = endpoint_command ''https://shop.example.com/api/users/2''
      then Completed code [] 0
      else Completed ''Internal Server Error'' [] 0)"

definition demo_env :: "string \<Rightarrow> string \<Rightarrow> string \<Rightarrow> validator_env" where
  "demo_env headers code raw =
     \<lparr>v_shell = demo_shell headers code,
      v_hostname = (\<lambda>url. Inr (Some ''shop.example.com'')),
      v_client = canned_llm raw,
      v_strftime = ''2024-01-01T00:00:00Z'',
      v_repr = (\<lambda>v. ''None'')\<rparr>"

text \<open>
  The same environment with a lookup that prints the given text and a request to the host
  that exits with the given code.
\<close>

definition flaky_shell :: "string \<Rightarrow> int \<Rightarrow> string \<Rightarrow> string \<Rightarrow> string \<Rightarrow> shell_outcome" where
  "flaky_shell lookup exit_code headers code command =
     (if command = dns_command ''shop.example.com'' then Completed lookup [] 0
      else if command = http_command ''shop.example.com'' then Completed headers [] exit_code
      else demo_shell headers code command)"

definition flaky_env :: "string \<Rightarrow> int \<Rightarrow> string \<Rightarrow> string \<Rightarrow> validator_env" where
  "flaky_env lookup exit_code headers code =
     (demo_env headers code [])\<lparr>v_shell := flaky_shell lookup exit_code headers code\<rparr>"

text \<open>
  A target with three past findings in an otherwise empty world, and a hunt environment
  in which recon succeeds, the first discovery yields no card, no test of a card yields a
  finding, no report and no summary fails, and the scan and the validator's environment
  are the given ones. \<open>idle\<close> is a collaborator that returns and writes nothing,
  \<open>timed_out\<close> a scan whose result does not arrive in time, and \<open>found_by_scan\<close> a scan
  that has recorded the finding above.
\<close>

definition demo_target :: target where
  "demo_target =
     \<lparr>t_id = 1, t_domain = ''shop.example.com'', t_platform = ''hackerone'',
      t_bounty_min = 100, t_bounty_max = 5000, t_priority = 5, t_status = ''pending'',
      t_last_recon_at = None, t_last_scan_at = None,
      t_last_full_hunt_at = Some ''2023-12-01T00:00:00'', t_total_findings = 3\<rparr>"

definition demo_world :: world where
  "demo_world =
     \<lparr>w_db = \<lparr>targets = [demo_target], hunts = [], findings = [], hypothesis_cards = [],
              worker_logs = []\<rparr>,
      w_redis = Map.empty, w_patterns = []\<rparr>"

definition idle :: "world \<Rightarrow> (error + unit) \<times> world" where
  "idle w = (Inr (), w)"

definition timed_out :: "world \<Rightarrow> (error + unit) \<times> world" where
  "timed_out w = (Inl TimeoutError, w)"

definition found_by_scan :: "world \<Rightarrow> (error + unit) \<times> world" where
  "found_by_scan w = (Inr (), w\<lparr>w_db := (w_db w)\<lparr>findings := findings (w_db w) @ [demo_finding]\<rparr>\<rparr>)"

definition demo_hunt_env ::
  "(world \<Rightarrow> (error + unit) \<times> world) \<Rightarrow> validator_env \<Rightarrow> hunt_env" where
  "demo_hunt_env scan venv =
     \<lparr>e_run_recon = (\<lambda>target_id hid domain w. (Inr \<lparr>r_status = Some ''complete'', r_error = None\<rparr>, w)),
      e_generate_hypotheses = (\<lambda>target_id hid domain. idle),
      e_run_scan = (\<lambda>target_id hid domain. scan),
      e_test_hypothesis_browser = (\<lambda>hid target_id c domain. idle),
      e_generate_report = (\<lambda>finding_id hid platform. idle),
      e_generate_hunt_summary = (\<lambda>hid target_id domain. idle),
      e_validator = venv,
      e_utcnow = ''2024-01-01T00:00:00''\<rparr>"

text \<open>
  Two validator environments for a hunt: one whose model server answers a single
  second-wave card, and one whose model server confirms the finding and raises its
  severity.
\<close>

definition second_wave_env :: validator_env where
  \<open>second_wave_env =
     demo_env [] [] ''[{"id": "H1", "hypothesis": "race condition in checkout"}]''\<close>

definition confirming_env :: validator_env where
  \<open>confirming_env =
     demo_env ''HTTP/2 200'' ''200''
       ''{"verdict": "CONFIRMED", "evidence": "stack trace", "adjusted_severity": "critical"}''\<close>


chapter \<open>Properties\<close>

section \<open>The target lock\<close>

lemma lock_key_inj: "lock_key a = lock_key b \<longleftrightarrow> a = b"
  by (simp add: lock_key_def)

lemma set_target_lock_cases:
  assumes "set_target_lock r now d ttl = Inr (b, r')"
  shows "0 < ttl"
    and "b \<longleftrightarrow> \<not> is_target_locked r now d"
    and "\<not> b \<Longrightarrow> r' = r"
    and "b \<Longrightarrow> r' = r(lock_key d \<mapsto> \<lparr>stored = RStr ''1'', expires_at = Some (now + nat ttl)\<rparr>)"
  using assms
  by (auto simp: set_target_lock_def redis_set_nx_ex_def is_target_locked_def
           split: if_splits)

lemma lock_held_during_lease:
  assumes "r' = r(lock_key d \<mapsto> \<lparr>stored = RStr ''1'', expires_at = Some (now + nat ttl)\<rparr>)"
      and "t < now + nat ttl"
  shows "is_target_locked r' t d"
  using assms by (simp add: is_target_locked_def exists_key_def)

text \<open>
  C1. Lock uniqueness. An acquire succeeds exactly when no live lock for the domain
  exists, and then creates it; an acquire that finds a live lock answers false and leaves
  the keyspace as it was. Hence of two acquire calls for the same domain, taken in the
  order in which Redis serves them, the second fails whenever the first succeeded and its
  lease is still live: the two never both succeed.
\<close>

theorem set_target_lock_exclusive:
  assumes first: "set_target_lock r t1 d ttl1 = Inr (b1, r1)"
      and second: "set_target_lock r1 t2 d ttl2 = Inr (b2, r2)"
      and order: "t1 \<le> t2"
      and lease: "t2 < t1 + nat ttl1"
  shows "(b1 \<longleftrightarrow> \<not> is_target_locked r t1 d)
       \<and> is_target_locked r1 t1 d
       \<and> (b1 \<longrightarrow> is_target_locked r1 t2 d \<and> \<not> b2 \<and> r2 = r1)
       \<and> \<not> (b1 \<and> b2)"
proof -
  have iff: "b1 \<longleftrightarrow> \<not> is_target_locked r t1 d"
    using set_target_lock_cases(2)[OF first] .
  have pos: "0 < ttl1"
    using set_target_lock_cases(1)[OF first] .
  have held_now: "is_target_locked r1 t1 d"
  proof (cases b1)
    case True
    then show ?thesis
      using set_target_lock_cases(4)[OF first] pos
      by (simp add: is_target_locked_def exists_key_def)
  next
    case False
    then show ?thesis
      using set_target_lock_cases(3)[OF first] iff by simp
  qed
  have excl: "is_target_locked r1 t2 d \<and> \<not> b2 \<and> r2 = r1" if b1
  proof -
    have held: "is_target_locked r1 t2 d"
      using lock_held_during_lease[OF set_target_lock_cases(4)[OF first that] lease] .
    have nb2: "\<not> b2"
      using set_target_lock_cases(2)[OF second] held by simp
    show ?thesis
      using held nb2 set_target_lock_cases(3)[OF second] by simp
  qed
  show ?thesis
    using iff held_now excl by blast
qed

theorem set_target_lock_exclusive_witness:
  "set_target_lock Map.empty 100 ''a.com'' 7200
     = Inr (True, Map.empty(lock_key ''a.com'' \<mapsto> \<lparr>stored = RStr ''1'', expires_at = Some 7300\<rparr>))
   \<and> set_target_lock (Map.empty(lock_key ''a.com'' \<mapsto> \<lparr>stored = RStr ''1'', expires_at = Some 7300\<rparr>))
        200 ''a.com'' 7200
     = Inr (False, Map.empty(lock_key ''a.com'' \<mapsto> \<lparr>stored = RStr ''1'', expires_at = Some 7300\<rparr>))
   \<and> is_target_locked (Map.empty(lock_key ''a.com'' \<mapsto> \<lparr>stored = RStr ''1'', expires_at = Some 7300\<rparr>))
        200 ''a.com''
   \<and> \<not> is_target_locked Map.empty 100 ''a.com''"
proof -
  let ?r1 = "Map.empty(lock_key ''a.com'' \<mapsto> \<lparr>stored = RStr ''1'', expires_at = Some 7300\<rparr>)"
  have a: "set_target_lock Map.empty 100 ''a.com'' 7200 = Inr (True, ?r1)"
    by (simp add: set_target_lock_def redis_set_nx_ex_def exists_key_def)
  have b: "set_target_lock ?r1 200 ''a.com'' 7200 = Inr (False, ?r1)"
    by (simp add: set_target_lock_def redis_set_nx_ex_def exists_key_def)
  have c: "(100::nat) \<le> 200" by simp
  have d: "(200::nat) < 100 + nat 7200" by simp
  show ?thesis
    using set_target_lock_exclusive[OF a b c d] a b by simp
qed

section \<open>The JSON recovery of the model client\<close>

lemma py_find_first:
  assumes "opening \<notin> set pre"
  shows "py_find (pre @ opening # rest) opening = int (length pre)"
proof -
  have "takeWhile (\<lambda>x. x \<noteq> opening) (pre @ opening # rest) = pre"
    using assms by (induction pre) auto
  then show ?thesis by (simp add: py_find_def)
qed

lemma py_rfind_last:
  assumes "closing \<notin> set post"
  shows "py_rfind (front @ closing # post) closing = int (length front)"
proof -
  have "takeWhile (\<lambda>x. x \<noteq> closing) (rev post @ closing # rev front) = rev post"
    using assms by (induction post rule: rev_induct) auto
  then show ?thesis by (simp add: py_rfind_def)
qed

lemma outer_span:
  assumes "raw = pre @ opening # mid @ closing # post"
      and "opening \<notin> set pre" and "closing \<notin> set post"
  shows "0 \<le> py_find raw opening"
    and "py_find raw opening < py_rfind raw closing + 1"
    and "slice raw (py_find raw opening) (py_rfind raw closing + 1) = opening # mid @ [closing]"
proof -
  have f: "py_find raw opening = int (length pre)"
    using py_find_first[OF assms(2)] assms(1) by simp
  have "raw = (pre @ opening # mid) @ closing # post" using assms(1) by simp
  then have r: "py_rfind raw closing = int (length pre) + int (length mid) + 1"
    using py_rfind_last[OF assms(3), of "pre @ opening # mid"] by simp
  show "0 \<le> py_find raw opening" using f by simp
  show "py_find raw opening < py_rfind raw closing + 1" using f r by simp
  have "nat (int (length pre) + int (length mid) + 1 + 1) - length pre = length mid + 2"
    by simp
  then show "slice raw (py_find raw opening) (py_rfind raw closing + 1) = opening # mid @ [closing]"
    using f r assms(1) by (simp add: slice_def)
qed

lemma takeWhile_shorter:
  assumes "x \<in> set xs" and "\<not> P x"
  shows "length (takeWhile P xs) < length xs"
  using assms by (induction xs) auto

lemma no_outer_span:
  assumes "\<not> has_span opening closing raw" and "opening \<noteq> closing"
  shows "\<not> (0 \<le> py_find raw opening \<and> py_find raw opening < py_rfind raw closing + 1)"
proof
  assume a: "0 \<le> py_find raw opening \<and> py_find raw opening < py_rfind raw closing + 1"
  define front where "front = takeWhile (\<lambda>x. x \<noteq> opening) raw"
  define behind where "behind = dropWhile (\<lambda>x. x \<noteq> opening) raw"
  have raw: "raw = front @ behind" by (simp add: front_def behind_def)
  have nb: "closing \<notin> set behind" using assms(1) by (simp add: has_span_def behind_def)
  have o: "opening \<in> set raw" using a by (auto simp: py_find_def split: if_splits)
  have c: "closing \<in> set raw" using a o by (auto simp: py_find_def py_rfind_def split: if_splits)
  then have cf: "closing \<in> set front" using raw nb by auto
  have "takeWhile (\<lambda>x. x \<noteq> closing) (rev behind @ rev front)
          = rev behind @ takeWhile (\<lambda>x. x \<noteq> closing) (rev front)"
    using nb by (intro takeWhile_append2) auto
  then have "takeWhile (\<lambda>x. x \<noteq> closing) (rev raw)
          = rev behind @ takeWhile (\<lambda>x. x \<noteq> closing) (rev front)"
    by (simp add: raw)
  moreover have "length (takeWhile (\<lambda>x. x \<noteq> closing) (rev front)) < length front"
    using takeWhile_shorter[of closing "rev front" "\<lambda>x. x \<noteq> closing"] cf by simp
  ultimately have "int (length raw) - 1 - int (length (takeWhile (\<lambda>x. x \<noteq> closing) (rev raw))) + 1
      \<le> int (length front)"
    by (simp add: raw)
  then show False
    using a o c by (simp add: py_find_def py_rfind_def front_def)
qed

lemma has_span_iff:
  assumes "opening \<noteq> closing"
  shows "has_span opening closing raw \<longleftrightarrow>
     (\<exists>pre mid post. raw = pre @ opening # mid @ closing # post
        \<and> opening \<notin> set pre \<and> closing \<notin> set post)"
proof
  define pre where "pre = takeWhile (\<lambda>x. x \<noteq> opening) raw"
  define behind where "behind = dropWhile (\<lambda>x. x \<noteq> opening) raw"
  assume "has_span opening closing raw"
  then have c: "closing \<in> set behind"
    by (simp add: has_span_def behind_def)
  then have "behind \<noteq> []" by auto
  then have "hd behind = opening"
    unfolding behind_def using hd_dropWhile[of "\<lambda>x. x \<noteq> opening" raw] by auto
  then obtain tail where behind: "behind = opening # tail"
    using \<open>behind \<noteq> []\<close> by (cases behind) auto
  have "closing \<in> set tail" using c assms behind by auto
  then obtain mid post where tail: "tail = mid @ closing # post" "closing \<notin> set post"
    by (meson split_list_last)
  have "raw = pre @ behind"
    by (simp add: pre_def behind_def)
  then have "raw = pre @ opening # mid @ closing # post"
    using behind tail by simp
  moreover have "opening \<notin> set pre"
    using set_takeWhileD[where x = "opening" and P = "\<lambda>x. x \<noteq> opening" and xs = raw]
    by (auto simp: pre_def)
  ultimately show "\<exists>pre mid post. raw = pre @ opening # mid @ closing # post
        \<and> opening \<notin> set pre \<and> closing \<notin> set post"
    using tail(2) by blast
next
  assume "\<exists>pre mid post. raw = pre @ opening # mid @ closing # post
        \<and> opening \<notin> set pre \<and> closing \<notin> set post"
  then obtain pre mid post where d: "raw = pre @ opening # mid @ closing # post" "opening \<notin> set pre"
    by blast
  have "dropWhile (\<lambda>x. x \<noteq> opening) raw = opening # mid @ closing # post"
    using d by (auto simp: dropWhile_append3)
  then show "has_span opening closing raw" by (simp add: has_span_def)
qed

lemma json_loads_brace:
  assumes "json_loads (CHR ''{'' # s) = Some v"
  shows "\<exists>members. v = JObj members"
proof -
  have ws: "skip_ws (CHR ''{'' # s) = CHR ''{'' # s"
    by (simp add: skip_ws_def is_json_ws_def)
  have "2 * length (CHR ''{'' # s) + 2 = Suc (2 * length s + 3)" by simp
  then obtain n where n: "2 * length (CHR ''{'' # s) + 2 = Suc n" by blast
  show ?thesis
    using assms unfolding json_loads_def ws n
    by (auto split: option.splits list.splits if_splits)
qed

lemma json_loads_bracket:
  assumes "json_loads (CHR ''['' # s) = Some v"
  shows "\<exists>elements. v = JArr elements"
proof -
  have ws: "skip_ws (CHR ''['' # s) = CHR ''['' # s"
    by (simp add: skip_ws_def is_json_ws_def)
  have "2 * length (CHR ''['' # s) + 2 = Suc (2 * length s + 3)" by simp
  then obtain n where n: "2 * length (CHR ''['' # s) + 2 = Suc n" by blast
  show ?thesis
    using assms unfolding json_loads_def ws n
    by (auto split: option.splits list.splits if_splits)
qed

lemma recover_json_span:
  assumes "raw = pre @ lb # mid @ rb # post" and "lb \<notin> set pre" and "rb \<notin> set post"
  shows "(0 \<le> py_find raw lb \<and> py_find raw lb < py_rfind raw rb + 1)
       \<and> slice raw (py_find raw lb) (py_rfind raw rb + 1) = lb # mid @ [rb]"
  using outer_span[OF assms] by simp

lemma recover_json_brace:
  assumes "raw = pre @ CHR ''{'' # mid @ CHR ''}'' # post"
      and "CHR ''{'' \<notin> set pre" and "CHR ''}'' \<notin> set post"
  shows "recover_json loads raw =
           (case loads (CHR ''{'' # mid @ [CHR ''}'']) of
              None \<Rightarrow> Inl JSONDecodeError
            | Some v \<Rightarrow> Inr v)"
  using recover_json_span[OF assms] by (simp add: recover_json_def Let_def)

lemma recover_json_bracket:
  assumes "\<not> has_span CHR ''{'' CHR ''}'' raw"
      and "raw = pre @ CHR ''['' # mid @ CHR '']'' # post"
      and "CHR ''['' \<notin> set pre" and "CHR '']'' \<notin> set post"
  shows "recover_json loads raw =
           (case loads (CHR ''['' # mid @ [CHR '']'']) of
              None \<Rightarrow> Inl JSONDecodeError
            | Some v \<Rightarrow> Inr v)"
proof -
  have nb: "\<not> (0 \<le> py_find raw CHR ''{'' \<and> py_find raw CHR ''{'' < py_rfind raw CHR ''}'' + 1)"
    using no_outer_span[OF assms(1)] by simp
  show ?thesis
    using nb recover_json_span[OF assms(2,3,4)] by (auto simp: recover_json_def Let_def)
qed

lemma recover_json_none:
  assumes "\<not> has_span CHR ''{'' CHR ''}'' raw" and "\<not> has_span CHR ''['' CHR '']'' raw"
  shows "recover_json loads raw = Inl JSONDecodeError"
proof -
  have nb: "\<not> (0 \<le> py_find raw CHR ''{'' \<and> py_find raw CHR ''{'' < py_rfind raw CHR ''}'' + 1)"
    using no_outer_span[OF assms(1)] by simp
  have nk: "\<not> (0 \<le> py_find raw CHR ''['' \<and> py_find raw CHR ''['' < py_rfind raw CHR '']'' + 1)"
    using no_outer_span[OF assms(2)] by simp
  show ?thesis
    using nb nk by (auto simp: recover_json_def Let_def)
qed

lemma recover_json_error: "recover_json loads raw = Inl e \<Longrightarrow> e = JSONDecodeError"
  by (auto simp: recover_json_def Let_def split: if_splits option.splits)

lemma recover_json_container:
  assumes "recover_json json_loads raw = Inr v"
  shows "(\<exists>members. v = JObj members) \<or> (\<exists>elements. v = JArr elements)"
proof (cases "has_span CHR ''{'' CHR ''}'' raw")
  case True
  then obtain pre mid post where d: "raw = pre @ CHR ''{'' # mid @ CHR ''}'' # post"
      "CHR ''{'' \<notin> set pre" "CHR ''}'' \<notin> set post"
    using has_span_iff[of "CHR ''{''" "CHR ''}''" raw] by auto
  have "json_loads (CHR ''{'' # mid @ [CHR ''}'']) = Some v"
    using assms recover_json_brace[OF d, of json_loads] by (simp split: option.splits)
  then show ?thesis using json_loads_brace by blast
next
  case False
  show ?thesis
  proof (cases "has_span CHR ''['' CHR '']'' raw")
    case True
    then obtain pre mid post where d: "raw = pre @ CHR ''['' # mid @ CHR '']'' # post"
        "CHR ''['' \<notin> set pre" "CHR '']'' \<notin> set post"
      using has_span_iff[of "CHR ''[''" "CHR '']''" raw] by auto
    have "json_loads (CHR ''['' # mid @ [CHR '']'']) = Some v"
      using assms recover_json_bracket[OF False d, of json_loads] by (simp split: option.splits)
    then show ?thesis using json_loads_bracket by blast
  next
    case nk: False
    then show ?thesis using assms recover_json_none[OF False nk, of json_loads] by simp
  qed
qed

text \<open>
  C9, as the code has it. When the completion is not valid JSON, \<^verbatim>\<open>chat_json\<close> decodes
  one piece of it: the text from the first opening brace to the last closing brace; if
  there is no such text, the text from the first opening bracket to the last closing
  bracket. It returns what that piece decodes to and raises \<^verbatim>\<open>JSONDecodeError\<close> when
  the piece is not valid JSON or when there is no piece; it raises no other exception.
  With the decoder \<open>json_loads\<close> a recovered value is a dictionary or a list, never
  \<^verbatim>\<open>None\<close>.
\<close>

theorem chat_json_recovers_outer_span:
  assumes "llm_chat client model_key messages = Inr (Some raw)"
      and "llm_loads client raw = None"
  shows "(\<forall>pre mid post.
            raw = pre @ CHR ''{'' # mid @ CHR ''}'' # post
            \<and> CHR ''{'' \<notin> set pre \<and> CHR ''}'' \<notin> set post
            \<longrightarrow> chat_json client model_key messages =
                  (case llm_loads client (CHR ''{'' # mid @ [CHR ''}'']) of
                     None \<Rightarrow> Inl JSONDecodeError
                   | Some v \<Rightarrow> Inr v))
       \<and> (\<forall>pre mid post.
            \<not> has_span CHR ''{'' CHR ''}'' raw
            \<and> raw = pre @ CHR ''['' # mid @ CHR '']'' # post
            \<and> CHR ''['' \<notin> set pre \<and> CHR '']'' \<notin> set post
            \<longrightarrow> chat_json client model_key messages =
                  (case llm_loads client (CHR ''['' # mid @ [CHR '']'']) of
                     None \<Rightarrow> Inl JSONDecodeError
                   | Some v \<Rightarrow> Inr v))
       \<and> (\<not> has_span CHR ''{'' CHR ''}'' raw \<and> \<not> has_span CHR ''['' CHR '']'' raw
            \<longrightarrow> chat_json client model_key messages = Inl JSONDecodeError)
       \<and> (has_span CHR ''{'' CHR ''}'' raw \<longleftrightarrow>
            (\<exists>pre mid post. raw = pre @ CHR ''{'' # mid @ CHR ''}'' # post
               \<and> CHR ''{'' \<notin> set pre \<and> CHR ''}'' \<notin> set post))
       \<and> (has_span CHR ''['' CHR '']'' raw \<longleftrightarrow>
            (\<exists>pre mid post. raw = pre @ CHR ''['' # mid @ CHR '']'' # post
               \<and> CHR ''['' \<notin> set pre \<and> CHR '']'' \<notin> set post))
       \<and> (\<forall>e. chat_json client model_key messages = Inl e \<longrightarrow> e = JSONDecodeError)
       \<and> (\<forall>v. llm_loads client = json_loads \<and> chat_json client model_key messages = Inr v
            \<longrightarrow> (\<exists>members. v = JObj members) \<or> (\<exists>elements. v = JArr elements))"
proof -
  have cj: "chat_json client model_key messages = recover_json (llm_loads client) raw"
    using assms by (simp add: chat_json_def)
  have p1: "\<forall>pre mid post.
            raw = pre @ CHR ''{'' # mid @ CHR ''}'' # post
            \<and> CHR ''{'' \<notin> set pre \<and> CHR ''}'' \<notin> set post
            \<longrightarrow> chat_json client model_key messages =
                  (case llm_loads client (CHR ''{'' # mid @ [CHR ''}'']) of
                     None \<Rightarrow> Inl JSONDecodeError
                   | Some v \<Rightarrow> Inr v)"
    unfolding cj using recover_json_brace by blast
  have p2: "\<forall>pre mid post.
            \<not> has_span CHR ''{'' CHR ''}'' raw
            \<and> raw = pre @ CHR ''['' # mid @ CHR '']'' # post
            \<and> CHR ''['' \<notin> set pre \<and> CHR '']'' \<notin> set post
            \<longrightarrow> chat_json client model_key messages =
                  (case llm_loads client (CHR ''['' # mid @ [CHR '']'']) of
                     None \<Rightarrow> Inl JSONDecodeError
                   | Some v \<Rightarrow> Inr v)"
    unfolding cj using recover_json_bracket by blast
  have p3: "\<not> has_span CHR ''{'' CHR ''}'' raw \<and> \<not> has_span CHR ''['' CHR '']'' raw
            \<longrightarrow> chat_json client model_key messages = Inl JSONDecodeError"
    unfolding cj using recover_json_none by blast
  have p4: "has_span CHR ''{'' CHR ''}'' raw \<longleftrightarrow>
            (\<exists>pre mid post. raw = pre @ CHR ''{'' # mid @ CHR ''}'' # post
               \<and> CHR ''{'' \<notin> set pre \<and> CHR ''}'' \<notin> set post)"
    by (rule has_span_iff) simp
  have p5: "has_span CHR ''['' CHR '']'' raw \<longleftrightarrow>
            (\<exists>pre mid post. raw = pre @ CHR ''['' # mid @ CHR '']'' # post
               \<and> CHR ''['' \<notin> set pre \<and> CHR '']'' \<notin> set post)"
    by (rule has_span_iff) simp
  have p6: "\<forall>e. chat_json client model_key messages = Inl e \<longrightarrow> e = JSONDecodeError"
    unfolding cj using recover_json_error by blast
  have p7: "\<forall>v. llm_loads client = json_loads \<and> chat_json client model_key messages = Inr v
            \<longrightarrow> (\<exists>members. v = JObj members) \<or> (\<exists>elements. v = JArr elements)"
    unfolding cj using recover_json_container by metis
  show ?thesis
    using p1 p2 p3 p4 p5 p6 p7 by blast
qed

theorem chat_json_recovers_outer_span_witness:
  \<open>llm_chat (canned_llm ''Sure! {"verdict": "CONFIRMED"} Hope this helps'') ''validator'' []
     = Inr (Some ''Sure! {"verdict": "CONFIRMED"} Hope this helps'')
   \<and> llm_loads (canned_llm ''Sure! {"verdict": "CONFIRMED"} Hope this helps'')
        ''Sure! {"verdict": "CONFIRMED"} Hope this helps'' = None
   \<and> chat_json (canned_llm ''Sure! {"verdict": "CONFIRMED"} Hope this helps'') ''validator'' []
     = Inr (JObj [(''verdict'', JStr ''CONFIRMED'')])\<close>
proof -
  let ?raw = \<open>''Sure! {"verdict": "CONFIRMED"} Hope this helps''\<close>
  have a: "llm_chat (canned_llm ?raw) ''validator'' [] = Inr (Some ?raw)"
    by (simp add: canned_llm_def)
  have "json_loads ?raw = None"
    by code_simp
  then have b: "llm_loads (canned_llm ?raw) ?raw = None"
    by (simp add: canned_llm_def)
  have piece: \<open>json_loads (CHR ''{'' # ''"verdict": "CONFIRMED"'' @ [CHR ''}''])
                 = Some (JObj [(''verdict'', JStr ''CONFIRMED'')])\<close>
    by code_simp
  have split: \<open>?raw = ''Sure! '' @ CHR ''{'' # ''"verdict": "CONFIRMED"'' @ CHR ''}'' # '' Hope this helps''
      \<and> CHR ''{'' \<notin> set ''Sure! '' \<and> CHR ''}'' \<notin> set '' Hope this helps''\<close>
    by simp
  have \<open>chat_json (canned_llm ?raw) ''validator'' []
          = (case llm_loads (canned_llm ?raw) (CHR ''{'' # ''"verdict": "CONFIRMED"'' @ [CHR ''}'']) of
               None \<Rightarrow> Inl JSONDecodeError
             | Some v \<Rightarrow> Inr v)\<close>
    using chat_json_recovers_outer_span[OF a b] split by blast
  then have "chat_json (canned_llm ?raw) ''validator'' [] = Inr (JObj [(''verdict'', JStr ''CONFIRMED'')])"
    using piece by (simp add: canned_llm_def)
  then show ?thesis using a b by simp
qed

text \<open>
  C9, as the claim states it, fails. The completion below is not valid JSON and its first
  well-formed bracketed piece is the object before \<^verbatim>\<open>and\<close>; \<^verbatim>\<open>chat_json\<close> decodes
  the text from the first brace to the last one, which is the whole completion, and
  raises.
\<close>

theorem chat_json_first_object_not_recovered:
  \<open>llm_loads (canned_llm ''{"a": 1} and {"b": 2}'') ''{"a": 1} and {"b": 2}'' = None
   \<and> llm_loads (canned_llm ''{"a": 1} and {"b": 2}'') ''{"a": 1}'' = Some (JObj [(''a'', JInt 1)])
   \<and> chat_json (canned_llm ''{"a": 1} and {"b": 2}'') ''validator'' [] = Inl JSONDecodeError\<close>
proof -
  have a: \<open>json_loads ''{"a": 1} and {"b": 2}'' = None\<close>
    by code_simp
  have b: \<open>json_loads ''{"a": 1}'' = Some (JObj [(''a'', JInt 1)])\<close>
    by code_simp
  have c: \<open>recover_json json_loads ''{"a": 1} and {"b": 2}'' = Inl JSONDecodeError\<close>
    by code_simp
  show ?thesis
    using a b c by (simp add: canned_llm_def chat_json_def)
qed

section \<open>The validation pipeline\<close>

lemma find_map_same_id:
  assumes "\<And>f. f_id (g f) = f_id f"
  shows "List.find (\<lambda>f. f_id f = fid) (map (\<lambda>f. if f_id f = fid then g f else f) xs)
           = map_option g (List.find (\<lambda>f. f_id f = fid) xs)"
  using assms by (induction xs) auto

lemma FindingDB_get_update:
  assumes "\<And>f. f_id (g f) = f_id f"
  shows "FindingDB_get (FindingDB_update d fid g) fid = map_option g (FindingDB_get d fid)"
  using find_map_same_id[OF assms] by (simp add: FindingDB_get_def FindingDB_update_def)

lemma FindingDB_get_log: "FindingDB_get (WorkerLogDB_log d row) fid = FindingDB_get d fid"
  by (simp add: FindingDB_get_def WorkerLogDB_log_def)

lemma FindingDB_get_id: "FindingDB_get d fid = Some finding \<Longrightarrow> f_id finding = fid"
  unfolding FindingDB_get_def by (metis (mono_tags, lifting) find_Some_iff)

lemma fail_finding_str:
  "fail_finding env d fid steps (JStr reason) =
     (Inr (VFalsePositive fid steps (JStr reason)),
      WorkerLogDB_log
        (FindingDB_update d fid
           (\<lambda>f. f\<lparr>f_status := ''false_positive'', f_verified_by := Some ''poc-validator'',
                   f_verified_at := Some (v_strftime env)\<rparr>))
        \<lparr>wl_hunt_id = None, wl_worker_type = ''validator'', wl_model_used = ''mistral-7b'',
         wl_task_type = ''validate'', wl_output_summary = ''FALSE_POSITIVE: '' @ take 100 reason,
         wl_status = ''success''\<rparr>)"
  by (simp add: fail_finding_def py_slice_def fmt_def Let_def)

lemma fail_finding_marks:
  assumes "FindingDB_get d fid = Some finding"
  shows "FindingDB_get (snd (fail_finding env d fid steps reason)) fid
           = Some (marked_false_positive env finding)"
  using assms
  by (simp add: fail_finding_def Let_def FindingDB_get_log FindingDB_get_update
        marked_false_positive_def split: sum.splits)

lemma fail_finding_rejected:
  assumes "FindingDB_get d fid = Some finding"
      and "out = (case fail_finding env d fid steps (JStr reason) of (r, d') \<Rightarrow> (r, d', calls))"
  shows "rejected env out finding steps reason calls"
proof -
  have id: "f_id finding = fid" using FindingDB_get_id[OF assms(1)] .
  have r: "fst out = Inr (VFalsePositive fid steps (JStr reason))"
    using assms(2) by (simp add: fail_finding_str)
  have d': "fst (snd out) = snd (fail_finding env d fid steps (JStr reason))"
    using assms(2) by (simp add: fail_finding_str)
  have m: "FindingDB_get (fst (snd out)) fid = Some (marked_false_positive env finding)"
    unfolding d' using fail_finding_marks[OF assms(1)] .
  have l: "worker_logs (fst (snd out)) \<noteq> []"
          "wl_output_summary (last (worker_logs (fst (snd out)))) = ''FALSE_POSITIVE: '' @ take 100 reason"
    unfolding d' by (simp_all add: fail_finding_str WorkerLogDB_log_def)
  have c: "snd (snd out) = calls"
    using assms(2) by (simp add: fail_finding_str)
  show ?thesis
    unfolding rejected_def id using r m l c by simp
qed

lemma abort_status_not_pass:
  "status_code \<in> {''404'', ''403'', ''401''} \<Longrightarrow> \<not> endpoint_pass status_code"
  by (auto simp: endpoint_pass_def)


lemma validate_finding_stage1:
  assumes "FindingDB_get d fid = Some finding" and "f_url finding = Some url"
      and "extract_domain env url = Inr domain"
      and "\<not> dns_pass (run_curl env (dns_command domain))"
  shows "validate_finding env d fid hid =
           (case fail_finding env d fid [dns_step (run_curl env (dns_command domain))]
                   (JStr ''Domain does not resolve'') of
              (r, d') \<Rightarrow> (r, d', [Shell (dns_command domain)]))"
  using assms by (simp add: validate_finding_def Let_def)

lemma validate_finding_stage2:
  assumes "FindingDB_get d fid = Some finding" and "f_url finding = Some url"
      and "extract_domain env url = Inr domain"
      and "dns_pass (run_curl env (dns_command domain))"
      and "\<not> http_pass (run_curl env (http_command domain))"
  shows "validate_finding env d fid hid =
           (case fail_finding env d fid
                   [dns_step (run_curl env (dns_command domain)),
                    http_step (run_curl env (http_command domain))]
                   (JStr (''Host unreachable (exit ''
                          @ show_int (returncode (run_curl env (http_command domain))) @ '')'')) of
              (r, d') \<Rightarrow> (r, d', [Shell (dns_command domain), Shell (http_command domain)]))"
  using assms by (simp add: validate_finding_def Let_def)

lemma validate_finding_stage3:
  assumes "FindingDB_get d fid = Some finding" and "f_url finding = Some url"
      and "extract_domain env url = Inr domain"
      and "dns_pass (run_curl env (dns_command domain))"
      and "http_pass (run_curl env (http_command domain))"
      and "strip (stdout (run_curl env (endpoint_command url))) \<in> {''404'', ''403'', ''401''}"
  shows "validate_finding env d fid hid =
           (case fail_finding env d fid
                   [dns_step (run_curl env (dns_command domain)),
                    http_step (run_curl env (http_command domain)),
                    endpoint_step (strip (stdout (run_curl env (endpoint_command url))))
                      (take 3000 (stdout (run_curl env (body_command url))))]
                   (JStr (''Endpoint returns HTTP ''
                          @ strip (stdout (run_curl env (endpoint_command url))))) of
              (r, d') \<Rightarrow> (r, d', [Shell (dns_command domain), Shell (http_command domain),
                                  Shell (endpoint_command url), Shell (body_command url)]))"
proof -
  have np: "\<not> endpoint_pass (strip (stdout (run_curl env (endpoint_command url))))"
    using abort_status_not_pass[OF assms(6)] .
  show ?thesis
    using assms(1-5) np assms(6) by (simp add: validate_finding_def Let_def)
qed

lemma validate_finding_stage4:
  assumes "FindingDB_get d fid = Some finding" and "f_url finding = Some url"
      and "extract_domain env url = Inr domain"
      and "dns_pass (run_curl env (dns_command domain))"
      and "http_pass (run_curl env (http_command domain))"
      and "strip (stdout (run_curl env (endpoint_command url))) \<notin> {''404'', ''403'', ''401''}"
  shows "validate_finding env d fid hid =
           (let status_code = strip (stdout (run_curl env (endpoint_command url)));
                body = take 3000 (stdout (run_curl env (body_command url)));
                messages = proof_prompt finding url status_code body;
                calls = [Shell (dns_command domain), Shell (http_command domain),
                         Shell (endpoint_command url), Shell (body_command url),
                         Chat ''validator'' messages]
            in case chat_json (v_client env) ''validator'' messages of
                 Inl e \<Rightarrow> (Inl e, d, calls)
               | Inr verdict \<Rightarrow>
                   (case vuln_proof env d finding hid
                           [dns_step (run_curl env (dns_command domain)),
                            http_step (run_curl env (http_command domain)),
                            endpoint_step status_code body] verdict of
                      (r, d') \<Rightarrow> (r, d', calls)))"
  using assms by (simp add: validate_finding_def Let_def)



lemma fail_finding_not_confirmed:
  "fst (fail_finding env d fid steps reason) \<noteq> Inr (VConfirmed i steps' verdict)"
  by (simp add: fail_finding_def Let_def split: sum.splits)

lemma fail_finding_case_not_confirmed:
  "(case fail_finding env d fid steps reason of (r, d') \<Rightarrow> (r, d', calls))
     \<noteq> (Inr (VConfirmed i steps' verdict), d'', calls')"
  using fail_finding_not_confirmed[of env d fid steps reason i steps' verdict]
  by (auto split: prod.splits)

lemma confirm_result:
  assumes "confirm env d finding hid steps members = (Inr r, d')"
      and "FindingDB_get d (f_id finding) = Some finding"
  shows "r = VConfirmed (f_id finding) steps (JObj members)
       \<and> (\<exists>severity.
            FindingDB_get d' (f_id finding)
              = Some (finding\<lparr>f_status := ''verified'', f_verified_by := Some ''poc-validator'',
                              f_verified_at := Some (v_strftime env), f_severity := severity\<rparr>)
          \<and> (jget members ''severity_adjustment'' = Some (JStr ''none'')
               \<longrightarrow> severity = f_severity finding)
          \<and> (jget members ''severity_adjustment'' \<noteq> Some (JStr ''none'')
               \<longrightarrow> sql_text_not_null
                     (case jget members ''adjusted_severity'' of
                        None \<Rightarrow> JStr (f_severity finding)
                      | Some v \<Rightarrow> v) = Inr severity))"
proof (cases "jget members ''severity_adjustment'' = Some (JStr ''none'')")
  case True
  then show ?thesis
    using assms
    by (auto simp: confirm_def Let_def FindingDB_get_log FindingDB_get_update)
next
  case False
  then obtain severity where sev: "sql_text_not_null
                     (case jget members ''adjusted_severity'' of
                        None \<Rightarrow> JStr (f_severity finding)
                      | Some v \<Rightarrow> v) = Inr severity"
    using assms(1) by (auto simp: confirm_def Let_def split: sum.splits)
  show ?thesis
    using assms False sev
    by (auto simp: confirm_def Let_def FindingDB_get_log FindingDB_get_update)
qed

lemma vuln_proof_confirmed:
  assumes "vuln_proof env d finding hid steps0 v = (Inr (VConfirmed i steps verdict), d')"
  shows "\<exists>members evidence. v = JObj members
           \<and> jget members ''verdict'' = Some (JStr ''CONFIRMED'')
           \<and> confirm env d finding hid
                (steps0 @ [\<lparr>step_name = ''vuln_proof'', step_result = ''PASS'',
                           step_evidence = evidence\<rparr>]) members
               = (Inr (VConfirmed i steps verdict), d')"
proof (cases v)
  case (JObj members)
  show ?thesis
  proof (cases "case jget members ''evidence'' of None \<Rightarrow> Inr (JStr []) | Some v \<Rightarrow> py_slice 300 v")
    case (Inl e)
    then show ?thesis using assms JObj by (simp add: vuln_proof_def)
  next
    case (Inr evidence)
    show ?thesis
    proof (cases "jget members ''verdict'' = Some (JStr ''CONFIRMED'')")
      case True
      then show ?thesis
        using assms JObj Inr by (auto simp: vuln_proof_def Let_def pass_fail_def)
    next
      case False
      then have "vuln_proof env d finding hid steps0 v =
              fail_finding env d (f_id finding)
                (steps0 @ [\<lparr>step_name = ''vuln_proof'', step_result = ''FAIL'',
                           step_evidence = evidence\<rparr>])
                (case jget members ''reasoning'' of None \<Rightarrow> JStr ''Not confirmed'' | Some v \<Rightarrow> v)"
        using JObj Inr by (simp add: vuln_proof_def Let_def pass_fail_def)
      then show ?thesis
        using assms fail_finding_not_confirmed
        by (metis fst_conv)
    qed
  qed
qed (use assms in \<open>simp_all add: vuln_proof_def\<close>)









lemma demo_found:
  "FindingDB_get demo_db 1 = Some demo_finding"
  "f_url demo_finding = Some ''https://shop.example.com/api/users/2''"
  "extract_domain (demo_env headers code raw) ''https://shop.example.com/api/users/2''
     = Inr ''shop.example.com''"
  by (simp_all add: FindingDB_get_def demo_db_def demo_finding_def extract_domain_def demo_env_def)

lemma demo_dns:
  "run_curl (demo_env headers code raw) (dns_command ''shop.example.com'')
     = \<lparr>stdout = ''Name: shop.example.com Address: 93.184.216.34'', stderr = [], returncode = 0\<rparr>"
  by (simp add: run_curl_def demo_env_def demo_shell_def)

lemma dns_pass_demo:
  "dns_pass \<lparr>stdout = ''Name: shop.example.com Address: 93.184.216.34'', stderr = [],
             returncode = 0\<rparr>"
  by (simp add: dns_pass_def)

lemma demo_dns_pass:
  "dns_pass (run_curl (demo_env headers code raw) (dns_command ''shop.example.com''))"
  unfolding demo_dns by (rule dns_pass_demo)

lemma demo_http:
  "length headers \<le> 10000 \<Longrightarrow>
   run_curl (demo_env headers code raw) (http_command ''shop.example.com'')
     = \<lparr>stdout = headers, stderr = [], returncode = 0\<rparr>"
  by (simp add: run_curl_def demo_env_def demo_shell_def dns_command_def http_command_def)

lemma demo_endpoint:
  "length code \<le> 10000 \<Longrightarrow>
   run_curl (demo_env headers code raw) (endpoint_command ''https://shop.example.com/api/users/2'')
     = \<lparr>stdout = code, stderr = [], returncode = 0\<rparr>"
  by (simp add: run_curl_def demo_env_def demo_shell_def dns_command_def http_command_def
        endpoint_command_def)

lemma demo_body:
  "run_curl (demo_env headers code raw) (body_command ''https://shop.example.com/api/users/2'')
     = \<lparr>stdout = ''Internal Server Error'', stderr = [], returncode = 0\<rparr>"
  by (simp add: run_curl_def demo_env_def demo_shell_def dns_command_def http_command_def
        endpoint_command_def body_command_def)

lemma canned_chat_json:
  "json_loads raw = Some v \<Longrightarrow> chat_json (canned_llm raw) model_key messages = Inr v"
  by (simp add: chat_json_def canned_llm_def)

lemma demo_client: "v_client (demo_env headers code raw) = canned_llm raw"
  by (simp add: demo_env_def)

lemma demo_strftime: "v_strftime (demo_env headers code raw) = ''2024-01-01T00:00:00Z''"
  by (simp add: demo_env_def)

lemma http_pass_200: "http_pass \<lparr>stdout = ''HTTP/2 200'', stderr = [], returncode = 0\<rparr>"
  by (simp add: http_pass_def strip_def is_space_def)

lemma http_pass_waf:
  "http_pass \<lparr>stdout = ''HTTP/2 403 server: cloudflare'', stderr = [], returncode = 0\<rparr>"
  by (simp add: http_pass_def strip_def is_space_def)

lemma check_waf_cloudflare: "check_waf ''HTTP/2 403 server: cloudflare''"
  by (simp add: check_waf_def waf_indicators_def lower_def lower_char_def)

lemma strip_codes:
  "strip ''500'' = ''500''" "strip ''404'' = ''404''" "strip ''403'' = ''403''"
  "strip ''200'' = ''200''"
  by (simp_all add: strip_def is_space_def)

lemma verdict_confirmed:
  \<open>json_loads ''{"verdict": "CONFIRMED", "evidence": "stack trace", "adjusted_severity": "critical"}''
     = Some (JObj [(''verdict'', JStr ''CONFIRMED''), (''evidence'', JStr ''stack trace''),
                   (''adjusted_severity'', JStr ''critical'')])\<close>
  by code_simp


lemma demo_confirm:
  "confirm (demo_env headers code raw) demo_db demo_finding 1 steps
       [(''verdict'', JStr ''CONFIRMED''), (''evidence'', JStr ''stack trace''),
        (''adjusted_severity'', JStr ''critical'')]
      = (Inr (VConfirmed 1 steps
                (JObj [(''verdict'', JStr ''CONFIRMED''), (''evidence'', JStr ''stack trace''),
                       (''adjusted_severity'', JStr ''critical'')])),
         WorkerLogDB_log
           (FindingDB_update
              (FindingDB_update demo_db 1
                 (\<lambda>f. f\<lparr>f_status := ''verified'', f_verified_by := Some ''poc-validator'',
                         f_verified_at := Some ''2024-01-01T00:00:00Z''\<rparr>))
              1 (\<lambda>f. f\<lparr>f_severity := ''critical''\<rparr>))
           \<lparr>wl_hunt_id = Some 1, wl_worker_type = ''validator'', wl_model_used = ''mistral-7b'',
            wl_task_type = ''validate'', wl_output_summary = ''CONFIRMED: IDOR in /api/users'',
            wl_status = ''success''\<rparr>)"
  by (simp add: confirm_def jget_def sql_text_not_null_def sql_text_def Let_def demo_strftime
        demo_finding_def)

lemma demo_confirmed_run:
  assumes "length headers \<le> 10000" and "length code \<le> 10000" and "strip code = code"
      and "code \<notin> {''404'', ''403'', ''401''}"
      and "http_pass \<lparr>stdout = headers, stderr = [], returncode = 0\<rparr>"
      and "json_loads raw = Some (JObj [(''verdict'', JStr ''CONFIRMED''),
             (''evidence'', JStr ''stack trace''), (''adjusted_severity'', JStr ''critical'')])"
  shows "validate_finding (demo_env headers code raw) demo_db 1 1
      = (Inr (VConfirmed 1
                [dns_step \<lparr>stdout = ''Name: shop.example.com Address: 93.184.216.34'',
                           stderr = [], returncode = 0\<rparr>,
                 http_step \<lparr>stdout = headers, stderr = [], returncode = 0\<rparr>,
                 endpoint_step code ''Internal Server Error'',
                 \<lparr>step_name = ''vuln_proof'', step_result = ''PASS'',
                  step_evidence = JStr ''stack trace''\<rparr>]
                (JObj [(''verdict'', JStr ''CONFIRMED''), (''evidence'', JStr ''stack trace''),
                       (''adjusted_severity'', JStr ''critical'')])),
         WorkerLogDB_log
           (FindingDB_update
              (FindingDB_update demo_db 1
                 (\<lambda>f. f\<lparr>f_status := ''verified'', f_verified_by := Some ''poc-validator'',
                         f_verified_at := Some ''2024-01-01T00:00:00Z''\<rparr>))
              1 (\<lambda>f. f\<lparr>f_severity := ''critical''\<rparr>))
           \<lparr>wl_hunt_id = Some 1, wl_worker_type = ''validator'', wl_model_used = ''mistral-7b'',
            wl_task_type = ''validate'', wl_output_summary = ''CONFIRMED: IDOR in /api/users'',
            wl_status = ''success''\<rparr>,
         [Shell (dns_command ''shop.example.com''), Shell (http_command ''shop.example.com''),
          Shell (endpoint_command ''https://shop.example.com/api/users/2''),
          Shell (body_command ''https://shop.example.com/api/users/2''),
          Chat ''validator''
            (proof_prompt demo_finding ''https://shop.example.com/api/users/2'' code
               ''Internal Server Error'')])"
proof -
  let ?members = "[(''verdict'', JStr ''CONFIRMED''), (''evidence'', JStr ''stack trace''),
                   (''adjusted_severity'', JStr ''critical'')]"
  have vp: "vuln_proof (demo_env headers code raw) demo_db demo_finding 1 steps (JObj ?members)
              = confirm (demo_env headers code raw) demo_db demo_finding 1
                  (steps @ [\<lparr>step_name = ''vuln_proof'', step_result = ''PASS'',
                             step_evidence = JStr ''stack trace''\<rparr>]) ?members" for steps
    by (simp add: vuln_proof_def jget_def py_slice_def pass_fail_def Let_def)
  show ?thesis
    using validate_finding_stage4[OF demo_found(1) demo_found(2)
            demo_found(3)[of headers code raw], of 1] assms(1-5)
    by (simp add: Let_def demo_dns dns_pass_demo demo_http demo_endpoint demo_body demo_client
          canned_chat_json[OF assms(6)] vp demo_confirm)
qed






lemma rejected_parts:
  assumes "rejected env out finding steps reason calls"
  shows "fst out = Inr (VFalsePositive (f_id finding) steps (JStr reason))"
    and "FindingDB_get (fst (snd out)) (f_id finding) = Some (marked_false_positive env finding)"
    and "snd (snd out) = calls"
  using assms by (simp_all add: rejected_def)

text \<open>
  C8, as the code has it. When the finding's URL answers 403, the finding ends
  \<^verbatim>\<open>false_positive\<close> and the judgment is never asked, whatever the first two steps
  see. The reason is that of the first step that aborts: \<^verbatim>\<open>Domain does not resolve\<close>
  when the lookup fails, \<^verbatim>\<open>Host unreachable (exit n)\<close> when the request to the host
  fails, and \<^verbatim>\<open>Endpoint returns HTTP 403\<close> when the name resolves and the host
  answers; in this last case the three steps are recorded, of which the endpoint step is
  \<^verbatim>\<open>FAIL\<close>. A firewall banner in the headers makes the http step \<^verbatim>\<open>FAIL\<close> and
  appears in no reason.
\<close>

theorem validate_finding_blocked_403:
  assumes found: "FindingDB_get d fid = Some finding"
      and url: "f_url finding = Some url"
      and dom: "extract_domain env url = Inr domain"
      and blocked: "strip (stdout (run_curl env (endpoint_command url))) = ''403''"
  shows "let dns_result = run_curl env (dns_command domain);
             http_result = run_curl env (http_command domain);
             body = take 3000 (stdout (run_curl env (body_command url)));
             out = validate_finding env d fid hid
         in (\<exists>steps reason.
               fst out = Inr (VFalsePositive fid steps (JStr reason))
               \<and> reason \<in> {''Domain does not resolve'',
                            ''Host unreachable (exit '' @ show_int (returncode http_result) @ '')'',
                            ''Endpoint returns HTTP 403''})
          \<and> FindingDB_get (fst (snd out)) fid = Some (marked_false_positive env finding)
          \<and> (\<forall>model_key messages. Chat model_key messages \<notin> set (snd (snd out)))
          \<and> (\<not> dns_pass dns_result \<longrightarrow>
               rejected env out finding [dns_step dns_result] ''Domain does not resolve''
                 [Shell (dns_command domain)])
          \<and> (dns_pass dns_result \<and> \<not> http_pass http_result \<longrightarrow>
               rejected env out finding [dns_step dns_result, http_step http_result]
                 (''Host unreachable (exit '' @ show_int (returncode http_result) @ '')'')
                 [Shell (dns_command domain), Shell (http_command domain)])
          \<and> (dns_pass dns_result \<and> http_pass http_result \<longrightarrow>
               rejected env out finding
                 [dns_step dns_result, http_step http_result, endpoint_step ''403'' body]
                 ''Endpoint returns HTTP 403''
                 [Shell (dns_command domain), Shell (http_command domain),
                  Shell (endpoint_command url), Shell (body_command url)])
          \<and> (check_waf (stdout http_result) \<longrightarrow> step_result (http_step http_result) = ''FAIL'')
          \<and> step_result (endpoint_step ''403'' body) = ''FAIL''"
proof -
  define dns_result where "dns_result = run_curl env (dns_command domain)"
  define http_result where "http_result = run_curl env (http_command domain)"
  define body where "body = take 3000 (stdout (run_curl env (body_command url)))"
  define out where "out = validate_finding env d fid hid"
  have id: "f_id finding = fid" using FindingDB_get_id[OF found] .
  have ff: "let dns_result = run_curl env (dns_command domain);
             http_result = run_curl env (http_command domain);
             status_code = strip (stdout (run_curl env (endpoint_command url)));
             body = take 3000 (stdout (run_curl env (body_command url)));
             out = validate_finding env d fid hid
         in (\<not> dns_pass dns_result \<longrightarrow>
               rejected env out finding [dns_step dns_result] ''Domain does not resolve''
                 [Shell (dns_command domain)])
          \<and> (dns_pass dns_result \<and> \<not> http_pass http_result \<longrightarrow>
               rejected env out finding [dns_step dns_result, http_step http_result]
                 (''Host unreachable (exit '' @ show_int (returncode http_result) @ '')'')
                 [Shell (dns_command domain), Shell (http_command domain)])
          \<and> (dns_pass dns_result \<and> http_pass http_result
               \<and> status_code \<in> {''404'', ''403'', ''401''} \<longrightarrow>
               rejected env out finding
                 [dns_step dns_result, http_step http_result, endpoint_step status_code body]
                 (''Endpoint returns HTTP '' @ status_code)
                 [Shell (dns_command domain), Shell (http_command domain),
                  Shell (endpoint_command url), Shell (body_command url)])"
  proof -
    have s1: "rejected env (validate_finding env d fid hid) finding
                [dns_step (run_curl env (dns_command domain))] ''Domain does not resolve''
                [Shell (dns_command domain)]"
      if "\<not> dns_pass (run_curl env (dns_command domain))"
      using fail_finding_rejected[OF found validate_finding_stage1[OF found url dom that]] .
    have s2: "rejected env (validate_finding env d fid hid) finding
                [dns_step (run_curl env (dns_command domain)),
                 http_step (run_curl env (http_command domain))]
                (''Host unreachable (exit ''
                   @ show_int (returncode (run_curl env (http_command domain))) @ '')'')
                [Shell (dns_command domain), Shell (http_command domain)]"
      if "dns_pass (run_curl env (dns_command domain))"
         "\<not> http_pass (run_curl env (http_command domain))"
      using fail_finding_rejected[OF found validate_finding_stage2[OF found url dom that]] .
    have s3: "rejected env (validate_finding env d fid hid) finding
                [dns_step (run_curl env (dns_command domain)),
                 http_step (run_curl env (http_command domain)),
                 endpoint_step (strip (stdout (run_curl env (endpoint_command url))))
                   (take 3000 (stdout (run_curl env (body_command url))))]
                (''Endpoint returns HTTP '' @ strip (stdout (run_curl env (endpoint_command url))))
                [Shell (dns_command domain), Shell (http_command domain),
                 Shell (endpoint_command url), Shell (body_command url)]"
      if "dns_pass (run_curl env (dns_command domain))"
         "http_pass (run_curl env (http_command domain))"
         "strip (stdout (run_curl env (endpoint_command url))) \<in> {''404'', ''403'', ''401''}"
      using fail_finding_rejected[OF found validate_finding_stage3[OF found url dom that]] .
    show ?thesis
      unfolding Let_def using s1 s2 s3 by blast
  qed
  have c1: "rejected env out finding [dns_step dns_result] ''Domain does not resolve''
              [Shell (dns_command domain)]" if "\<not> dns_pass dns_result"
    using ff that by (simp add: Let_def dns_result_def out_def)
  have c2: "rejected env out finding [dns_step dns_result, http_step http_result]
              (''Host unreachable (exit '' @ show_int (returncode http_result) @ '')'')
              [Shell (dns_command domain), Shell (http_command domain)]"
    if "dns_pass dns_result" "\<not> http_pass http_result"
    using ff that by (simp add: Let_def dns_result_def http_result_def out_def)
  have c3: "rejected env out finding
              [dns_step dns_result, http_step http_result, endpoint_step ''403'' body]
              ''Endpoint returns HTTP 403''
              [Shell (dns_command domain), Shell (http_command domain),
               Shell (endpoint_command url), Shell (body_command url)]"
    if "dns_pass dns_result" "http_pass http_result"
    using ff that blocked by (simp add: Let_def dns_result_def http_result_def out_def body_def)
  consider (a) "\<not> dns_pass dns_result"
    | (b) "dns_pass dns_result" "\<not> http_pass http_result"
    | (c) "dns_pass dns_result" "http_pass http_result" by blast
  then have all: "(\<exists>steps reason.
               fst out = Inr (VFalsePositive fid steps (JStr reason))
               \<and> reason \<in> {''Domain does not resolve'',
                            ''Host unreachable (exit '' @ show_int (returncode http_result) @ '')'',
                            ''Endpoint returns HTTP 403''})
          \<and> FindingDB_get (fst (snd out)) fid = Some (marked_false_positive env finding)
          \<and> (\<forall>model_key messages. Chat model_key messages \<notin> set (snd (snd out)))"
  proof cases
    case a
    show ?thesis using rejected_parts[OF c1[OF a]] id by auto
  next
    case b
    show ?thesis using rejected_parts[OF c2[OF b]] id by auto
  next
    case c
    show ?thesis using rejected_parts[OF c3[OF c]] id by auto
  qed
  have w: "check_waf (stdout http_result) \<longrightarrow> step_result (http_step http_result) = ''FAIL''"
    by (simp add: http_step_def pass_fail_def)
  have e: "step_result (endpoint_step ''403'' body) = ''FAIL''"
    by (simp add: endpoint_step_def endpoint_pass_def pass_fail_def)
  show ?thesis
    unfolding Let_def dns_result_def[symmetric] http_result_def[symmetric] body_def[symmetric]
      out_def[symmetric]
    using all c1 c2 c3 w e by blast
qed

theorem validate_finding_blocked_403_witness:
  "FindingDB_get demo_db 1 = Some demo_finding
   \<and> f_url demo_finding = Some ''https://shop.example.com/api/users/2''
   \<and> extract_domain (demo_env ''HTTP/2 403 server: cloudflare'' ''403'' [])
         ''https://shop.example.com/api/users/2'' = Inr ''shop.example.com''
   \<and> strip (stdout (run_curl (demo_env ''HTTP/2 403 server: cloudflare'' ''403'' [])
                       (endpoint_command ''https://shop.example.com/api/users/2''))) = ''403''
   \<and> check_waf ''HTTP/2 403 server: cloudflare''
   \<and> rejected (demo_env ''HTTP/2 403 server: cloudflare'' ''403'' [])
         (validate_finding (demo_env ''HTTP/2 403 server: cloudflare'' ''403'' []) demo_db 1 1)
         demo_finding
         [dns_step \<lparr>stdout = ''Name: shop.example.com Address: 93.184.216.34'', stderr = [],
                    returncode = 0\<rparr>,
          http_step \<lparr>stdout = ''HTTP/2 403 server: cloudflare'', stderr = [], returncode = 0\<rparr>,
          endpoint_step ''403'' ''Internal Server Error'']
         ''Endpoint returns HTTP 403''
         [Shell (dns_command ''shop.example.com''), Shell (http_command ''shop.example.com''),
          Shell (endpoint_command ''https://shop.example.com/api/users/2''),
          Shell (body_command ''https://shop.example.com/api/users/2'')]
   \<and> step_result (http_step \<lparr>stdout = ''HTTP/2 403 server: cloudflare'', stderr = [],
                              returncode = 0\<rparr>) = ''FAIL''"
proof -
  let ?env = "demo_env ''HTTP/2 403 server: cloudflare'' ''403'' []"
  have http: "run_curl ?env (http_command ''shop.example.com'')
                = \<lparr>stdout = ''HTTP/2 403 server: cloudflare'', stderr = [], returncode = 0\<rparr>"
    by (rule demo_http) simp
  have ep: "run_curl ?env (endpoint_command ''https://shop.example.com/api/users/2'')
                = \<lparr>stdout = ''403'', stderr = [], returncode = 0\<rparr>"
    by (rule demo_endpoint) simp
  have blocked: "strip (stdout (run_curl ?env
                   (endpoint_command ''https://shop.example.com/api/users/2''))) = ''403''"
    by (simp add: ep strip_codes)
  show ?thesis
    using validate_finding_blocked_403[OF demo_found(1) demo_found(2)
            demo_found(3)[of "''HTTP/2 403 server: cloudflare''" "''403''" "[]"] blocked,
            where hid = 1]
          demo_found(1,2) demo_found(3)[of "''HTTP/2 403 server: cloudflare''" "''403''" "[]"]
          blocked check_waf_cloudflare
    by (simp add: Let_def demo_dns dns_pass_demo http demo_body http_pass_waf)
qed

lemma flaky_found:
  "extract_domain (flaky_env lookup exit_code headers code)
     ''https://shop.example.com/api/users/2'' = Inr ''shop.example.com''"
  by (simp add: extract_domain_def flaky_env_def demo_env_def)

lemma flaky_runs:
  "length lookup \<le> 10000 \<Longrightarrow>
   run_curl (flaky_env lookup exit_code headers code) (dns_command ''shop.example.com'')
     = \<lparr>stdout = lookup, stderr = [], returncode = 0\<rparr>"
  "length headers \<le> 10000 \<Longrightarrow>
   run_curl (flaky_env lookup exit_code headers code) (http_command ''shop.example.com'')
     = \<lparr>stdout = headers, stderr = [], returncode = exit_code\<rparr>"
  "length code \<le> 10000 \<Longrightarrow>
   run_curl (flaky_env lookup exit_code headers code)
       (endpoint_command ''https://shop.example.com/api/users/2'')
     = \<lparr>stdout = code, stderr = [], returncode = 0\<rparr>"
  by (simp_all add: run_curl_def flaky_env_def flaky_shell_def demo_env_def demo_shell_def
        dns_command_def http_command_def endpoint_command_def)

text \<open>
  C8, as the claim states it, fails when an earlier step aborts. In both runs the finding's
  URL answers 403 and the host's headers carry a firewall banner. In the first the lookup
  prints \<^verbatim>\<open>NXDOMAIN\<close>: the reason is \<^verbatim>\<open>Domain does not resolve\<close> and only the lookup
  has run. In the second the request to the host prints the headers and exits with 18: the
  reason is \<^verbatim>\<open>Host unreachable (exit 18)\<close> and the finding's URL is never requested.
\<close>

theorem validate_finding_blocked_403_other_reason:
  "strip (stdout (run_curl
       (flaky_env ''** server cannot find shop.example.com: NXDOMAIN'' 0
          ''HTTP/2 403 server: cloudflare'' ''403'')
       (endpoint_command ''https://shop.example.com/api/users/2''))) = ''403''
   \<and> check_waf (stdout (run_curl
         (flaky_env ''** server cannot find shop.example.com: NXDOMAIN'' 0
            ''HTTP/2 403 server: cloudflare'' ''403'')
         (http_command ''shop.example.com'')))
   \<and> fst (validate_finding
          (flaky_env ''** server cannot find shop.example.com: NXDOMAIN'' 0
             ''HTTP/2 403 server: cloudflare'' ''403'')
          demo_db 1 1)
       = Inr (VFalsePositive 1
           [dns_step \<lparr>stdout = ''** server cannot find shop.example.com: NXDOMAIN'',
                      stderr = [], returncode = 0\<rparr>]
           (JStr ''Domain does not resolve''))
   \<and> snd (snd (validate_finding
          (flaky_env ''** server cannot find shop.example.com: NXDOMAIN'' 0
             ''HTTP/2 403 server: cloudflare'' ''403'')
          demo_db 1 1))
       = [Shell (dns_command ''shop.example.com'')]
   \<and> strip (stdout (run_curl
         (flaky_env ''Name: shop.example.com Address: 93.184.216.34'' 18
            ''HTTP/2 403 server: cloudflare'' ''403'')
         (endpoint_command ''https://shop.example.com/api/users/2''))) = ''403''
   \<and> check_waf (stdout (run_curl
         (flaky_env ''Name: shop.example.com Address: 93.184.216.34'' 18
            ''HTTP/2 403 server: cloudflare'' ''403'')
         (http_command ''shop.example.com'')))
   \<and> fst (validate_finding
          (flaky_env ''Name: shop.example.com Address: 93.184.216.34'' 18
             ''HTTP/2 403 server: cloudflare'' ''403'')
          demo_db 1 1)
       = Inr (VFalsePositive 1
           [dns_step \<lparr>stdout = ''Name: shop.example.com Address: 93.184.216.34'',
                      stderr = [], returncode = 0\<rparr>,
            http_step \<lparr>stdout = ''HTTP/2 403 server: cloudflare'', stderr = [],
                       returncode = 18\<rparr>]
           (JStr ''Host unreachable (exit 18)''))
   \<and> snd (snd (validate_finding
          (flaky_env ''Name: shop.example.com Address: 93.184.216.34'' 18
             ''HTTP/2 403 server: cloudflare'' ''403'')
          demo_db 1 1))
       = [Shell (dns_command ''shop.example.com''), Shell (http_command ''shop.example.com'')]"
proof -
  let ?nx = "''** server cannot find shop.example.com: NXDOMAIN''"
  let ?e1 = "flaky_env ?nx 0 ''HTTP/2 403 server: cloudflare'' ''403''"
  let ?e2 = "flaky_env ''Name: shop.example.com Address: 93.184.216.34'' 18
               ''HTTP/2 403 server: cloudflare'' ''403''"
  have d1: "run_curl ?e1 (dns_command ''shop.example.com'')
              = \<lparr>stdout = ?nx, stderr = [], returncode = 0\<rparr>"
    by (rule flaky_runs(1)) simp
  have h1: "run_curl ?e1 (http_command ''shop.example.com'')
              = \<lparr>stdout = ''HTTP/2 403 server: cloudflare'', stderr = [], returncode = 0\<rparr>"
    by (rule flaky_runs(2)) simp
  have p1: "run_curl ?e1 (endpoint_command ''https://shop.example.com/api/users/2'')
              = \<lparr>stdout = ''403'', stderr = [], returncode = 0\<rparr>"
    by (rule flaky_runs(3)) simp
  have d2: "run_curl ?e2 (dns_command ''shop.example.com'')
              = \<lparr>stdout = ''Name: shop.example.com Address: 93.184.216.34'', stderr = [],
                 returncode = 0\<rparr>"
    by (rule flaky_runs(1)) simp
  have h2: "run_curl ?e2 (http_command ''shop.example.com'')
              = \<lparr>stdout = ''HTTP/2 403 server: cloudflare'', stderr = [], returncode = 18\<rparr>"
    by (rule flaky_runs(2)) simp
  have p2: "run_curl ?e2 (endpoint_command ''https://shop.example.com/api/users/2'')
              = \<lparr>stdout = ''403'', stderr = [], returncode = 0\<rparr>"
    by (rule flaky_runs(3)) simp
  have n1: "\<not> dns_pass (run_curl ?e1 (dns_command ''shop.example.com''))"
    unfolding d1 by (simp add: dns_pass_def)
  have n2: "dns_pass (run_curl ?e2 (dns_command ''shop.example.com''))"
      "\<not> http_pass (run_curl ?e2 (http_command ''shop.example.com''))"
    unfolding d2 h2 by (simp_all add: dns_pass_demo http_pass_def)
  have s18: "show_int 18 = ''18''"
    by (simp add: show_int_def show_nat.simps digit_char_def)
  note r1 = validate_finding_stage1[OF demo_found(1) demo_found(2)
              flaky_found[of ?nx 0 "''HTTP/2 403 server: cloudflare''" "''403''"] n1, where hid = 1]
  note r2 = validate_finding_stage2[OF demo_found(1) demo_found(2)
              flaky_found[of "''Name: shop.example.com Address: 93.184.216.34''" 18
                "''HTTP/2 403 server: cloudflare''" "''403''"] n2, where hid = 1]
  show ?thesis
    unfolding r1 r2
    by (simp add: fail_finding_str d1 h1 p1 d2 h2 p2 strip_codes check_waf_cloudflare s18)
qed

text \<open>
  C10. When \<^verbatim>\<open>validate_finding\<close> confirms a finding, the verdict is a dictionary whose
  \<^verbatim>\<open>verdict\<close> is \<^verbatim>\<open>CONFIRMED\<close> and the row ends \<^verbatim>\<open>verified\<close>. Its severity is
  left alone exactly when \<^verbatim>\<open>severity_adjustment\<close> is the string \<^verbatim>\<open>none\<close>; otherwise,
  also when the key is absent, it is overwritten with \<^verbatim>\<open>adjusted_severity\<close> as SQLite
  stores it, and with the old severity when that key is absent too.
\<close>

theorem validate_finding_severity:
  assumes "validate_finding env d fid hid = (Inr (VConfirmed i steps verdict), d', calls)"
  shows "\<exists>finding members severity.
           FindingDB_get d fid = Some finding \<and> i = fid \<and> verdict = JObj members
         \<and> jget members ''verdict'' = Some (JStr ''CONFIRMED'')
         \<and> FindingDB_get d' fid
             = Some (finding\<lparr>f_status := ''verified'', f_verified_by := Some ''poc-validator'',
                             f_verified_at := Some (v_strftime env), f_severity := severity\<rparr>)
         \<and> (jget members ''severity_adjustment'' = Some (JStr ''none'')
              \<longrightarrow> severity = f_severity finding)
         \<and> (jget members ''severity_adjustment'' \<noteq> Some (JStr ''none'')
              \<longrightarrow> sql_text_not_null
                    (case jget members ''adjusted_severity'' of
                       None \<Rightarrow> JStr (f_severity finding)
                     | Some v \<Rightarrow> v) = Inr severity)
         \<and> (jget members ''severity_adjustment'' \<noteq> Some (JStr ''none'')
              \<and> jget members ''adjusted_severity'' = None
              \<longrightarrow> severity = f_severity finding)
         \<and> (\<forall>s. jget members ''severity_adjustment'' \<noteq> Some (JStr ''none'')
                \<and> jget members ''adjusted_severity'' = Some (JStr s)
              \<longrightarrow> severity = s)"
proof -
  obtain finding where found: "FindingDB_get d fid = Some finding"
    using assms by (cases "FindingDB_get d fid") (auto simp: validate_finding_def)
  obtain url where url: "f_url finding = Some url"
    using assms found by (cases "f_url finding") (auto simp: validate_finding_def)
  obtain domain where dom: "extract_domain env url = Inr domain"
    using assms found url by (cases "extract_domain env url") (auto simp: validate_finding_def)
  have id: "f_id finding = fid" using FindingDB_get_id[OF found] .
  have p1: "dns_pass (run_curl env (dns_command domain))"
  proof (rule ccontr)
    assume n: "\<not> dns_pass (run_curl env (dns_command domain))"
    show False
      using assms validate_finding_stage1[OF found url dom n, of hid]
            fail_finding_case_not_confirmed by metis
  qed
  have p2: "http_pass (run_curl env (http_command domain))"
  proof (rule ccontr)
    assume n: "\<not> http_pass (run_curl env (http_command domain))"
    show False
      using assms validate_finding_stage2[OF found url dom p1 n, of hid]
            fail_finding_case_not_confirmed by metis
  qed
  have p3: "strip (stdout (run_curl env (endpoint_command url))) \<notin> {''404'', ''403'', ''401''}"
  proof
    assume n: "strip (stdout (run_curl env (endpoint_command url))) \<in> {''404'', ''403'', ''401''}"
    show False
      using assms validate_finding_stage3[OF found url dom p1 p2 n, of hid]
            fail_finding_case_not_confirmed by metis
  qed
  define status_code where "status_code = strip (stdout (run_curl env (endpoint_command url)))"
  define body where "body = take 3000 (stdout (run_curl env (body_command url)))"
  define steps0 where "steps0 = [dns_step (run_curl env (dns_command domain)),
                            http_step (run_curl env (http_command domain)),
                            endpoint_step status_code body]"
  obtain v where v: "vuln_proof env d finding hid steps0 v = (Inr (VConfirmed i steps verdict), d')"
    using assms validate_finding_stage4[OF found url dom p1 p2 p3, of hid]
    by (auto simp: Let_def status_code_def body_def steps0_def split: sum.splits prod.splits)
  obtain members evidence where m: "v = JObj members"
      "jget members ''verdict'' = Some (JStr ''CONFIRMED'')"
      "confirm env d finding hid
         (steps0 @ [\<lparr>step_name = ''vuln_proof'', step_result = ''PASS'', step_evidence = evidence\<rparr>])
         members = (Inr (VConfirmed i steps verdict), d')"
    using vuln_proof_confirmed[OF v] by blast
  have found': "FindingDB_get d (f_id finding) = Some finding" using found id by simp
  obtain severity where sev:
      "VConfirmed i steps verdict = VConfirmed (f_id finding)
         (steps0 @ [\<lparr>step_name = ''vuln_proof'', step_result = ''PASS'', step_evidence = evidence\<rparr>])
         (JObj members)"
      "FindingDB_get d' (f_id finding)
         = Some (finding\<lparr>f_status := ''verified'', f_verified_by := Some ''poc-validator'',
                         f_verified_at := Some (v_strftime env), f_severity := severity\<rparr>)"
      "jget members ''severity_adjustment'' = Some (JStr ''none'') \<longrightarrow> severity = f_severity finding"
      "jget members ''severity_adjustment'' \<noteq> Some (JStr ''none'')
         \<longrightarrow> sql_text_not_null
               (case jget members ''adjusted_severity'' of
                  None \<Rightarrow> JStr (f_severity finding)
                | Some v \<Rightarrow> v) = Inr severity"
    using confirm_result[OF m(3) found'] by blast
  have a: "jget members ''severity_adjustment'' \<noteq> Some (JStr ''none'')
              \<and> jget members ''adjusted_severity'' = None
              \<longrightarrow> severity = f_severity finding"
    using sev(4) by (auto simp: sql_text_not_null_def sql_text_def)
  have b: "\<forall>s. jget members ''severity_adjustment'' \<noteq> Some (JStr ''none'')
                \<and> jget members ''adjusted_severity'' = Some (JStr s)
              \<longrightarrow> severity = s"
    using sev(4) by (auto simp: sql_text_not_null_def sql_text_def)
  show ?thesis
    using found sev a b m(2) id by auto
qed


theorem validate_finding_severity_witness:
  \<open>validate_finding
      (demo_env ''HTTP/2 200'' ''200''
         ''{"verdict": "CONFIRMED", "evidence": "stack trace", "adjusted_severity": "critical"}'')
      demo_db 1 1
     = (Inr (VConfirmed 1
                [dns_step \<lparr>stdout = ''Name: shop.example.com Address: 93.184.216.34'',
                           stderr = [], returncode = 0\<rparr>,
                 http_step \<lparr>stdout = ''HTTP/2 200'', stderr = [], returncode = 0\<rparr>,
                 endpoint_step ''200'' ''Internal Server Error'',
                 \<lparr>step_name = ''vuln_proof'', step_result = ''PASS'',
                  step_evidence = JStr ''stack trace''\<rparr>]
                (JObj [(''verdict'', JStr ''CONFIRMED''), (''evidence'', JStr ''stack trace''),
                       (''adjusted_severity'', JStr ''critical'')])),
         WorkerLogDB_log
           (FindingDB_update
              (FindingDB_update demo_db 1
                 (\<lambda>f. f\<lparr>f_status := ''verified'', f_verified_by := Some ''poc-validator'',
                         f_verified_at := Some ''2024-01-01T00:00:00Z''\<rparr>))
              1 (\<lambda>f. f\<lparr>f_severity := ''critical''\<rparr>))
           \<lparr>wl_hunt_id = Some 1, wl_worker_type = ''validator'', wl_model_used = ''mistral-7b'',
            wl_task_type = ''validate'', wl_output_summary = ''CONFIRMED: IDOR in /api/users'',
            wl_status = ''success''\<rparr>,
         [Shell (dns_command ''shop.example.com''), Shell (http_command ''shop.example.com''),
          Shell (endpoint_command ''https://shop.example.com/api/users/2''),
          Shell (body_command ''https://shop.example.com/api/users/2''),
          Chat ''validator''
            (proof_prompt demo_finding ''https://shop.example.com/api/users/2'' ''200''
               ''Internal Server Error'')])
   \<and> jget [(''verdict'', JStr ''CONFIRMED''), (''evidence'', JStr ''stack trace''),
            (''adjusted_severity'', JStr ''critical'')] ''severity_adjustment'' = None
   \<and> f_severity demo_finding = ''medium''
   \<and> map_option f_severity
        (FindingDB_get
           (fst (snd (validate_finding
              (demo_env ''HTTP/2 200'' ''200''
                 ''{"verdict": "CONFIRMED", "evidence": "stack trace", "adjusted_severity": "critical"}'')
              demo_db 1 1))) 1)
       = Some ''critical''\<close>
proof -
  let ?raw = \<open>''{"verdict": "CONFIRMED", "evidence": "stack trace", "adjusted_severity": "critical"}''\<close>
  have r200: "length ''HTTP/2 200'' \<le> 10000" "length ''200'' \<le> 10000"
      "strip ''200'' = ''200''" "''200'' \<notin> {''404'', ''403'', ''401''}"
    by (simp_all add: strip_codes)
  note run = demo_confirmed_run[OF r200 http_pass_200 verdict_confirmed]
  obtain finding members severity where w:
      "FindingDB_get demo_db 1 = Some finding"
      "JObj [(''verdict'', JStr ''CONFIRMED''), (''evidence'', JStr ''stack trace''),
             (''adjusted_severity'', JStr ''critical'')] = JObj members"
      "FindingDB_get (fst (snd (validate_finding (demo_env ''HTTP/2 200'' ''200'' ?raw) demo_db 1 1))) 1
         = Some (finding\<lparr>f_status := ''verified'', f_verified_by := Some ''poc-validator'',
                         f_verified_at := Some (v_strftime (demo_env ''HTTP/2 200'' ''200'' ?raw)),
                         f_severity := severity\<rparr>)"
      "\<forall>s. jget members ''severity_adjustment'' \<noteq> Some (JStr ''none'')
                \<and> jget members ''adjusted_severity'' = Some (JStr s)
              \<longrightarrow> severity = s"
    using validate_finding_severity[OF run] unfolding run by auto
  have m: "members = [(''verdict'', JStr ''CONFIRMED''), (''evidence'', JStr ''stack trace''),
             (''adjusted_severity'', JStr ''critical'')]"
    using w(2) by simp
  have "severity = ''critical''"
    using w(4) unfolding m by (simp add: jget_def)
  then have "map_option f_severity
        (FindingDB_get (fst (snd (validate_finding (demo_env ''HTTP/2 200'' ''200'' ?raw) demo_db 1 1))) 1)
       = Some ''critical''"
    using w(3) by simp
  then show ?thesis
    using run by (simp add: jget_def demo_finding_def)
qed

section \<open>Properties of the hunt\<close>

subsection \<open>The events of a hunt\<close>



lemma quiet_single: "ev \<noteq> GapDiscovery \<Longrightarrow> \<not> is_read ev \<Longrightarrow> quiet [ev]"
  by (simp add: quiet_def)






lemma events_m: "m w = (r, w', evs) \<Longrightarrow> events_of m w = evs"
  by (simp add: events_of_def)




























subsection \<open>The second wave\<close>

lemma then_do_Inr:
  "m w = (Inr a, w', evs) \<Longrightarrow>
     then_do m f w = (case f a w' of (r, w'', evs') \<Rightarrow> (r, w'', evs @ evs'))"
  by (simp add: then_do_def)









subsection \<open>Three hunts\<close>

text \<open>
  A hunt whose scan does not answer in time, a hunt that finds nothing and runs the second
  wave, and a hunt whose scan records one finding that the validator confirms, all on the
  example target.
\<close>

lemmas hunt_defs = hunt_body_def discover_and_test_def sync_phase_def finish_hunt_def
  complete_hunt_def Let_def then_do_def set_phase_def call_def ret_def write_db_def
  read_findings_def analyze_findings_def increment_stat_def redis_incrby_def
  demo_hunt_env_def idle_def timed_out_def found_by_scan_def demo_world_def
  HuntDB_create_def HuntDB_update_def HuntDB_get_def next_id_def HypothesisDB_get_pending_def
  demo_target_def TargetDB_get_by_id_def TargetDB_update_def
  FindingDB_get_by_hunt_def FindingDB_get_unverified_def
  run_hunt_def set_target_lock_def release_target_lock_def redis_set_nx_ex_def redis_delete_def
  exists_key_def lock_key_def PREFIX_def is_target_locked_def

lemma timeout_run:
  "run_hunt (demo_hunt_env timed_out venv) 100 1 demo_world
     = (Inl TimeoutError,
        demo_world\<lparr>w_db := (w_db demo_world)\<lparr>hunts :=
           [\<lparr>hunt_id = 1, hunt_target_id = 1, hunt_type = ''full'', hunt_status = ''running'',
             hunt_phase = ''testing'', hunt_completed_at = None, hunt_findings_count = 0,
             hunt_error = None, hunt_checkpoint_json = None\<rparr>]\<rparr>\<rparr>,
        [PhaseSet ''recon'', Recon, PhaseSet ''discovery'', Discovery, PhaseSet ''testing'',
         ScanDispatch, ScanJoin])"
  by (simp add: hunt_defs)





lemma demo_confirmed_in:
  assumes "FindingDB_get d 1 = Some demo_finding"
      and "length headers \<le> 10000" and "length code \<le> 10000" and "strip code = code"
      and "code \<notin> {''404'', ''403'', ''401''}"
      and "http_pass \<lparr>stdout = headers, stderr = [], returncode = 0\<rparr>"
      and "json_loads raw = Some (JObj [(''verdict'', JStr ''CONFIRMED''),
             (''evidence'', JStr ''stack trace''), (''adjusted_severity'', JStr ''critical'')])"
  shows "validate_finding (demo_env headers code raw) d 1 1
      = (Inr (VConfirmed 1
                [dns_step \<lparr>stdout = ''Name: shop.example.com Address: 93.184.216.34'',
                           stderr = [], returncode = 0\<rparr>,
                 http_step \<lparr>stdout = headers, stderr = [], returncode = 0\<rparr>,
                 endpoint_step code ''Internal Server Error'',
                 \<lparr>step_name = ''vuln_proof'', step_result = ''PASS'',
                  step_evidence = JStr ''stack trace''\<rparr>]
                (JObj [(''verdict'', JStr ''CONFIRMED''), (''evidence'', JStr ''stack trace''),
                       (''adjusted_severity'', JStr ''critical'')])),
         WorkerLogDB_log
           (FindingDB_update
              (FindingDB_update d 1
                 (\<lambda>f. f\<lparr>f_status := ''verified'', f_verified_by := Some ''poc-validator'',
                         f_verified_at := Some ''2024-01-01T00:00:00Z''\<rparr>))
              1 (\<lambda>f. f\<lparr>f_severity := ''critical''\<rparr>))
           \<lparr>wl_hunt_id = Some 1, wl_worker_type = ''validator'', wl_model_used = ''mistral-7b'',
            wl_task_type = ''validate'', wl_output_summary = ''CONFIRMED: IDOR in /api/users'',
            wl_status = ''success''\<rparr>,
         [Shell (dns_command ''shop.example.com''), Shell (http_command ''shop.example.com''),
          Shell (endpoint_command ''https://shop.example.com/api/users/2''),
          Shell (body_command ''https://shop.example.com/api/users/2''),
          Chat ''validator''
            (proof_prompt demo_finding ''https://shop.example.com/api/users/2'' code
               ''Internal Server Error'')])"
proof -
  let ?members = "[(''verdict'', JStr ''CONFIRMED''), (''evidence'', JStr ''stack trace''),
                   (''adjusted_severity'', JStr ''critical'')]"
  have cf: "confirm (demo_env headers code raw) d demo_finding 1 steps ?members
      = (Inr (VConfirmed 1 steps (JObj ?members)),
         WorkerLogDB_log
           (FindingDB_update
              (FindingDB_update d 1
                 (\<lambda>f. f\<lparr>f_status := ''verified'', f_verified_by := Some ''poc-validator'',
                         f_verified_at := Some ''2024-01-01T00:00:00Z''\<rparr>))
              1 (\<lambda>f. f\<lparr>f_severity := ''critical''\<rparr>))
           \<lparr>wl_hunt_id = Some 1, wl_worker_type = ''validator'', wl_model_used = ''mistral-7b'',
            wl_task_type = ''validate'', wl_output_summary = ''CONFIRMED: IDOR in /api/users'',
            wl_status = ''success''\<rparr>)" for steps
    by (simp add: confirm_def jget_def sql_text_not_null_def sql_text_def Let_def demo_strftime
          demo_finding_def)
  have vp: "vuln_proof (demo_env headers code raw) d demo_finding 1 steps (JObj ?members)
              = confirm (demo_env headers code raw) d demo_finding 1
                  (steps @ [\<lparr>step_name = ''vuln_proof'', step_result = ''PASS'',
                             step_evidence = JStr ''stack trace''\<rparr>]) ?members" for steps
    by (simp add: vuln_proof_def jget_def py_slice_def pass_fail_def Let_def)
  show ?thesis
    using validate_finding_stage4[OF assms(1) demo_found(2)
            demo_found(3)[of headers code raw], where hid = 1] assms(2-6)
    by (simp add: Let_def demo_dns dns_pass_demo demo_http demo_endpoint demo_body demo_client
          canned_chat_json[OF assms(7)] vp cf)
qed

lemma confirming_run:
  assumes "FindingDB_get d 1 = Some demo_finding"
  shows "validate_finding confirming_env d 1 1
      = (Inr (VConfirmed 1
                [dns_step \<lparr>stdout = ''Name: shop.example.com Address: 93.184.216.34'',
                           stderr = [], returncode = 0\<rparr>,
                 http_step \<lparr>stdout = ''HTTP/2 200'', stderr = [], returncode = 0\<rparr>,
                 endpoint_step ''200'' ''Internal Server Error'',
                 \<lparr>step_name = ''vuln_proof'', step_result = ''PASS'',
                  step_evidence = JStr ''stack trace''\<rparr>]
                (JObj [(''verdict'', JStr ''CONFIRMED''), (''evidence'', JStr ''stack trace''),
                       (''adjusted_severity'', JStr ''critical'')])),
         WorkerLogDB_log
           (FindingDB_update
              (FindingDB_update d 1
                 (\<lambda>f. f\<lparr>f_status := ''verified'', f_verified_by := Some ''poc-validator'',
                         f_verified_at := Some ''2024-01-01T00:00:00Z''\<rparr>))
              1 (\<lambda>f. f\<lparr>f_severity := ''critical''\<rparr>))
           \<lparr>wl_hunt_id = Some 1, wl_worker_type = ''validator'', wl_model_used = ''mistral-7b'',
            wl_task_type = ''validate'', wl_output_summary = ''CONFIRMED: IDOR in /api/users'',
            wl_status = ''success''\<rparr>,
         [Shell (dns_command ''shop.example.com''), Shell (http_command ''shop.example.com''),
          Shell (endpoint_command ''https://shop.example.com/api/users/2''),
          Shell (body_command ''https://shop.example.com/api/users/2''),
          Chat ''validator''
            (proof_prompt demo_finding ''https://shop.example.com/api/users/2'' ''200''
               ''Internal Server Error'')])"
proof -
  have r200: "length ''HTTP/2 200'' \<le> 10000" "length ''200'' \<le> 10000"
      "strip ''200'' = ''200''" "''200'' \<notin> {''404'', ''403'', ''401''}"
    by (simp_all add: strip_codes)
  show ?thesis
    unfolding confirming_env_def
    by (rule demo_confirmed_in[OF assms r200 http_pass_200 verdict_confirmed])
qed

lemma confirmed_run:
  "run_hunt (demo_hunt_env found_by_scan confirming_env) 100 1 demo_world
     = (Inr (HComplete 1 ''shop.example.com'' 1 1 1),
        \<lparr>w_db =
           \<lparr>targets = [demo_target\<lparr>t_last_full_hunt_at := Some ''2024-01-01T00:00:00'',
                                   t_total_findings := 1\<rparr>],
            hunts =
              [\<lparr>hunt_id = 1, hunt_target_id = 1, hunt_type = ''full'',
                hunt_status = ''complete'', hunt_phase = ''reporting'',
                hunt_completed_at = Some ''2024-01-01T00:00:00'', hunt_findings_count = 1,
                hunt_error = None, hunt_checkpoint_json = None\<rparr>],
            findings =
              [demo_finding\<lparr>f_status := ''verified'', f_verified_by := Some ''poc-validator'',
                            f_verified_at := Some ''2024-01-01T00:00:00Z'',
                            f_severity := ''critical''\<rparr>],
            hypothesis_cards = [],
            worker_logs =
              [\<lparr>wl_hunt_id = Some 1, wl_worker_type = ''validator'',
                wl_model_used = ''mistral-7b'', wl_task_type = ''validate'',
                wl_output_summary = ''CONFIRMED: IDOR in /api/users'', wl_status = ''success''\<rparr>]\<rparr>,
         w_redis =
           Map.empty(PREFIX @ ''stats:hunts_completed'' \<mapsto> \<lparr>stored = RInt 1, expires_at = None\<rparr>,
                     PREFIX @ ''stats:findings_total'' \<mapsto> \<lparr>stored = RInt 1, expires_at = None\<rparr>),
         w_patterns =
           [\<lparr>p_source_domain = Some ''shop.example.com'', p_finding_type = Some ''idor'',
             p_category = Some ''idor'', p_technique = Some ''IDOR in /api/users'',
             p_payload = Some ''id=2'', p_severity = Some ''critical'',
             p_discovered_at = Some ''2024-01-01T00:00:00''\<rparr>]\<rparr>,
        [PhaseSet ''recon'', Recon, PhaseSet ''discovery'', Discovery, PhaseSet ''testing'',
         ScanDispatch, ScanJoin, PhaseSet ''sync'', ReadFindings [1], PhaseSet ''validation'',
         Validate 1, PhaseSet ''reporting'', Report 1, Summary, CrossTarget])"
proof -
  have v: "validate_finding confirming_env
             \<lparr>targets = ts, hunts = hs, findings = [demo_finding], hypothesis_cards = cs,
              worker_logs = ls\<rparr> 1 1
           = (Inr (VConfirmed 1
                [dns_step \<lparr>stdout = ''Name: shop.example.com Address: 93.184.216.34'',
                           stderr = [], returncode = 0\<rparr>,
                 http_step \<lparr>stdout = ''HTTP/2 200'', stderr = [], returncode = 0\<rparr>,
                 endpoint_step ''200'' ''Internal Server Error'',
                 \<lparr>step_name = ''vuln_proof'', step_result = ''PASS'',
                  step_evidence = JStr ''stack trace''\<rparr>]
                (JObj [(''verdict'', JStr ''CONFIRMED''), (''evidence'', JStr ''stack trace''),
                       (''adjusted_severity'', JStr ''critical'')])),
              \<lparr>targets = ts, hunts = hs,
               findings = [demo_finding\<lparr>f_status := ''verified'',
                             f_verified_by := Some ''poc-validator'',
                             f_verified_at := Some ''2024-01-01T00:00:00Z'',
                             f_severity := ''critical''\<rparr>],
               hypothesis_cards = cs,
               worker_logs = ls @
                 [\<lparr>wl_hunt_id = Some 1, wl_worker_type = ''validator'',
                   wl_model_used = ''mistral-7b'', wl_task_type = ''validate'',
                   wl_output_summary = ''CONFIRMED: IDOR in /api/users'',
                   wl_status = ''success''\<rparr>]\<rparr>,
              [Shell (dns_command ''shop.example.com''), Shell (http_command ''shop.example.com''),
               Shell (endpoint_command ''https://shop.example.com/api/users/2''),
               Shell (body_command ''https://shop.example.com/api/users/2''),
               Chat ''validator''
                 (proof_prompt demo_finding ''https://shop.example.com/api/users/2'' ''200''
                    ''Internal Server Error'')])" for ts hs cs ls
    by (subst confirming_run)
       (simp_all add: FindingDB_get_def FindingDB_update_def WorkerLogDB_log_def demo_finding_def)
  have s: "f_id demo_finding = 1" "f_hunt_id demo_finding = 1"
      "f_status demo_finding = ''unverified''" "f_finding_type demo_finding = ''idor''"
      "f_title demo_finding = ''IDOR in /api/users''" "f_payload demo_finding = Some ''id=2''"
    by (simp_all add: demo_finding_def)
  show ?thesis
    by (simp add: hunt_defs v s status_of_def)
qed



subsection \<open>Gap-triggered discovery\<close>



subsection \<open>A scan that does not answer in time\<close>

text \<open>
  Claim C4. The hunt on the example target whose scan result does not arrive within the
  900 seconds: \<^verbatim>\<open>run_hunt\<close> raises \<^verbatim>\<open>TimeoutError\<close> and the lock of the target is
  released, but the record of the hunt keeps the status \<^verbatim>\<open>running\<close> and the phase
  \<^verbatim>\<open>testing\<close>, and its error column stays empty: nothing between
  \<^verbatim>\<open>scan_task.get(timeout=900)\<close> and the \<^verbatim>\<open>finally\<close> clause writes to it.
\<close>

theorem run_hunt_scan_timeout:
  "fst (run_hunt (demo_hunt_env timed_out second_wave_env) 100 1 demo_world) = Inl TimeoutError
   \<and> hunts (w_db (fst (snd (run_hunt (demo_hunt_env timed_out second_wave_env) 100 1 demo_world))))
       = [\<lparr>hunt_id = 1, hunt_target_id = 1, hunt_type = ''full'', hunt_status = ''running'',
           hunt_phase = ''testing'', hunt_completed_at = None, hunt_findings_count = 0,
           hunt_error = None, hunt_checkpoint_json = None\<rparr>]
   \<and> \<not> is_target_locked
         (w_redis (fst (snd (run_hunt (demo_hunt_env timed_out second_wave_env) 100 1 demo_world))))
         100 ''shop.example.com''
   \<and> snd (snd (run_hunt (demo_hunt_env timed_out second_wave_env) 100 1 demo_world))
       = [PhaseSet ''recon'', Recon, PhaseSet ''discovery'', Discovery, PhaseSet ''testing'',
          ScanDispatch, ScanJoin]"
  by (simp add: timeout_run)
     (simp add: demo_world_def is_target_locked_def exists_key_def lock_key_def PREFIX_def)

subsection \<open>The finding count of the target\<close>

lemma then_do_returns:
  assumes "then_do m f w = (Inr b, w', evs)"
  obtains a w1 evs' where "f a w1 = (Inr b, w', evs')"
  using assms by (auto simp: then_do_def split: prod.splits sum.splits)

lemma complete_hunt_returns:
  assumes "complete_hunt env hid dmn all_findings verified_count verified w = (Inr r, w', evs)"
  shows "r = HComplete hid dmn (length all_findings) verified_count (length verified)
       \<and> targets (w_db w')
           = map (\<lambda>t. if t_domain t = dmn
                       then t\<lparr>t_last_full_hunt_at := Some (e_utcnow env),
                              t_total_findings := int (length verified)\<rparr>
                       else t) (targets (w_db w))"
  using assms
  by (auto simp: complete_hunt_def then_do_def write_db_def increment_stat_def ret_def
        TargetDB_update_def HuntDB_update_def split: sum.splits)

lemma complete_hunt_total:
  assumes "complete_hunt env hid' dmn' all_findings verified_count verified w
             = (Inr (HComplete hid dmn found n reported), w', evs)"
      and "t \<in> set (targets (w_db w'))" and "t_domain t = dmn"
  shows "t_total_findings t = int reported"
proof -
  note r = complete_hunt_returns[OF assms(1)]
  have d: "dmn' = dmn" and n: "reported = length verified"
    using r by simp_all
  obtain t0 where t0: "t0 \<in> set (targets (w_db w))"
      "t = (if t_domain t0 = dmn
            then t0\<lparr>t_last_full_hunt_at := Some (e_utcnow env),
                    t_total_findings := int (length verified)\<rparr>
            else t0)"
    using r assms(2) d by (auto simp: image_iff)
  show ?thesis
  proof (cases "t_domain t0 = dmn")
    case True
    then show ?thesis using t0(2) n by simp
  next
    case False
    then show ?thesis using t0(2) assms(3) by simp
  qed
qed

lemma finish_hunt_total:
  assumes "finish_hunt env target hid' all_findings w
             = (Inr (HComplete hid dmn found n reported), w', evs)"
      and "t \<in> set (targets (w_db w'))" and "t_domain t = dmn"
  shows "t_total_findings t = int reported"
  using assms(1) unfolding finish_hunt_def Let_def
  by (elim then_do_returns) (rule complete_hunt_total[OF _ assms(2,3)])

lemma discover_and_test_total:
  assumes "discover_and_test env target hid' w
             = (Inr (HComplete hid dmn found n reported), w', evs)"
      and "t \<in> set (targets (w_db w'))" and "t_domain t = dmn"
  shows "t_total_findings t = int reported"
  using assms(1) unfolding discover_and_test_def Let_def
  by (elim then_do_returns) (rule finish_hunt_total[OF _ assms(2,3)])

lemma hunt_body_total:
  assumes "hunt_body env target w = (Inr (HComplete hid dmn found n reported), w', evs)"
      and "t \<in> set (targets (w_db w'))" and "t_domain t = dmn"
  shows "t_total_findings t = int reported"
proof -
  have branch: "t_total_findings t = int reported"
    if "(if r_status rr = Some ''error'' then
          then_do (write_db (\<lambda>d. HuntDB_update d hid'
                     (\<lambda>h. h\<lparr>hunt_status := ''failed'', hunt_error := r_error rr\<rparr>)))
            (\<lambda>_. ret (HFailed ''recon'' (r_error rr)))
        else discover_and_test env target hid') w1
       = (Inr (HComplete hid dmn found n reported), w', evs')" for rr hid' w1 evs'
  proof (cases "r_status rr = Some ''error''")
    case True
    then show ?thesis
      using that by (simp add: then_do_def write_db_def ret_def)
  next
    case False
    then show ?thesis
      using that discover_and_test_total[OF _ assms(2,3)] by simp
  qed
  show ?thesis
    using assms(1) unfolding hunt_body_def Let_def
    by (elim then_do_returns) (rule branch)
qed

text \<open>
  Claim C5. When \<^verbatim>\<open>run_hunt\<close> returns \<^verbatim>\<open>complete\<close>, every row of the hunt's domain
  in the table of targets holds as \<^verbatim>\<open>total_findings\<close> the number the hunt returns as
  \<^verbatim>\<open>reported\<close>, the number of verified findings of this hunt, whatever the column held
  before: the count is overwritten, not added to. On the example target, which had three
  findings, a hunt that verifies one finding leaves the count at one.
\<close>

theorem run_hunt_total_findings:
  assumes "run_hunt env now target_id w = (Inr (HComplete hid dmn found n reported), w', evs)"
      and "t \<in> set (targets (w_db w'))" and "t_domain t = dmn"
  shows "t_total_findings t = int reported"
proof (cases "TargetDB_get_by_id (w_db w) target_id")
  case None
  then show ?thesis using assms(1) by (simp add: run_hunt_def)
next
  case (Some target)
  show ?thesis
  proof (cases "set_target_lock (w_redis w) now (t_domain target) 7200")
    case (Inl e)
    then show ?thesis using Some assms(1) by (simp add: run_hunt_def)
  next
    case (Inr p)
    obtain b r where p: "p = (b, r)" by (cases p) auto
    show ?thesis
    proof (cases b)
      case False
      then show ?thesis using Some Inr p assms(1) by (simp add: run_hunt_def)
    next
      case True
      obtain out w1 evs1 where h: "hunt_body env target (w\<lparr>w_redis := r\<rparr>) = (out, w1, evs1)"
        by (cases "hunt_body env target (w\<lparr>w_redis := r\<rparr>)") auto
      have "out = Inr (HComplete hid dmn found n reported)" "w_db w' = w_db w1"
        using Some Inr p True h assms(1) by (auto simp: run_hunt_def)
      then show ?thesis
        using hunt_body_total[of env target "w\<lparr>w_redis := r\<rparr>" hid dmn found n reported w1 evs1 t]
          h assms(2,3) by simp
    qed
  qed
qed

theorem run_hunt_total_findings_witness:
  "TargetDB_get_by_id (w_db demo_world) 1 = Some demo_target
   \<and> t_total_findings demo_target = 3
   \<and> fst (run_hunt (demo_hunt_env found_by_scan confirming_env) 100 1 demo_world)
       = Inr (HComplete 1 ''shop.example.com'' 1 1 1)
   \<and> map f_status
        (findings (w_db (fst (snd (run_hunt (demo_hunt_env found_by_scan confirming_env) 100 1
                                     demo_world)))))
       = [''verified'']
   \<and> targets (w_db (fst (snd (run_hunt (demo_hunt_env found_by_scan confirming_env) 100 1
                                  demo_world))))
       = [demo_target\<lparr>t_last_full_hunt_at := Some ''2024-01-01T00:00:00'',
                      t_total_findings := 1\<rparr>]
   \<and> t_domain (demo_target\<lparr>t_last_full_hunt_at := Some ''2024-01-01T00:00:00'',
                            t_total_findings := 1\<rparr>) = ''shop.example.com''
   \<and> t_total_findings (demo_target\<lparr>t_last_full_hunt_at := Some ''2024-01-01T00:00:00'',
                                    t_total_findings := 1\<rparr>) = 1"
proof -
  have "t_total_findings (demo_target\<lparr>t_last_full_hunt_at := Some ''2024-01-01T00:00:00'',
                                      t_total_findings := 1\<rparr>) = int 1"
    by (rule run_hunt_total_findings[OF confirmed_run]) (simp_all add: demo_target_def)
  moreover have "fst (run_hunt (demo_hunt_env found_by_scan confirming_env) 100 1 demo_world)
       = Inr (HComplete 1 ''shop.example.com'' 1 1 1)"
    by (simp add: confirmed_run)
  moreover have "map f_status
        (findings (w_db (fst (snd (run_hunt (demo_hunt_env found_by_scan confirming_env) 100 1
                                     demo_world)))))
       = [''verified'']"
    by (simp add: confirmed_run)
  moreover have "targets (w_db (fst (snd (run_hunt (demo_hunt_env found_by_scan confirming_env)
                                            100 1 demo_world))))
       = [demo_target\<lparr>t_last_full_hunt_at := Some ''2024-01-01T00:00:00'',
                      t_total_findings := 1\<rparr>]"
    by (simp add: confirmed_run)
  moreover have "TargetDB_get_by_id (w_db demo_world) 1 = Some demo_target"
    by (simp add: demo_world_def TargetDB_get_by_id_def demo_target_def)
  moreover have "t_total_findings demo_target = 3"
      "t_domain (demo_target\<lparr>t_last_full_hunt_at := Some ''2024-01-01T00:00:00'',
                            t_total_findings := 1\<rparr>) = ''shop.example.com''"
    by (simp_all add: demo_target_def)
  ultimately show ?thesis
    by simp
qed

section \<open>Properties of the priority score\<close>

subsection \<open>Rounding to a float\<close>

lemma round_half_even_mono: "x \<le> y \<Longrightarrow> round_half_even x \<le> round_half_even y"
proof -
  assume xy: "x \<le> y"
  have fl: "\<lfloor>x\<rfloor> \<le> \<lfloor>y\<rfloor>" using xy by (rule floor_mono)
  have bx: "round_half_even x \<le> \<lfloor>x\<rfloor> + 1"
    by (simp add: round_half_even_def Let_def)
  have byy: "\<lfloor>y\<rfloor> \<le> round_half_even y"
    by (simp add: round_half_even_def Let_def)
  show ?thesis
  proof (cases "\<lfloor>x\<rfloor> = \<lfloor>y\<rfloor>")
    case True
    then show ?thesis using xy by (auto simp: round_half_even_def Let_def)
  next
    case False
    then have "\<lfloor>x\<rfloor> + 1 \<le> \<lfloor>y\<rfloor>" using fl by simp
    then show ?thesis using bx byy by linarith
  qed
qed

lemma round_half_even_of_int: "round_half_even (of_int n) = n"
  by (simp add: round_half_even_def)

lemma round_half_even_minus: "round_half_even (- x) = - round_half_even x"
proof (cases "x = of_int \<lfloor>x\<rfloor>")
  case True
  then obtain n where "x = of_int n" by blast
  then show ?thesis
    by (simp add: round_half_even_of_int flip: of_int_minus)
next
  case False
  have d: "0 < x - of_int \<lfloor>x\<rfloor>" "x - of_int \<lfloor>x\<rfloor> < 1"
    using False by linarith+
  have f: "\<lfloor>- x\<rfloor> = - \<lfloor>x\<rfloor> - 1"
    by (rule floor_unique) (use d in simp_all)
  show ?thesis
    unfolding round_half_even_def Let_def f using d
    by (auto simp: algebra_simps)
qed

lemma pow2_powr: "pow2 e = 2 powr (of_int e)"
proof (cases "0 \<le> e")
  case True
  then show ?thesis
    by (simp add: pow2_def powr_realpow[symmetric])
next
  case False
  then have "pow2 e = 1 / 2 powr (of_int (- e))"
    by (simp add: pow2_def powr_realpow[symmetric])
  then show ?thesis by (simp add: powr_minus_divide)
qed

lemma pow2_pos [simp]: "0 < pow2 e"
  by (simp add: pow2_powr)

lemma pow2_nonneg [simp]: "0 \<le> pow2 e"
  by (simp add: pow2_powr)

lemma pow2_abs [simp]: "\<bar>pow2 e\<bar> = pow2 e"
  by (simp add: pow2_powr)

lemma pow2_add: "pow2 (a + b) = pow2 a * pow2 b"
  by (simp add: pow2_powr powr_add)

lemma pow2_diff: "pow2 (a - b) = pow2 a / pow2 b"
  by (simp add: pow2_powr powr_diff)

lemma pow2_mono: "a \<le> b \<Longrightarrow> pow2 a \<le> pow2 b"
  by (simp add: pow2_powr)

lemma pow2_less: "a < b \<Longrightarrow> pow2 a < pow2 b"
  by (simp add: pow2_powr)

lemma pow2_le_iff: "pow2 a \<le> pow2 b \<longleftrightarrow> a \<le> b"
  by (simp add: pow2_powr)

lemma pow2_nat: "pow2 (int n) = 2 ^ n"
  by (simp add: pow2_def)

lemma expo_bounds:
  assumes "x \<noteq> 0"
  shows "pow2 (expo x) \<le> \<bar>x\<bar>" and "\<bar>x\<bar> < pow2 (expo x + 1)"
proof -
  have both: "pow2 (expo x) \<le> \<bar>x\<bar> \<and> \<bar>x\<bar> < pow2 (expo x + 1)"
  proof (cases "1 \<le> \<bar>x\<bar>")
    case True
    define n where "n = \<lfloor>\<bar>x\<bar>\<rfloor>"
    have n: "0 < n" "of_int n \<le> \<bar>x\<bar>" "\<bar>x\<bar> < of_int n + 1"
      using True unfolding n_def by linarith+
    have b: "2 ^ nat (bitlen n - 1) \<le> n" "n < 2 ^ nat (bitlen n)"
      using bitlen_bounds[OF n(1)] by simp_all
    have k: "1 \<le> bitlen n" using n(1) by (simp add: bitlen_alt_def)
    have e: "expo x = bitlen n - 1" using True by (simp add: expo_def n_def)
    have "pow2 (expo x) = of_int (2 ^ nat (bitlen n - 1))"
      using k by (simp add: e pow2_def)
    also have "\<dots> \<le> of_int n" using b(1) by (simp only: of_int_le_iff)
    finally have lo: "pow2 (expo x) \<le> \<bar>x\<bar>" using n(2) by simp
    have "n + 1 \<le> 2 ^ nat (bitlen n)" using b(2) by simp
    then have "real_of_int (n + 1) \<le> real_of_int (2 ^ nat (bitlen n))"
      by (simp only: of_int_le_iff)
    moreover have "pow2 (expo x + 1) = of_int (2 ^ nat (bitlen n))"
      using k by (simp add: e pow2_def)
    ultimately have hi: "\<bar>x\<bar> < pow2 (expo x + 1)" using n(3) by simp
    show ?thesis using lo hi by simp
  next
    case False
    define r where "r = 1 / \<bar>x\<bar>"
    define m where "m = \<lceil>r\<rceil> - 1"
    have xp: "0 < \<bar>x\<bar>" "\<bar>x\<bar> < 1" using assms False by simp_all
    have r1: "1 < r" using xp by (simp add: r_def)
    have m: "0 < m" "of_int m < r" "r \<le> of_int m + 1"
      using r1 unfolding m_def by linarith+
    have b: "2 ^ nat (bitlen m - 1) \<le> m" "m < 2 ^ nat (bitlen m)"
      using bitlen_bounds[OF m(1)] by simp_all
    have k: "1 \<le> bitlen m" using m(1) by (simp add: bitlen_alt_def)
    have e: "expo x = - bitlen m" using False by (simp add: expo_def m_def r_def)
    have "m + 1 \<le> 2 ^ nat (bitlen m)" using b(2) by simp
    then have "real_of_int (m + 1) \<le> real_of_int (2 ^ nat (bitlen m))"
      by (simp only: of_int_le_iff)
    then have rle: "r \<le> 2 ^ nat (bitlen m)" using m(3) by simp
    have "real_of_int (2 ^ nat (bitlen m - 1)) \<le> real_of_int m"
      using b(1) by (simp only: of_int_le_iff)
    moreover have "real_of_int (2 ^ nat (bitlen m - 1)) = 2 ^ nat (bitlen m - 1)" by simp
    ultimately have rgt: "2 ^ nat (bitlen m - 1) < r" using m(2) by linarith
    have x: "\<bar>x\<bar> = 1 / r" using xp by (simp add: r_def)
    have lo: "pow2 (expo x) \<le> \<bar>x\<bar>"
    proof -
      have "pow2 (expo x) = 1 / 2 ^ nat (bitlen m)"
        using k by (simp add: e pow2_def)
      also have "\<dots> \<le> 1 / r"
        using rle r1 by (simp add: frac_le)
      finally show ?thesis using x by simp
    qed
    have hi: "\<bar>x\<bar> < pow2 (expo x + 1)"
    proof -
      have "pow2 (expo x + 1) = 1 / 2 ^ nat (bitlen m - 1)"
        using k by (cases "bitlen m = 1") (simp_all add: e pow2_def)
      moreover have "1 / r < 1 / 2 ^ nat (bitlen m - 1)"
        using rgt by (simp add: frac_less2)
      ultimately show ?thesis using x by simp
    qed
    show ?thesis using lo hi by simp
  qed
  show "pow2 (expo x) \<le> \<bar>x\<bar>" and "\<bar>x\<bar> < pow2 (expo x + 1)"
    using both by simp_all
qed

lemma expo_unique:
  assumes "pow2 e \<le> \<bar>x\<bar>" and "\<bar>x\<bar> < pow2 (e + 1)"
  shows "expo x = e"
proof -
  have "0 < \<bar>x\<bar>" using assms(1) pow2_pos[of e] by linarith
  then have nz: "x \<noteq> 0" by simp
  have "pow2 e < pow2 (expo x + 1)"
    using assms(1) expo_bounds(2)[OF nz] by linarith
  then have a: "e < expo x + 1" by (simp add: pow2_powr)
  have "pow2 (expo x) < pow2 (e + 1)"
    using assms(2) expo_bounds(1)[OF nz] by linarith
  then have b: "expo x < e + 1" by (simp add: pow2_powr)
  show ?thesis using a b by simp
qed

lemma expo_mono:
  assumes "x \<noteq> 0" and "\<bar>x\<bar> \<le> \<bar>y\<bar>"
  shows "expo x \<le> expo y"
proof -
  have ny: "y \<noteq> 0" using assms by auto
  have "pow2 (expo x) < pow2 (expo y + 1)"
    using expo_bounds(1)[OF assms(1)] expo_bounds(2)[OF ny] assms(2) by linarith
  then show ?thesis by (simp add: pow2_powr)
qed

lemma quantum_minus [simp]: "quantum (- x) = quantum x"
  by (simp add: quantum_def expo_def)

lemma fl_zero [simp]: "fl 0 = 0"
  by (simp add: fl_def round_half_even_def)

lemma fl_minus: "fl (- x) = - fl x"
  by (simp add: fl_def round_half_even_minus)

lemma fl_nonneg: "0 \<le> x \<Longrightarrow> 0 \<le> fl x"
proof -
  assume "0 \<le> x"
  then have "0 \<le> x / pow2 (quantum x)" by simp
  then have "round_half_even 0 \<le> round_half_even (x / pow2 (quantum x))"
    by (rule round_half_even_mono)
  then have "0 \<le> round_half_even (x / pow2 (quantum x))"
    by (simp add: round_half_even_def)
  then show ?thesis by (simp add: fl_def)
qed

lemma fl_mono_pos:
  assumes "0 < x" and "x \<le> y"
  shows "fl x \<le> fl y"
proof -
  have nx: "x \<noteq> 0" and ny: "y \<noteq> 0" using assms by auto
  have e: "expo x \<le> expo y" using expo_mono[OF nx] assms by simp
  then have q: "quantum x \<le> quantum y" by (simp add: quantum_def)
  show ?thesis
  proof (cases "quantum x = quantum y")
    case True
    have "x / pow2 (quantum y) \<le> y / pow2 (quantum y)"
      using assms(2) by (simp add: divide_right_mono)
    then have "round_half_even (x / pow2 (quantum y)) \<le> round_half_even (y / pow2 (quantum y))"
      by (rule round_half_even_mono)
    then show ?thesis by (simp add: fl_def True)
  next
    case False
    define E where "E = max (expo x) (- 1022)"
    have qx: "quantum x = E - 52" by (simp add: quantum_def E_def)
    have lt: "E < expo y" and qy: "quantum y = expo y - 52"
      using False q e by (auto simp: quantum_def E_def max_def split: if_splits)
    have "x < pow2 (expo x + 1)" using expo_bounds(2)[OF nx] assms(1) by simp
    also have "\<dots> \<le> pow2 (E + 1)" by (rule pow2_mono) (simp add: E_def)
    finally have xb: "x \<le> pow2 (E + 1)" by simp
    have "x / pow2 (quantum x) \<le> pow2 (E + 1) / pow2 (quantum x)"
      using xb by (simp add: divide_right_mono)
    also have "\<dots> = pow2 53" by (simp add: qx pow2_diff[symmetric])
    also have "\<dots> = of_int (2 ^ 53)" by (simp add: pow2_def)
    finally have "round_half_even (x / pow2 (quantum x)) \<le> round_half_even (of_int (2 ^ 53))"
      by (rule round_half_even_mono)
    then have "of_int (round_half_even (x / pow2 (quantum x))) \<le> (of_int (2 ^ 53) :: real)"
      unfolding round_half_even_of_int by (simp only: of_int_le_iff)
    then have "fl x \<le> of_int (2 ^ 53) * pow2 (quantum x)"
      by (simp add: fl_def)
    also have "\<dots> = pow2 53 * pow2 (quantum x)" by (simp add: pow2_def)
    also have "\<dots> = pow2 (E + 1)" by (simp add: qx pow2_add[symmetric] ac_simps)
    finally have upper: "fl x \<le> pow2 (E + 1)" .
    have yb: "pow2 (expo y) \<le> y" using expo_bounds(1)[OF ny] assms by simp
    have "pow2 52 = pow2 (expo y) / pow2 (quantum y)" by (simp add: qy pow2_diff[symmetric])
    also have "\<dots> \<le> y / pow2 (quantum y)" using yb by (simp add: divide_right_mono)
    finally have "of_int (2 ^ 52) \<le> y / pow2 (quantum y)" by (simp add: pow2_def)
    then have "round_half_even (of_int (2 ^ 52)) \<le> round_half_even (y / pow2 (quantum y))"
      by (rule round_half_even_mono)
    then have "(of_int (2 ^ 52) :: real) \<le> of_int (round_half_even (y / pow2 (quantum y)))"
      unfolding round_half_even_of_int by (simp only: of_int_le_iff)
    then have "of_int (2 ^ 52) * pow2 (quantum y) \<le> fl y"
      by (simp add: fl_def)
    moreover have "of_int (2 ^ 52) * pow2 (quantum y) = pow2 52 * pow2 (quantum y)"
      by (simp add: pow2_def)
    moreover have "pow2 52 * pow2 (quantum y) = pow2 (expo y)"
      by (simp add: qy pow2_add[symmetric])
    ultimately have lower: "pow2 (expo y) \<le> fl y" by simp
    have "pow2 (E + 1) \<le> pow2 (expo y)" by (rule pow2_mono) (use lt in simp)
    then show ?thesis using upper lower by linarith
  qed
qed

lemma fl_mono: "x \<le> y \<Longrightarrow> fl x \<le> fl y"
proof -
  assume xy: "x \<le> y"
  consider (pos) "0 < x" | (zero) "x \<le> 0" "0 \<le> y" | (neg) "y < 0" by linarith
  then show ?thesis
  proof cases
    case pos
    then show ?thesis using fl_mono_pos xy by simp
  next
    case zero
    have "fl x \<le> 0" using fl_nonneg[of "- x"] zero(1) by (simp add: fl_minus)
    then show ?thesis using fl_nonneg[OF zero(2)] by linarith
  next
    case neg
    have "fl (- y) \<le> fl (- x)" using fl_mono_pos[of "- y" "- x"] neg xy by simp
    then show ?thesis by (simp add: fl_minus)
  qed
qed

lemma fl_pow2: "- 1022 \<le> e \<Longrightarrow> fl (pow2 e) = pow2 e"
proof -
  assume e: "- 1022 \<le> e"
  have "expo (pow2 e) = e"
    by (rule expo_unique) (simp_all add: pow2_less)
  then have q: "quantum (pow2 e) = e - 52" using e by (simp add: quantum_def)
  have "pow2 e / pow2 (e - 52) = pow2 52"
    by (simp add: pow2_diff[symmetric])
  also have "\<dots> = of_int (2 ^ 52)"
    by (simp add: pow2_def)
  finally have r: "round_half_even (pow2 e / pow2 (e - 52)) = 2 ^ 52"
    by (simp only: round_half_even_of_int)
  have "fl (pow2 e) = of_int (2 ^ 52) * pow2 (e - 52)"
    by (simp add: fl_def q r)
  also have "\<dots> = pow2 52 * pow2 (e - 52)"
    by (simp add: pow2_def)
  also have "\<dots> = pow2 e"
    by (simp add: pow2_add[symmetric])
  finally show ?thesis .
qed

subsection \<open>The score\<close>

lemma py_round2_mono: "x \<le> y \<Longrightarrow> py_round2 x \<le> py_round2 y"
  unfolding py_round2_def
  by (intro fl_mono divide_right_mono) (simp_all add: round_half_even_mono)

lemma py_round2_nonneg: "0 \<le> x \<Longrightarrow> 0 \<le> py_round2 x"
  using py_round2_mono[of 0 x] by (simp add: py_round2_def round_half_even_def)

lemma fl_tenth_pos: "0 < fl 0.1"
proof -
  have "pow2 (- 4) \<le> fl (pow2 (- 4))" by (simp add: fl_pow2)
  also have "\<dots> \<le> fl 0.1" by (rule fl_mono) (simp add: pow2_def)
  finally show ?thesis using pow2_pos[of "- 4"] by linarith
qed

lemma bounty_factor_pos: "0 < bounty_factor t"
  using fl_tenth_pos by (simp add: bounty_factor_def max_def)

lemma bounty_factor_mono: "bounty_avg a \<le> bounty_avg b \<Longrightarrow> bounty_factor a \<le> bounty_factor b"
proof -
  assume "bounty_avg a \<le> bounty_avg b"
  then have "fl (bounty_avg a / 1000) \<le> fl (bounty_avg b / 1000)"
    by (intro fl_mono divide_right_mono) simp_all
  then show ?thesis by (simp add: bounty_factor_def max_def)
qed

lemma staleness_cap: "staleness now t \<le> 10"
  by (simp add: staleness_def Let_def split: option.splits)

lemma staleness_nonneg: "plausible now t \<Longrightarrow> 0 \<le> staleness now t"
  by (auto simp: staleness_def plausible_def Let_def split: option.splits
      intro!: fl_nonneg divide_nonneg_nonneg)

lemma findings_rate_nonneg: "plausible now t \<Longrightarrow> 0 \<le> findings_rate t"
  unfolding findings_rate_def plausible_def
  by (intro fl_nonneg add_nonneg_nonneg mult_nonneg_nonneg) simp_all

lemma manual_nonneg: "plausible now t \<Longrightarrow> 0 \<le> manual t"
  unfolding manual_def plausible_def
  by (intro fl_nonneg divide_nonneg_nonneg) simp_all

lemma manual_mono:
  "dict_get (priority a) 5 \<le> dict_get (priority b) 5 \<Longrightarrow> manual a \<le> manual b"
  unfolding manual_def
  by (intro fl_mono divide_right_mono) simp_all

lemma raw_score_mono:
  assumes "plausible now a" and "plausible now b"
      and "bounty_factor a \<le> bounty_factor b" and "staleness now a \<le> staleness now b"
      and "findings_rate a \<le> findings_rate b" and "manual a \<le> manual b"
  shows "raw_score now a \<le> raw_score now b"
proof -
  have p1: "bounty_factor a * staleness now a \<le> bounty_factor b * staleness now b"
    using assms(3,4) bounty_factor_pos[of a] staleness_nonneg[OF assms(1)]
    by (intro mult_mono) simp_all
  have n1: "0 \<le> fl (bounty_factor a * staleness now a)"
    using bounty_factor_pos[of a] staleness_nonneg[OF assms(1)] by (intro fl_nonneg) simp
  have p2: "fl (bounty_factor a * staleness now a) * findings_rate a
              \<le> fl (bounty_factor b * staleness now b) * findings_rate b"
    using fl_mono[OF p1] assms(5) n1 findings_rate_nonneg[OF assms(1)]
    by (intro mult_mono) simp_all
  have n2: "0 \<le> fl (fl (bounty_factor a * staleness now a) * findings_rate a)"
    using n1 findings_rate_nonneg[OF assms(1)] by (intro fl_nonneg) simp
  have p3: "fl (fl (bounty_factor a * staleness now a) * findings_rate a) * manual a
              \<le> fl (fl (bounty_factor b * staleness now b) * findings_rate b) * manual b"
    using fl_mono[OF p2] assms(6) n2 manual_nonneg[OF assms(1)]
    by (intro mult_mono) simp_all
  show ?thesis
    unfolding raw_score_def by (rule fl_mono[OF p3])
qed

lemma fl_le_pow2: "x \<le> pow2 k \<Longrightarrow> - 1022 \<le> k \<Longrightarrow> fl x \<le> pow2 k"
  using fl_mono[of x "pow2 k"] by (simp add: fl_pow2)

lemma fl_abs_le_pow2: "\<bar>x\<bar> \<le> pow2 k \<Longrightarrow> - 1022 \<le> k \<Longrightarrow> \<bar>fl x\<bar> \<le> pow2 k"
  using fl_le_pow2[of x k] fl_le_pow2[of "- x" k] by (simp add: fl_minus abs_le_iff)

lemma pow2_numeral: "pow2 (numeral n) = 2 ^ numeral n" "pow2 0 = 1"
  by (simp_all add: pow2_def)

lemma score_target_no_overflow:
  assumes "plausible now t"
  shows "\<bar>bounty_avg t\<bar> \<le> pow2 63"
    and "bounty_factor t \<le> pow2 63"
    and "findings_rate t \<le> pow2 64"
    and "manual t \<le> pow2 63"
    and "fl (bounty_factor t * staleness now t) \<le> pow2 67"
    and "fl (fl (bounty_factor t * staleness now t) * findings_rate t) \<le> pow2 131"
    and "raw_score now t \<le> pow2 194"
    and "score_target now t \<le> pow2 195"
proof -
  have r: "sqlite_integer (dict_get (bounty_min t) 0)" "sqlite_integer (dict_get (bounty_max t) 1000)"
      "sqlite_integer (dict_get (total_findings t) 0)" "sqlite_integer (dict_get (priority t) 5)"
      "0 \<le> dict_get (total_findings t) 0" "1 \<le> dict_get (priority t) 5"
    using assms by (simp_all add: plausible_def)
  have s: "\<bar>dict_get (bounty_min t) 0 + dict_get (bounty_max t) 1000\<bar> \<le> 2 ^ 64"
    using r(1,2) by (simp add: sqlite_integer_def, linarith)
  have "\<bar>real_of_int (dict_get (bounty_min t) 0 + dict_get (bounty_max t) 1000)\<bar>
          \<le> real_of_int (2 ^ 64)"
    using s by (simp only: of_int_abs[symmetric] of_int_le_iff)
  then have "\<bar>real_of_int (dict_get (bounty_min t) 0 + dict_get (bounty_max t) 1000) / 2\<bar>
          \<le> pow2 63"
    by (simp add: pow2_numeral)
  then show avg: "\<bar>bounty_avg t\<bar> \<le> pow2 63"
    unfolding bounty_avg_def by (rule fl_abs_le_pow2) simp
  have "bounty_avg t / 1000 \<le> pow2 63"
  proof (cases "0 \<le> bounty_avg t")
    case True
    then have "bounty_avg t / 1000 \<le> bounty_avg t" by simp
    then show ?thesis using avg by linarith
  next
    case False
    then have "bounty_avg t / 1000 \<le> 0" by simp
    then show ?thesis using pow2_nonneg[of 63] by linarith
  qed
  then have b1: "fl (bounty_avg t / 1000) \<le> pow2 63" by (rule fl_le_pow2) simp
  have "fl 0.1 \<le> pow2 63" by (rule fl_le_pow2) (simp_all add: pow2_numeral)
  then show bf: "bounty_factor t \<le> pow2 63"
    using b1 by (simp add: bounty_factor_def)
  have f0: "0 \<le> fl (real_of_int (dict_get (total_findings t) 0))"
    using r(5) by (intro fl_nonneg) simp
  have "real_of_int (dict_get (total_findings t) 0) \<le> real_of_int (2 ^ 63)"
    using r(3) unfolding sqlite_integer_def by (simp only: of_int_le_iff) simp
  then have "real_of_int (dict_get (total_findings t) 0) \<le> pow2 63"
    by (simp add: pow2_numeral)
  then have f1: "fl (real_of_int (dict_get (total_findings t) 0)) \<le> pow2 63"
    by (rule fl_le_pow2) simp
  have f2: "0 \<le> fl 0.2" "fl 0.2 \<le> 1"
    using fl_nonneg[of "0.2"] fl_le_pow2[of "0.2" 0] by (simp_all add: pow2_numeral)
  have "fl (real_of_int (dict_get (total_findings t) 0)) * fl 0.2 \<le> pow2 63 * 1"
    using f0 f1 f2 by (intro mult_mono) simp_all
  then have "fl (fl (real_of_int (dict_get (total_findings t) 0)) * fl 0.2) \<le> pow2 63"
    by (intro fl_le_pow2) simp_all
  then have "1 + fl (fl (real_of_int (dict_get (total_findings t) 0)) * fl 0.2) \<le> pow2 64"
    by (simp add: pow2_numeral)
  then show fr: "findings_rate t \<le> pow2 64"
    unfolding findings_rate_def by (rule fl_le_pow2) simp
  have "real_of_int (dict_get (priority t) 5) \<le> real_of_int (2 ^ 63)"
    using r(4) unfolding sqlite_integer_def by (simp only: of_int_le_iff) simp
  then have "real_of_int (dict_get (priority t) 5) \<le> pow2 63"
    by (simp add: pow2_numeral)
  then have m1: "fl (real_of_int (dict_get (priority t) 5)) \<le> pow2 63"
    by (rule fl_le_pow2) simp
  have m0: "0 \<le> fl (real_of_int (dict_get (priority t) 5))"
    using r(6) by (intro fl_nonneg) simp
  have "fl (real_of_int (dict_get (priority t) 5)) / 5 \<le> pow2 63"
    using m0 m1 by simp
  then show m: "manual t \<le> pow2 63"
    unfolding manual_def by (rule fl_le_pow2) simp
  have "bounty_factor t * staleness now t \<le> pow2 63 * pow2 4"
    using bf staleness_cap[of now t] bounty_factor_pos[of t] staleness_nonneg[OF assms]
    by (intro mult_mono) (simp_all add: pow2_numeral)
  then have "bounty_factor t * staleness now t \<le> pow2 67"
    by (simp add: pow2_add[symmetric])
  then show p1: "fl (bounty_factor t * staleness now t) \<le> pow2 67"
    by (rule fl_le_pow2) simp
  have n1: "0 \<le> fl (bounty_factor t * staleness now t)"
    using bounty_factor_pos[of t] staleness_nonneg[OF assms] by (intro fl_nonneg) simp
  have "fl (bounty_factor t * staleness now t) * findings_rate t \<le> pow2 67 * pow2 64"
    using p1 fr n1 findings_rate_nonneg[OF assms] by (intro mult_mono) simp_all
  then have "fl (bounty_factor t * staleness now t) * findings_rate t \<le> pow2 131"
    by (simp add: pow2_add[symmetric])
  then show p2: "fl (fl (bounty_factor t * staleness now t) * findings_rate t) \<le> pow2 131"
    by (rule fl_le_pow2) simp
  have n2: "0 \<le> fl (fl (bounty_factor t * staleness now t) * findings_rate t)"
    using n1 findings_rate_nonneg[OF assms] by (intro fl_nonneg) simp
  have "fl (fl (bounty_factor t * staleness now t) * findings_rate t) * manual t
          \<le> pow2 131 * pow2 63"
    using p2 m n2 manual_nonneg[OF assms] by (intro mult_mono) simp_all
  then have "fl (fl (bounty_factor t * staleness now t) * findings_rate t) * manual t \<le> pow2 194"
    by (simp add: pow2_add[symmetric])
  then show raw: "raw_score now t \<le> pow2 194"
    unfolding raw_score_def by (rule fl_le_pow2) simp
  have "real_of_int (round_half_even (raw_score now t * 100)) \<le> raw_score now t * 100 + 1"
    by (simp add: round_half_even_def Let_def) linarith
  then have "real_of_int (round_half_even (raw_score now t * 100)) / 100
               \<le> raw_score now t + 1 / 100"
    by simp
  also have "\<dots> \<le> pow2 194 + pow2 194"
    using raw by (intro add_mono) (simp_all add: pow2_numeral)
  also have "\<dots> = pow2 195"
    by (simp add: pow2_numeral)
  finally show "score_target now t \<le> pow2 195"
    unfolding score_target_def py_round2_def by (rule fl_le_pow2) simp
qed

text \<open>
  C6, as the code has it. For two plausible targets that differ in one input only, the
  score does not decrease when the bounty midpoint, the staleness or the manual priority
  grows; and the staleness never exceeds its cap of 10.
\<close>

theorem score_target_monotone:
  assumes "plausible now t" and "plausible now t'"
  shows "(bounty_avg t \<le> bounty_avg t'
            \<and> last_full_hunt_at t' = last_full_hunt_at t
            \<and> total_findings t' = total_findings t \<and> priority t' = priority t
            \<longrightarrow> score_target now t \<le> score_target now t')
       \<and> (staleness now t \<le> staleness now t'
            \<and> bounty_min t' = bounty_min t \<and> bounty_max t' = bounty_max t
            \<and> total_findings t' = total_findings t \<and> priority t' = priority t
            \<longrightarrow> score_target now t \<le> score_target now t')
       \<and> (dict_get (priority t) 5 \<le> dict_get (priority t') 5
            \<and> bounty_min t' = bounty_min t \<and> bounty_max t' = bounty_max t
            \<and> last_full_hunt_at t' = last_full_hunt_at t
            \<and> total_findings t' = total_findings t
            \<longrightarrow> score_target now t \<le> score_target now t')
       \<and> staleness now t \<le> 10"
proof -
  have b: "score_target now t \<le> score_target now t'"
    if "bounty_avg t \<le> bounty_avg t'" "last_full_hunt_at t' = last_full_hunt_at t"
       "total_findings t' = total_findings t" "priority t' = priority t"
    unfolding score_target_def
    by (intro py_round2_mono raw_score_mono[OF assms] bounty_factor_mono)
       (use that in \<open>simp_all add: staleness_def findings_rate_def manual_def\<close>)
  have s: "score_target now t \<le> score_target now t'"
    if "staleness now t \<le> staleness now t'" "bounty_min t' = bounty_min t"
       "bounty_max t' = bounty_max t" "total_findings t' = total_findings t"
       "priority t' = priority t"
    unfolding score_target_def
    by (intro py_round2_mono raw_score_mono[OF assms])
       (use that in \<open>simp_all add: bounty_factor_def bounty_avg_def findings_rate_def manual_def\<close>)
  have p: "score_target now t \<le> score_target now t'"
    if "dict_get (priority t) 5 \<le> dict_get (priority t') 5" "bounty_min t' = bounty_min t"
       "bounty_max t' = bounty_max t" "last_full_hunt_at t' = last_full_hunt_at t"
       "total_findings t' = total_findings t"
    unfolding score_target_def
    by (intro py_round2_mono raw_score_mono[OF assms] manual_mono)
       (use that in \<open>simp_all add: bounty_factor_def bounty_avg_def findings_rate_def
          staleness_def\<close>)
  show ?thesis
    using b s p staleness_cap by blast
qed

lemmas score_defs = score_target_def raw_score_def py_round2_def bounty_factor_def
  bounty_avg_def staleness_def findings_rate_def manual_def dict_get_def Let_def

lemma day_old:
  "bounty_avg \<lparr>bounty_min = Some 0, bounty_max = Some 2000, last_full_hunt_at = Some 0,
               total_findings = Some 0, priority = Some 5\<rparr> = 1000"
  "bounty_avg \<lparr>bounty_min = Some 0, bounty_max = Some 4000, last_full_hunt_at = Some 0,
               total_findings = Some 0, priority = Some 5\<rparr> = 2000"
  "staleness 86400000000
     \<lparr>bounty_min = Some 0, bounty_max = Some 2000, last_full_hunt_at = Some 0,
      total_findings = Some 0, priority = Some 5\<rparr> = 1"
  "staleness 86400000000
     \<lparr>bounty_min = Some 0, bounty_max = Some 2000, last_full_hunt_at = None,
      total_findings = Some 0, priority = Some 5\<rparr> = 10"
  "score_target 86400000000
     \<lparr>bounty_min = Some 0, bounty_max = Some 2000, last_full_hunt_at = Some 0,
      total_findings = Some 0, priority = Some 5\<rparr> = 1"
  "score_target 86400000000
     \<lparr>bounty_min = Some 0, bounty_max = Some 4000, last_full_hunt_at = Some 0,
      total_findings = Some 0, priority = Some 5\<rparr> = 2"
  "score_target 86400000000
     \<lparr>bounty_min = Some 0, bounty_max = Some 2000, last_full_hunt_at = None,
      total_findings = Some 0, priority = Some 5\<rparr> = 10"
  "score_target 86400000000
     \<lparr>bounty_min = Some 0, bounty_max = Some 2000, last_full_hunt_at = Some 0,
      total_findings = Some 0, priority = Some 10\<rparr> = 2"
  unfolding score_defs by code_simp+

theorem score_target_monotone_witness:
  "plausible 86400000000
     \<lparr>bounty_min = Some 0, bounty_max = Some 2000, last_full_hunt_at = Some 0,
      total_findings = Some 0, priority = Some 5\<rparr>
   \<and> plausible 86400000000
       \<lparr>bounty_min = Some 0, bounty_max = Some 4000, last_full_hunt_at = Some 0,
        total_findings = Some 0, priority = Some 5\<rparr>
   \<and> plausible 86400000000
       \<lparr>bounty_min = Some 0, bounty_max = Some 2000, last_full_hunt_at = None,
        total_findings = Some 0, priority = Some 5\<rparr>
   \<and> plausible 86400000000
       \<lparr>bounty_min = Some 0, bounty_max = Some 2000, last_full_hunt_at = Some 0,
        total_findings = Some 0, priority = Some 10\<rparr>
   \<and> bounty_avg \<lparr>bounty_min = Some 0, bounty_max = Some 2000, last_full_hunt_at = Some 0,
                  total_findings = Some 0, priority = Some 5\<rparr>
     \<le> bounty_avg \<lparr>bounty_min = Some 0, bounty_max = Some 4000, last_full_hunt_at = Some 0,
                    total_findings = Some 0, priority = Some 5\<rparr>
   \<and> staleness 86400000000
       \<lparr>bounty_min = Some 0, bounty_max = Some 2000, last_full_hunt_at = Some 0,
        total_findings = Some 0, priority = Some 5\<rparr>
     \<le> staleness 86400000000
       \<lparr>bounty_min = Some 0, bounty_max = Some 2000, last_full_hunt_at = None,
        total_findings = Some 0, priority = Some 5\<rparr>
   \<and> score_target 86400000000
       \<lparr>bounty_min = Some 0, bounty_max = Some 2000, last_full_hunt_at = Some 0,
        total_findings = Some 0, priority = Some 5\<rparr>
     \<le> score_target 86400000000
       \<lparr>bounty_min = Some 0, bounty_max = Some 4000, last_full_hunt_at = Some 0,
        total_findings = Some 0, priority = Some 5\<rparr>
   \<and> score_target 86400000000
       \<lparr>bounty_min = Some 0, bounty_max = Some 2000, last_full_hunt_at = Some 0,
        total_findings = Some 0, priority = Some 5\<rparr>
     \<le> score_target 86400000000
       \<lparr>bounty_min = Some 0, bounty_max = Some 2000, last_full_hunt_at = None,
        total_findings = Some 0, priority = Some 5\<rparr>
   \<and> score_target 86400000000
       \<lparr>bounty_min = Some 0, bounty_max = Some 2000, last_full_hunt_at = Some 0,
        total_findings = Some 0, priority = Some 5\<rparr>
     \<le> score_target 86400000000
       \<lparr>bounty_min = Some 0, bounty_max = Some 2000, last_full_hunt_at = Some 0,
        total_findings = Some 0, priority = Some 10\<rparr>
   \<and> score_target 86400000000
       \<lparr>bounty_min = Some 0, bounty_max = Some 2000, last_full_hunt_at = Some 0,
        total_findings = Some 0, priority = Some 5\<rparr> = 1
   \<and> score_target 86400000000
       \<lparr>bounty_min = Some 0, bounty_max = Some 4000, last_full_hunt_at = Some 0,
        total_findings = Some 0, priority = Some 5\<rparr> = 2
   \<and> score_target 86400000000
       \<lparr>bounty_min = Some 0, bounty_max = Some 2000, last_full_hunt_at = None,
        total_findings = Some 0, priority = Some 5\<rparr> = 10
   \<and> score_target 86400000000
       \<lparr>bounty_min = Some 0, bounty_max = Some 2000, last_full_hunt_at = Some 0,
        total_findings = Some 0, priority = Some 10\<rparr> = 2"
proof -
  let ?t = "\<lparr>bounty_min = Some 0, bounty_max = Some 2000, last_full_hunt_at = Some (0::int),
             total_findings = Some 0, priority = Some 5\<rparr>"
  let ?b = "\<lparr>bounty_min = Some 0, bounty_max = Some 4000, last_full_hunt_at = Some (0::int),
             total_findings = Some 0, priority = Some 5\<rparr>"
  let ?s = "\<lparr>bounty_min = Some 0, bounty_max = Some 2000, last_full_hunt_at = None,
             total_findings = Some 0, priority = Some 5\<rparr>"
  let ?p = "\<lparr>bounty_min = Some 0, bounty_max = Some 2000, last_full_hunt_at = Some (0::int),
             total_findings = Some 0, priority = Some 10\<rparr>"
  have pl: "plausible 86400000000 ?t" "plausible 86400000000 ?b" "plausible 86400000000 ?s"
      "plausible 86400000000 ?p"
    by (simp_all add: plausible_def sqlite_integer_def dict_get_def)
  have h: "bounty_avg ?t \<le> bounty_avg ?b" "staleness 86400000000 ?t \<le> staleness 86400000000 ?s"
    by (simp_all add: day_old)
  have b: "score_target 86400000000 ?t \<le> score_target 86400000000 ?b"
    using score_target_monotone[OF pl(1) pl(2)] h(1) by simp
  have s: "score_target 86400000000 ?t \<le> score_target 86400000000 ?s"
    using score_target_monotone[OF pl(1) pl(3)] h(2) by simp
  have p: "score_target 86400000000 ?t \<le> score_target 86400000000 ?p"
    using score_target_monotone[OF pl(1) pl(4)] by (simp add: dict_get_def)
  show ?thesis
    using pl h b s p by (simp add: day_old)
qed

text \<open>
  C6, as the claim states it, fails. Two targets that differ in the bounty midpoint only
  (1000 and 1001, both above the floor) score 2.0 alike, and two that differ in the manual
  priority only (1 and 10, hunted 864 seconds ago) score 0.0 alike, because the score is
  rounded to two decimals. And the product itself is the same for the bounty maxima
  \<open>2\<^sup>5\<^sup>4\<close> and \<open>2\<^sup>5\<^sup>4 + 2\<close>, whose midpoints round to the same float.
\<close>

theorem score_target_not_strict:
  "bounty_avg \<lparr>bounty_min = Some 0, bounty_max = Some 2000, last_full_hunt_at = None,
               total_findings = Some 0, priority = Some 1\<rparr> = 1000
   \<and> bounty_avg \<lparr>bounty_min = Some 0, bounty_max = Some 2002, last_full_hunt_at = None,
               total_findings = Some 0, priority = Some 1\<rparr> = 1001
   \<and> score_target 0 \<lparr>bounty_min = Some 0, bounty_max = Some 2000, last_full_hunt_at = None,
                      total_findings = Some 0, priority = Some 1\<rparr> = 2
   \<and> score_target 0 \<lparr>bounty_min = Some 0, bounty_max = Some 2002, last_full_hunt_at = None,
                      total_findings = Some 0, priority = Some 1\<rparr> = 2
   \<and> score_target 864000000
         \<lparr>bounty_min = Some 0, bounty_max = Some 0, last_full_hunt_at = Some 0,
          total_findings = Some 0, priority = Some 1\<rparr> = 0
   \<and> score_target 864000000
         \<lparr>bounty_min = Some 0, bounty_max = Some 0, last_full_hunt_at = Some 0,
          total_findings = Some 0, priority = Some 10\<rparr> = 0
   \<and> raw_score 0 \<lparr>bounty_min = Some 0, bounty_max = Some 18014398509481984,
                    last_full_hunt_at = None, total_findings = Some 0, priority = Some 5\<rparr>
     = raw_score 0 \<lparr>bounty_min = Some 0, bounty_max = Some 18014398509481986,
                      last_full_hunt_at = None, total_findings = Some 0, priority = Some 5\<rparr>"
proof -
  have a: "bounty_avg \<lparr>bounty_min = Some 0, bounty_max = Some 2000, last_full_hunt_at = None,
               total_findings = Some 0, priority = Some 1\<rparr> = 1000"
      "bounty_avg \<lparr>bounty_min = Some 0, bounty_max = Some 2002, last_full_hunt_at = None,
               total_findings = Some 0, priority = Some 1\<rparr> = 1001"
    unfolding score_defs by code_simp+
  have b: "score_target 0 \<lparr>bounty_min = Some 0, bounty_max = Some 2000, last_full_hunt_at = None,
                      total_findings = Some 0, priority = Some 1\<rparr> = 2"
      "score_target 0 \<lparr>bounty_min = Some 0, bounty_max = Some 2002, last_full_hunt_at = None,
                      total_findings = Some 0, priority = Some 1\<rparr> = 2"
    unfolding score_defs by code_simp+
  have c: "score_target 864000000
         \<lparr>bounty_min = Some 0, bounty_max = Some 0, last_full_hunt_at = Some 0,
          total_findings = Some 0, priority = Some 1\<rparr> = 0"
      "score_target 864000000
         \<lparr>bounty_min = Some 0, bounty_max = Some 0, last_full_hunt_at = Some 0,
          total_findings = Some 0, priority = Some 10\<rparr> = 0"
    unfolding score_defs by code_simp+
  have d: "raw_score 0 \<lparr>bounty_min = Some 0, bounty_max = Some 18014398509481984,
                    last_full_hunt_at = None, total_findings = Some 0, priority = Some 5\<rparr>
     = raw_score 0 \<lparr>bounty_min = Some 0, bounty_max = Some 18014398509481986,
                      last_full_hunt_at = None, total_findings = Some 0, priority = Some 5\<rparr>"
    unfolding score_defs by code_simp
  show ?thesis
    using a b c d by simp
qed

section \<open>The cross-target pattern store\<close>

lemma direct_loop_shape:
  "direct_loop td ps seen hyps =
     hyps @ map (\<lambda>(n, p). direct_hypothesis td n (the (p_finding_type p)) p)
              (zip [length hyps..<length hyps + length (selected seen ps)] (selected seen ps))"
proof (induction ps arbitrary: seen hyps)
  case Nil
  then show ?case by simp
next
  case (Cons pat rest)
  show ?case
  proof (cases "p_finding_type pat")
    case None
    then show ?thesis using Cons.IH[of seen hyps] by simp
  next
    case (Some ftype)
    show ?thesis
    proof (cases "ftype \<noteq> [] \<and> ftype \<notin> seen")
      case True
      have "[length hyps..<length hyps + Suc k] = length hyps # [Suc (length hyps)..<Suc (length hyps) + k]" for k
        by (simp add: upt_conv_Cons)
      then show ?thesis
        using Some True Cons.IH[of "insert ftype seen" "hyps @ [direct_hypothesis td (length hyps) ftype pat]"]
        by simp
    next
      case False
      then show ?thesis using Some Cons.IH[of seen hyps] by auto
    qed
  qed
qed

lemma direct_loop_direct_part:
  "direct_loop td ps {} [] = direct_part td (selected {} ps)"
  by (simp add: direct_loop_shape direct_part_def)

lemma tech_loop_shape:
  "\<exists>tech. tech_loop tlow es hyps = hyps @ tech \<and> (\<forall>h \<in> set tech. h_confidence h = ''low'')"
proof (induction es arbitrary: hyps)
  case Nil
  then show ?case by simp
next
  case (Cons entry rest)
  show ?case
  proof (cases "\<exists>t \<in> set tlow. contains t (fst (snd entry))")
    case True
    obtain tech where t: "tech_loop tlow rest (hyps @ [tech_hypothesis (length hyps) entry])
        = (hyps @ [tech_hypothesis (length hyps) entry]) @ tech" "\<forall>h \<in> set tech. h_confidence h = ''low''"
      using Cons.IH by blast
    have low: "h_confidence (tech_hypothesis (length hyps) entry) = ''low''"
      by (simp add: tech_hypothesis_def split: prod.splits)
    show ?thesis
      using True t low
      by (intro exI[of _ "tech_hypothesis (length hyps) entry # tech"]) simp
  next
    case False
    then show ?thesis using Cons.IH[of hyps] by simp
  qed
qed

lemma direct_part_medium: "\<forall>h \<in> set (direct_part td sel). h_confidence h = ''medium''"
  by (auto simp: direct_part_def direct_hypothesis_def)

lemma selected_sound:
  "p \<in> set (selected seen ps) \<Longrightarrow>
     p \<in> set ps \<and> typed p \<and> the (p_finding_type p) \<notin> seen"
proof (induction ps arbitrary: seen)
  case Nil
  then show ?case by simp
next
  case (Cons pat rest)
  show ?case
  proof (cases "p_finding_type pat")
    case None
    then have "p \<in> set (selected seen rest)" using Cons.prems by simp
    then show ?thesis using Cons.IH by simp
  next
    case (Some ftype)
    show ?thesis
    proof (cases "ftype \<noteq> [] \<and> ftype \<notin> seen")
      case True
      then consider "p = pat" | "p \<in> set (selected (insert ftype seen) rest)"
        using Cons.prems Some by auto
      then show ?thesis
      proof cases
        case 1
        then show ?thesis using Some True by (simp add: typed_def)
      next
        case 2
        then show ?thesis using Cons.IH[OF 2] by simp
      qed
    next
      case False
      then have "p \<in> set (selected seen rest)" using Cons.prems Some by auto
      then show ?thesis using Cons.IH by simp
    qed
  qed
qed

lemma selected_fresh:
  "Some ftype \<notin> p_finding_type ` set (selected (insert ftype seen) ps)"
proof
  assume "Some ftype \<in> p_finding_type ` set (selected (insert ftype seen) ps)"
  then obtain q where q: "q \<in> set (selected (insert ftype seen) ps)"
      and t: "p_finding_type q = Some ftype"
    by (metis imageE)
  show False using selected_sound[OF q] t by simp
qed

lemma selected_distinct: "distinct (map p_finding_type (selected seen ps))"
proof (induction ps arbitrary: seen)
  case Nil
  then show ?case by simp
next
  case (Cons pat rest)
  show ?case
  proof (cases "p_finding_type pat")
    case None
    then show ?thesis using Cons.IH by simp
  next
    case (Some ftype)
    then show ?thesis using Cons.IH selected_fresh[of ftype seen rest] by simp
  qed
qed

lemma selected_first:
  "p \<in> set (selected seen ps) \<Longrightarrow>
     List.find (\<lambda>q. p_finding_type q = p_finding_type p) ps = Some p"
proof (induction ps arbitrary: seen)
  case Nil
  then show ?case by simp
next
  case (Cons pat rest)
  have tp: "typed p" using selected_sound[OF Cons.prems] by simp
  show ?case
  proof (cases "p_finding_type pat")
    case None
    then have mem: "p \<in> set (selected seen rest)" using Cons.prems by simp
    have "p_finding_type pat \<noteq> p_finding_type p"
      using None tp by (auto simp: typed_def)
    then show ?thesis using Cons.IH[OF mem] by simp
  next
    case (Some ftype)
    show ?thesis
    proof (cases "ftype \<noteq> [] \<and> ftype \<notin> seen")
      case True
      then consider "p = pat" | "p \<noteq> pat" "p \<in> set (selected (insert ftype seen) rest)"
        using Cons.prems Some by auto
      then show ?thesis
      proof cases
        case 1
        then show ?thesis by simp
      next
        case 2
        have "the (p_finding_type p) \<noteq> ftype" using selected_sound[OF 2(2)] by simp
        then have "p_finding_type pat \<noteq> p_finding_type p" using Some by (metis option.sel)
        then show ?thesis using Cons.IH[OF 2(2)] by simp
      qed
    next
      case False
      then have mem: "p \<in> set (selected seen rest)" using Cons.prems Some by auto
      have "the (p_finding_type p) \<notin> seen" "the (p_finding_type p) \<noteq> []"
        using selected_sound[OF Cons.prems] tp by (auto simp: typed_def split: option.splits)
      then have "p_finding_type pat \<noteq> p_finding_type p" using Some False by (metis option.sel)
      then show ?thesis using Cons.IH[OF mem] by simp
    qed
  qed
qed

lemma selected_complete:
  "q \<in> set ps \<Longrightarrow> typed q \<Longrightarrow>
     p_finding_type q \<in> p_finding_type ` set (selected seen ps) \<or> the (p_finding_type q) \<in> seen"
proof (induction ps arbitrary: seen)
  case Nil
  then show ?case by simp
next
  case (Cons pat rest)
  show ?case
  proof (cases "q = pat")
    case True
    then show ?thesis using Cons.prems(2)
      by (auto simp: typed_def split: option.splits)
  next
    case False
    then have q: "q \<in> set rest" using Cons.prems by simp
    show ?thesis
    proof (cases "p_finding_type pat")
      case None
      then show ?thesis using Cons.IH[OF q Cons.prems(2), of seen] by simp
    next
      case (Some ftype)
      show ?thesis
      proof (cases "ftype \<noteq> [] \<and> ftype \<notin> seen")
        case True
        then show ?thesis
          using Some Cons.IH[OF q Cons.prems(2), of "insert ftype seen"] Cons.prems(2)
          by (auto simp: typed_def split: option.splits)
      next
        case False
        then show ?thesis using Some Cons.IH[OF q Cons.prems(2), of seen] by auto
      qed
    qed
  qed
qed

lemma find_filter: "List.find Q (filter P xs) = List.find (\<lambda>x. P x \<and> Q x) xs"
  by (induction xs) auto

text \<open>
  C7. Of the pattern log only the patterns of other targets count. Among them the first
  loop selects, in log order, the first pattern of every non-empty finding type (\<open>sel\<close>):
  no two selected patterns share a type, each is the first pattern of another target with
  its type, and every type seen on another target is selected. Hypothesis \<open>i\<close> of the
  direct part is the medium-confidence card built from selected pattern \<open>i\<close> and cites its
  source domain. The result is the direct part followed by low-confidence tech-stack
  cards, cut at 15.
\<close>

theorem get_transfer_hypotheses_direct_first:
  "let others = other_targets target_domain patterns;
       sel = selected {} others;
       direct = direct_part target_domain sel;
       result = get_transfer_hypotheses patterns target_domain tech_stack
   in (\<exists>tech. result = take 15 (direct @ tech) \<and> (\<forall>h \<in> set tech. h_confidence h = ''low''))
    \<and> (\<forall>h \<in> set direct. h_confidence h = ''medium'')
    \<and> length direct = length sel
    \<and> (\<forall>i < length sel.
          direct ! i = direct_hypothesis target_domain i (the (p_finding_type (sel ! i))) (sel ! i)
          \<and> h_reasoning (direct ! i)
              = ''Successfully exploited on '' @ str_opt (p_source_domain (sel ! i)))
    \<and> distinct (map p_finding_type sel)
    \<and> (\<forall>p \<in> set sel.
          p \<in> set patterns \<and> p_source_domain p \<noteq> Some target_domain \<and> typed p
          \<and> List.find (\<lambda>q. p_source_domain q \<noteq> Some target_domain
                             \<and> p_finding_type q = p_finding_type p) patterns = Some p)
    \<and> (\<forall>q \<in> set patterns.
          p_source_domain q \<noteq> Some target_domain \<and> typed q
          \<longrightarrow> p_finding_type q \<in> p_finding_type ` set sel)
    \<and> length result \<le> 15"
proof -
  define others where "others = other_targets target_domain patterns"
  define sel where "sel = selected {} others"
  define direct where "direct = direct_part target_domain sel"
  define result where "result = get_transfer_hypotheses patterns target_domain tech_stack"
  obtain tech where tech:
      "tech_loop (map lower tech_stack) TRANSFERABLE_PATTERNS direct = direct @ tech"
      "\<forall>h \<in> set tech. h_confidence h = ''low''"
    using tech_loop_shape by blast
  have res: "result = take 15 (direct @ tech)"
    using tech(1)
    by (simp add: result_def get_transfer_hypotheses_def direct_def sel_def others_def
          other_targets_def direct_loop_direct_part)
  have c1: "\<exists>tech. result = take 15 (direct @ tech) \<and> (\<forall>h \<in> set tech. h_confidence h = ''low'')"
    using res tech(2) by blast
  have c2: "\<forall>h \<in> set direct. h_confidence h = ''medium''"
    unfolding direct_def by (rule direct_part_medium)
  have c3: "length direct = length sel"
    by (simp add: direct_def direct_part_def)
  have c4: "\<forall>i < length sel.
          direct ! i = direct_hypothesis target_domain i (the (p_finding_type (sel ! i))) (sel ! i)
          \<and> h_reasoning (direct ! i)
              = ''Successfully exploited on '' @ str_opt (p_source_domain (sel ! i))"
    by (simp add: direct_def direct_part_def direct_hypothesis_def)
  have c5: "distinct (map p_finding_type sel)"
    unfolding sel_def by (rule selected_distinct)
  have c6: "\<forall>p \<in> set sel.
          p \<in> set patterns \<and> p_source_domain p \<noteq> Some target_domain \<and> typed p
          \<and> List.find (\<lambda>q. p_source_domain q \<noteq> Some target_domain
                             \<and> p_finding_type q = p_finding_type p) patterns = Some p"
  proof
    fix p
    assume p: "p \<in> set sel"
    have mem: "p \<in> set others" "typed p"
      using selected_sound[of p "{}" others] p by (simp_all add: sel_def)
    have first: "List.find (\<lambda>q. p_finding_type q = p_finding_type p) others = Some p"
      using selected_first[of p "{}" others] p by (simp add: sel_def)
    show "p \<in> set patterns \<and> p_source_domain p \<noteq> Some target_domain \<and> typed p
          \<and> List.find (\<lambda>q. p_source_domain q \<noteq> Some target_domain
                             \<and> p_finding_type q = p_finding_type p) patterns = Some p"
      using mem first by (simp add: others_def other_targets_def find_filter)
  qed
  have c7: "\<forall>q \<in> set patterns.
          p_source_domain q \<noteq> Some target_domain \<and> typed q
          \<longrightarrow> p_finding_type q \<in> p_finding_type ` set sel"
  proof (intro ballI impI)
    fix q
    assume q: "q \<in> set patterns" "p_source_domain q \<noteq> Some target_domain \<and> typed q"
    then have "q \<in> set others" by (simp add: others_def other_targets_def)
    then show "p_finding_type q \<in> p_finding_type ` set sel"
      using selected_complete[of q others "{}"] q(2) by (simp add: sel_def)
  qed
  have c8: "length result \<le> 15"
    by (simp add: res)
  show ?thesis
    using c1 c2 c3 c4 c5 c6 c7 c8
    unfolding Let_def others_def[symmetric] sel_def[symmetric] direct_def[symmetric]
      result_def[symmetric]
    by blast
qed

text \<open>
  The scenario of C7: the log holds an \<^verbatim>\<open>idor\<close> pattern from \<^verbatim>\<open>a.com\<close>; the
  hypotheses for \<^verbatim>\<open>b.com\<close> are one direct-transfer card citing \<^verbatim>\<open>a.com\<close>, and they
  stay the same when a second \<^verbatim>\<open>idor\<close> pattern from \<^verbatim>\<open>c.com\<close> and a pattern of
  \<^verbatim>\<open>b.com\<close> itself are in the log.
\<close>

theorem get_transfer_hypotheses_direct_first_witness:
  "get_transfer_hypotheses
     [\<lparr>p_source_domain = Some ''a.com'', p_finding_type = Some ''idor'',
       p_category = Some ''idor'', p_technique = Some ''IDOR in /api/users'',
       p_payload = Some ''id=2'', p_severity = Some ''high'',
       p_discovered_at = Some ''2024-01-01T00:00:00''\<rparr>] ''b.com'' []
     = [\<lparr>h_id = ''CT-001'', h_hypothesis = ''idor found on a.com - test on b.com'',
         h_category = Some ''idor'', h_confidence = ''medium'',
         h_reasoning = ''Successfully exploited on a.com'', h_test_method = ''curl'',
         h_payload = Some ''id=2'', h_success_indicator = ''Same behavior as on a.com''\<rparr>]
   \<and> get_transfer_hypotheses
     [\<lparr>p_source_domain = Some ''b.com'', p_finding_type = Some ''xss'',
       p_category = Some ''xss'', p_technique = Some ''XSS in search'',
       p_payload = Some ''<svg>'', p_severity = Some ''low'',
       p_discovered_at = Some ''2024-01-01T00:00:00''\<rparr>,
      \<lparr>p_source_domain = Some ''a.com'', p_finding_type = Some ''idor'',
       p_category = Some ''idor'', p_technique = Some ''IDOR in /api/users'',
       p_payload = Some ''id=2'', p_severity = Some ''high'',
       p_discovered_at = Some ''2024-01-01T00:00:00''\<rparr>,
      \<lparr>p_source_domain = Some ''c.com'', p_finding_type = Some ''idor'',
       p_category = Some ''idor'', p_technique = Some ''IDOR in /orders'',
       p_payload = Some ''order=7'', p_severity = Some ''medium'',
       p_discovered_at = Some ''2024-02-01T00:00:00''\<rparr>] ''b.com'' []
     = [\<lparr>h_id = ''CT-001'', h_hypothesis = ''idor found on a.com - test on b.com'',
         h_category = Some ''idor'', h_confidence = ''medium'',
         h_reasoning = ''Successfully exploited on a.com'', h_test_method = ''curl'',
         h_payload = Some ''id=2'', h_success_indicator = ''Same behavior as on a.com''\<rparr>]
   \<and> selected {} (other_targets ''b.com''
     [\<lparr>p_source_domain = Some ''b.com'', p_finding_type = Some ''xss'',
       p_category = Some ''xss'', p_technique = Some ''XSS in search'',
       p_payload = Some ''<svg>'', p_severity = Some ''low'',
       p_discovered_at = Some ''2024-01-01T00:00:00''\<rparr>,
      \<lparr>p_source_domain = Some ''a.com'', p_finding_type = Some ''idor'',
       p_category = Some ''idor'', p_technique = Some ''IDOR in /api/users'',
       p_payload = Some ''id=2'', p_severity = Some ''high'',
       p_discovered_at = Some ''2024-01-01T00:00:00''\<rparr>,
      \<lparr>p_source_domain = Some ''c.com'', p_finding_type = Some ''idor'',
       p_category = Some ''idor'', p_technique = Some ''IDOR in /orders'',
       p_payload = Some ''order=7'', p_severity = Some ''medium'',
       p_discovered_at = Some ''2024-02-01T00:00:00''\<rparr>])
     = [\<lparr>p_source_domain = Some ''a.com'', p_finding_type = Some ''idor'',
         p_category = Some ''idor'', p_technique = Some ''IDOR in /api/users'',
         p_payload = Some ''id=2'', p_severity = Some ''high'',
         p_discovered_at = Some ''2024-01-01T00:00:00''\<rparr>]
   \<and> length (get_transfer_hypotheses
     [\<lparr>p_source_domain = Some ''b.com'', p_finding_type = Some ''xss'',
       p_category = Some ''xss'', p_technique = Some ''XSS in search'',
       p_payload = Some ''<svg>'', p_severity = Some ''low'',
       p_discovered_at = Some ''2024-01-01T00:00:00''\<rparr>,
      \<lparr>p_source_domain = Some ''a.com'', p_finding_type = Some ''idor'',
       p_category = Some ''idor'', p_technique = Some ''IDOR in /api/users'',
       p_payload = Some ''id=2'', p_severity = Some ''high'',
       p_discovered_at = Some ''2024-01-01T00:00:00''\<rparr>,
      \<lparr>p_source_domain = Some ''c.com'', p_finding_type = Some ''idor'',
       p_category = Some ''idor'', p_technique = Some ''IDOR in /orders'',
       p_payload = Some ''order=7'', p_severity = Some ''medium'',
       p_discovered_at = Some ''2024-02-01T00:00:00''\<rparr>] ''b.com'' []) \<le> 15"
proof -
  let ?pa = "\<lparr>p_source_domain = Some ''a.com'', p_finding_type = Some ''idor'',
       p_category = Some ''idor'', p_technique = Some ''IDOR in /api/users'',
       p_payload = Some ''id=2'', p_severity = Some ''high'',
       p_discovered_at = Some ''2024-01-01T00:00:00''\<rparr>"
  let ?pb = "\<lparr>p_source_domain = Some ''b.com'', p_finding_type = Some ''xss'',
       p_category = Some ''xss'', p_technique = Some ''XSS in search'',
       p_payload = Some ''<svg>'', p_severity = Some ''low'',
       p_discovered_at = Some ''2024-01-01T00:00:00''\<rparr>"
  let ?pc = "\<lparr>p_source_domain = Some ''c.com'', p_finding_type = Some ''idor'',
       p_category = Some ''idor'', p_technique = Some ''IDOR in /orders'',
       p_payload = Some ''order=7'', p_severity = Some ''medium'',
       p_discovered_at = Some ''2024-02-01T00:00:00''\<rparr>"
  have one: "get_transfer_hypotheses [?pa] ''b.com'' []
     = [\<lparr>h_id = ''CT-001'', h_hypothesis = ''idor found on a.com - test on b.com'',
         h_category = Some ''idor'', h_confidence = ''medium'',
         h_reasoning = ''Successfully exploited on a.com'', h_test_method = ''curl'',
         h_payload = Some ''id=2'', h_success_indicator = ''Same behavior as on a.com''\<rparr>]"
    by (simp add: get_transfer_hypotheses_def direct_hypothesis_def pad3_def show_nat.simps
          digit_char_def str_opt_def TRANSFERABLE_PATTERNS_def numeral_2_eq_2)
  have three: "get_transfer_hypotheses [?pb, ?pa, ?pc] ''b.com'' []
     = [\<lparr>h_id = ''CT-001'', h_hypothesis = ''idor found on a.com - test on b.com'',
         h_category = Some ''idor'', h_confidence = ''medium'',
         h_reasoning = ''Successfully exploited on a.com'', h_test_method = ''curl'',
         h_payload = Some ''id=2'', h_success_indicator = ''Same behavior as on a.com''\<rparr>]"
    by (simp add: get_transfer_hypotheses_def direct_hypothesis_def pad3_def show_nat.simps
          digit_char_def str_opt_def TRANSFERABLE_PATTERNS_def numeral_2_eq_2)
  have sel: "selected {} (other_targets ''b.com'' [?pb, ?pa, ?pc]) = [?pa]"
    by (simp add: other_targets_def)
  show ?thesis
    using get_transfer_hypotheses_direct_first[of "''b.com''" "[?pb, ?pa, ?pc]" "[]"]
          one three sel
    by (simp add: Let_def)
qed

end
